theory Spec2Isabelle
  imports Complex_Main "HOL-Library.Monad_Syntax"
begin

section \<open>Numbers, vectors and the data model\<close>

text \<open>
  The TypeScript type \<^verbatim>\<open>number\<close> is read as \<^typ>\<open>real\<close>. The rounding of IEEE
  doubles is made explicit for \<^verbatim>\<open>calculateForce\<close> alone, in the functions with the
  suffix \<open>R\<close> below; overflow is outside this development. A JavaScript division
  never throws; by zero it yields \<^verbatim>\<open>Infinity\<close> or \<^verbatim>\<open>NaN\<close>, which no real number
  stands for. Every \<^verbatim>\<open>/\<close> of the source is therefore \<open>jsDivide\<close>, whose value \<open>None\<close>
  says that the quotient is not a finite number; a function that divides returns an
  \<open>option\<close>, and \<open>None\<close> means that some division of the run had a zero divisor.
\<close>

definition jsDivide :: "real \<Rightarrow> real \<Rightarrow> real option" where
  "jsDivide a b = (if b = 0 then None else Some (a / b))"

text \<open>\<^verbatim>\<open>Array.prototype.map\<close> with a callback that may leave the finite numbers.\<close>

fun mapM :: "('a \<Rightarrow> 'b option) \<Rightarrow> 'a list \<Rightarrow> 'b list option" where
  "mapM f [] = Some []"
| "mapM f (x # xs) = do { y \<leftarrow> f x; ys \<leftarrow> mapM f xs; Some (y # ys) }"

type_synonym vec3 = "real \<times> real \<times> real"

abbreviation at0 :: "vec3 \<Rightarrow> real" where "at0 v \<equiv> fst v"
abbreviation at1 :: "vec3 \<Rightarrow> real" where "at1 v \<equiv> fst (snd v)"
abbreviation at2 :: "vec3 \<Rightarrow> real" where "at2 v \<equiv> snd (snd v)"

text \<open>
  \<^verbatim>\<open>interface Particle\<close> of store.ts. The field \<^verbatim>\<open>id\<close> is \<open>id_p\<close> here. The levels
  are the integers among the numbers. \<open>color\<close> is \<open>None\<close> for JavaScript's
  \<^verbatim>\<open>undefined\<close>, which a palette lookup outside the palette returns.
\<close>

record Particle =
  id_p :: string
  position :: vec3
  momentum :: vec3
  mass :: real
  charge :: real
  holarchyLevel :: int
  energy :: real
  color :: "string option"

text \<open>\<^verbatim>\<open>interface HolarchicMemoryNode\<close> of store.ts; \<^verbatim>\<open>id\<close> and \<^verbatim>\<open>position\<close> are
  \<open>id_n\<close> and \<open>position_n\<close> here.\<close>

record HolarchicMemoryNode =
  id_n :: string
  level :: int
  position_n :: vec3
  children :: "string list"
  parent :: "string option"
  activationEnergy :: real
  memoryStrength :: real

record PhysicsConfig =
  springConstant :: real
  dampingFactor :: real
  gravitationalConstant :: real
  couplingStrength :: real
  timeScale :: real

text \<open>\<^verbatim>\<open>interface EnergyResult\<close>; its fields \<^verbatim>\<open>kinetic\<close>, \<^verbatim>\<open>potential\<close> and
  \<^verbatim>\<open>total\<close> carry the suffix \<open>_e\<close> here.\<close>

record EnergyResult =
  kinetic_e :: real
  potential_e :: real
  total_e :: real

record MemoryConfig =
  decayRate :: real
  synchronizationStrength :: real
  activationThreshold :: real

datatype GestureMode = attract | repel | spawn | destroy

section \<open>hamiltonian.ts\<close>

subsection \<open>Vector operations\<close>

definition vec3Add :: "vec3 \<Rightarrow> vec3 \<Rightarrow> vec3" where
  "vec3Add a b = (at0 a + at0 b, at1 a + at1 b, at2 a + at2 b)"

definition vec3Sub :: "vec3 \<Rightarrow> vec3 \<Rightarrow> vec3" where
  "vec3Sub a b = (at0 a - at0 b, at1 a - at1 b, at2 a - at2 b)"

definition vec3Scale :: "vec3 \<Rightarrow> real \<Rightarrow> vec3" where
  "vec3Scale v s = (at0 v * s, at1 v * s, at2 v * s)"

definition vec3Dot :: "vec3 \<Rightarrow> vec3 \<Rightarrow> real" where
  "vec3Dot a b = at0 a * at0 b + at1 a * at1 b + at2 a * at2 b"

definition vec3Length :: "vec3 \<Rightarrow> real" where
  "vec3Length v = sqrt (at0 v * at0 v + at1 v * at1 v + at2 v * at2 v)"

definition vec3Normalize :: "vec3 \<Rightarrow> vec3 option" where
  "vec3Normalize v =
     (let len = vec3Length v in
      if len = 0 then Some (0, 0, 0)
      else do { inv \<leftarrow> jsDivide 1 len; Some (vec3Scale v inv) })"

subsection \<open>calculateForce\<close>

text \<open>
  The body of the loop over \<^verbatim>\<open>allParticles\<close> (lines 85 to 110): from the force
  accumulated so far to the force after the iteration for \<open>other\<close>. Both
  \<^verbatim>\<open>continue\<close> statements return the accumulator as it is.
\<close>

definition interactionStep :: "PhysicsConfig \<Rightarrow> Particle \<Rightarrow> vec3 \<Rightarrow> Particle \<Rightarrow> vec3 option" where
  "interactionStep config particle force other =
     (if id_p other = id_p particle then Some force
      else
        let diff = vec3Sub (position other) (position particle);
            distance = vec3Length diff
        in
        if distance < 0.1 then Some force
        else do {
          direction \<leftarrow> vec3Normalize diff;
          gravMagnitude \<leftarrow>
            jsDivide (gravitationalConstant config * mass particle * mass other)
              (distance * distance);
          let gravForce = vec3Scale direction gravMagnitude;
          let force = vec3Add force gravForce;
          let levelDiff = \<bar>holarchyLevel particle - holarchyLevel other\<bar>;
          holarchicMod \<leftarrow>
            (if levelDiff = 0 then Some 1.0 else jsDivide 0.5 (1 + real_of_int levelDiff));
          chargeMagnitude \<leftarrow>
            jsDivide (couplingStrength config * charge particle * charge other)
              (distance * distance);
          let chargeForce = vec3Scale direction (- chargeMagnitude * holarchicMod);
          Some (vec3Add force chargeForce)
        })"

fun interactionLoop :: "PhysicsConfig \<Rightarrow> Particle \<Rightarrow> Particle list \<Rightarrow> vec3 \<Rightarrow> vec3 option" where
  "interactionLoop config particle [] force = Some force"
| "interactionLoop config particle (other # rest) force =
     do { force' \<leftarrow> interactionStep config particle force other;
          interactionLoop config particle rest force' }"

text \<open>The hand interaction (lines 113 to 127).\<close>

definition handInteraction :: "Particle \<Rightarrow> vec3 option \<Rightarrow> GestureMode \<Rightarrow> vec3 \<Rightarrow> vec3 option" where
  "handInteraction particle handPosition gestureMode force =
     (case handPosition of
        None \<Rightarrow> Some force
      | Some hp \<Rightarrow>
          let toHand = vec3Sub hp (position particle);
              handDist = vec3Length toHand
          in
          if handDist > 0.1 \<and> handDist < 10 then do {
            handDir \<leftarrow> vec3Normalize toHand;
            handStrength \<leftarrow> jsDivide 5 (handDist * handDist);
            (if gestureMode = attract then Some (vec3Add force (vec3Scale handDir handStrength))
             else if gestureMode = repel then Some (vec3Add force (vec3Scale handDir (- handStrength)))
             else Some force)
          }
          else Some force)"

definition calculateForce ::
  "Particle \<Rightarrow> Particle list \<Rightarrow> PhysicsConfig \<Rightarrow> vec3 option \<Rightarrow> GestureMode \<Rightarrow> vec3 option" where
  "calculateForce particle allParticles config handPosition gestureMode =
     do {
       let force = (0, 0, 0);
       let toOrigin = vec3Scale (position particle) (- springConstant config);
       let force = vec3Add force toOrigin;
       inv \<leftarrow> jsDivide 1 (mass particle);
       let velocity = vec3Scale (momentum particle) inv;
       let damping = vec3Scale velocity (- dampingFactor config);
       let force = vec3Add force damping;
       force \<leftarrow> interactionLoop config particle allParticles force;
       handInteraction particle handPosition gestureMode force
     }"

subsection \<open>calculateForce in rounded arithmetic\<close>

text \<open>
  \<open>roundHalfEven\<close> is the nearest integer, the even one of the two when they are equally
  near. \<open>round53 x\<close> is the nearest number with a significand of 53 bits, that is
  \<open>m * 2 ^ (e - 52)\<close> for an integer \<open>m\<close>, where \<open>2 ^ e \<le> \<bar>x\<bar> < 2 ^ (e + 1)\<close>: the IEEE
  double that an operation with the exact result \<open>x\<close> returns (round to nearest, ties to
  even). The exponent is not bounded here, so overflow and subnormal numbers are not
  modelled.
\<close>

definition roundHalfEven :: "real \<Rightarrow> int" where
  "roundHalfEven x =
     (let n = \<lfloor>x\<rfloor>; r = x - real_of_int n in
      if r < 1 / 2 then n else if 1 / 2 < r then n + 1 else if even n then n else n + 1)"

definition round53 :: "real \<Rightarrow> real" where
  "round53 x =
     (if x = 0 then 0
      else let e = \<lfloor>log 2 \<bar>x\<bar>\<rfloor>; ulp = 2 powr (real_of_int e - 52)
           in real_of_int (roundHalfEven (x / ulp)) * ulp)"

text \<open>
  The operations of \<^verbatim>\<open>calculateForce\<close> with the rounding of the arithmetic as a
  parameter \<open>rd\<close>: every \<^verbatim>\<open>+\<close>, \<^verbatim>\<open>-\<close>, \<^verbatim>\<open>*\<close>, \<^verbatim>\<open>/\<close> and \<^verbatim>\<open>Math.sqrt\<close> of the
  source returns \<open>rd\<close> of its exact result, in the order in which the source evaluates
  them (\<^verbatim>\<open>a * b * c\<close> is \<^verbatim>\<open>(a * b) * c\<close>). The literal \<^verbatim>\<open>0.1\<close> is the number
  \<open>rd 0.1\<close>; the literals 1, 0.5, 5 and 10, the levels and the absolute value of their
  difference are numbers of the arithmetic, and a change of sign does not round.
  \<^verbatim>\<open>Math.sqrt\<close> is taken to round the exact root, as IEEE 754 requires of the square
  root. With the identity for \<open>rd\<close> these are the functions above; with \<open>round53\<close> they
  compute as IEEE doubles do.
\<close>

definition vec3AddR :: "(real \<Rightarrow> real) \<Rightarrow> vec3 \<Rightarrow> vec3 \<Rightarrow> vec3" where
  "vec3AddR rd a b = (rd (at0 a + at0 b), rd (at1 a + at1 b), rd (at2 a + at2 b))"

definition vec3SubR :: "(real \<Rightarrow> real) \<Rightarrow> vec3 \<Rightarrow> vec3 \<Rightarrow> vec3" where
  "vec3SubR rd a b = (rd (at0 a - at0 b), rd (at1 a - at1 b), rd (at2 a - at2 b))"

definition vec3ScaleR :: "(real \<Rightarrow> real) \<Rightarrow> vec3 \<Rightarrow> real \<Rightarrow> vec3" where
  "vec3ScaleR rd v s = (rd (at0 v * s), rd (at1 v * s), rd (at2 v * s))"

definition vec3LengthR :: "(real \<Rightarrow> real) \<Rightarrow> vec3 \<Rightarrow> real" where
  "vec3LengthR rd v =
     rd (sqrt (rd (rd (rd (at0 v * at0 v) + rd (at1 v * at1 v)) + rd (at2 v * at2 v))))"

definition jsDivideR :: "(real \<Rightarrow> real) \<Rightarrow> real \<Rightarrow> real \<Rightarrow> real option" where
  "jsDivideR rd a b = (if b = 0 then None else Some (rd (a / b)))"

definition vec3NormalizeR :: "(real \<Rightarrow> real) \<Rightarrow> vec3 \<Rightarrow> vec3 option" where
  "vec3NormalizeR rd v =
     (let len = vec3LengthR rd v in
      if len = 0 then Some (0, 0, 0)
      else do { inv \<leftarrow> jsDivideR rd 1 len; Some (vec3ScaleR rd v inv) })"

definition interactionStepR ::
  "(real \<Rightarrow> real) \<Rightarrow> PhysicsConfig \<Rightarrow> Particle \<Rightarrow> vec3 \<Rightarrow> Particle \<Rightarrow> vec3 option" where
  "interactionStepR rd config particle force other =
     (if id_p other = id_p particle then Some force
      else
        let diff = vec3SubR rd (position other) (position particle);
            distance = vec3LengthR rd diff
        in
        if distance < rd 0.1 then Some force
        else do {
          direction \<leftarrow> vec3NormalizeR rd diff;
          gravMagnitude \<leftarrow>
            jsDivideR rd (rd (rd (gravitationalConstant config * mass particle) * mass other))
              (rd (distance * distance));
          let gravForce = vec3ScaleR rd direction gravMagnitude;
          let force = vec3AddR rd force gravForce;
          let levelDiff = \<bar>holarchyLevel particle - holarchyLevel other\<bar>;
          holarchicMod \<leftarrow>
            (if levelDiff = 0 then Some 1.0
             else jsDivideR rd 0.5 (rd (1 + real_of_int levelDiff)));
          chargeMagnitude \<leftarrow>
            jsDivideR rd (rd (rd (couplingStrength config * charge particle) * charge other))
              (rd (distance * distance));
          let chargeForce = vec3ScaleR rd direction (rd (- chargeMagnitude * holarchicMod));
          Some (vec3AddR rd force chargeForce)
        })"

fun interactionLoopR ::
  "(real \<Rightarrow> real) \<Rightarrow> PhysicsConfig \<Rightarrow> Particle \<Rightarrow> Particle list \<Rightarrow> vec3 \<Rightarrow> vec3 option" where
  "interactionLoopR rd config particle [] force = Some force"
| "interactionLoopR rd config particle (other # rest) force =
     do { force' \<leftarrow> interactionStepR rd config particle force other;
          interactionLoopR rd config particle rest force' }"

definition handInteractionR ::
  "(real \<Rightarrow> real) \<Rightarrow> Particle \<Rightarrow> vec3 option \<Rightarrow> GestureMode \<Rightarrow> vec3 \<Rightarrow> vec3 option" where
  "handInteractionR rd particle handPosition gestureMode force =
     (case handPosition of
        None \<Rightarrow> Some force
      | Some hp \<Rightarrow>
          let toHand = vec3SubR rd hp (position particle);
              handDist = vec3LengthR rd toHand
          in
          if handDist > rd 0.1 \<and> handDist < 10 then do {
            handDir \<leftarrow> vec3NormalizeR rd toHand;
            handStrength \<leftarrow> jsDivideR rd 5 (rd (handDist * handDist));
            (if gestureMode = attract
             then Some (vec3AddR rd force (vec3ScaleR rd handDir handStrength))
             else if gestureMode = repel
             then Some (vec3AddR rd force (vec3ScaleR rd handDir (- handStrength)))
             else Some force)
          }
          else Some force)"

definition calculateForceR ::
  "(real \<Rightarrow> real) \<Rightarrow> Particle \<Rightarrow> Particle list \<Rightarrow> PhysicsConfig \<Rightarrow> vec3 option \<Rightarrow> GestureMode
     \<Rightarrow> vec3 option" where
  "calculateForceR rd particle allParticles config handPosition gestureMode =
     do {
       let force = (0, 0, 0);
       let toOrigin = vec3ScaleR rd (position particle) (- springConstant config);
       let force = vec3AddR rd force toOrigin;
       inv \<leftarrow> jsDivideR rd 1 (mass particle);
       let velocity = vec3ScaleR rd (momentum particle) inv;
       let damping = vec3ScaleR rd velocity (- dampingFactor config);
       let force = vec3AddR rd force damping;
       force \<leftarrow> interactionLoopR rd config particle allParticles force;
       handInteractionR rd particle handPosition gestureMode force
     }"

subsection \<open>Energies\<close>

fun kineticLoop :: "Particle list \<Rightarrow> real \<Rightarrow> real option" where
  "kineticLoop [] acc = Some acc"
| "kineticLoop (p # rest) acc =
     do { let pSquared = vec3Dot (momentum p) (momentum p);
          e \<leftarrow> jsDivide pSquared (2 * mass p);
          kineticLoop rest (acc + e) }"

definition calculateKineticEnergy :: "Particle list \<Rightarrow> real option" where
  "calculateKineticEnergy particles = kineticLoop particles 0"

text \<open>The body of the inner loop of the pairwise potential (lines 157 to 171).\<close>

definition potentialStep :: "PhysicsConfig \<Rightarrow> Particle \<Rightarrow> Particle \<Rightarrow> real \<Rightarrow> real option" where
  "potentialStep config p_i p_j potential =
     (let diff = vec3Sub (position p_j) (position p_i);
          distance = vec3Length diff
      in
      if distance < 0.1 then Some potential
      else do {
        g \<leftarrow> jsDivide (gravitationalConstant config * mass p_i * mass p_j) distance;
        let potential = potential - g;
        let levelDiff = \<bar>holarchyLevel p_i - holarchyLevel p_j\<bar>;
        holarchicMod \<leftarrow>
          (if levelDiff = 0 then Some 1.0 else jsDivide 0.5 (1 + real_of_int levelDiff));
        c \<leftarrow> jsDivide (couplingStrength config * charge p_i * charge p_j * holarchicMod) distance;
        Some (potential + c)
      })"

fun potentialInner :: "PhysicsConfig \<Rightarrow> Particle \<Rightarrow> Particle list \<Rightarrow> real \<Rightarrow> real option" where
  "potentialInner config p_i [] potential = Some potential"
| "potentialInner config p_i (p_j # rest) potential =
     do { potential' \<leftarrow> potentialStep config p_i p_j potential;
          potentialInner config p_i rest potential' }"

fun potentialOuter :: "PhysicsConfig \<Rightarrow> Particle list \<Rightarrow> real \<Rightarrow> real option" where
  "potentialOuter config [] potential = Some potential"
| "potentialOuter config (p_i # rest) potential =
     do { potential' \<leftarrow> potentialInner config p_i rest potential;
          potentialOuter config rest potential' }"

fun springLoop :: "PhysicsConfig \<Rightarrow> Particle list \<Rightarrow> real \<Rightarrow> real" where
  "springLoop config [] potential = potential"
| "springLoop config (p # rest) potential =
     (let rSquared = vec3Dot (position p) (position p)
      in springLoop config rest (potential + 0.5 * springConstant config * rSquared))"

definition calculatePotentialEnergy :: "Particle list \<Rightarrow> PhysicsConfig \<Rightarrow> real option" where
  "calculatePotentialEnergy particles config =
     potentialOuter config particles (springLoop config particles 0)"

subsection \<open>integrateHamiltonian\<close>

text \<open>The callback of the first \<^verbatim>\<open>particles.map\<close> (lines 200 to 215), at index \<open>i\<close>
  with \<open>force_i\<close> for \<^verbatim>\<open>forces[i]\<close>.\<close>

definition advancePosition :: "real \<Rightarrow> Particle \<Rightarrow> vec3 \<Rightarrow> Particle option" where
  "advancePosition timeStep p force_i =
     do {
       inv \<leftarrow> jsDivide 1 (mass p);
       let velocity = vec3Scale (momentum p) inv;
       inv' \<leftarrow> jsDivide 1 (mass p);
       let acceleration = vec3Scale force_i inv';
       let newPosition =
         (at0 (position p) + at0 velocity * timeStep + 0.5 * at0 acceleration * timeStep * timeStep,
          at1 (position p) + at1 velocity * timeStep + 0.5 * at1 acceleration * timeStep * timeStep,
          at2 (position p) + at2 velocity * timeStep + 0.5 * at2 acceleration * timeStep * timeStep);
       Some (p\<lparr>position := newPosition\<rparr>)
     }"

text \<open>The callback of \<^verbatim>\<open>updatedParticles.map\<close> (lines 221 to 243).\<close>

definition advanceMomentum :: "real \<Rightarrow> Particle \<Rightarrow> vec3 \<Rightarrow> vec3 \<Rightarrow> Particle option" where
  "advanceMomentum timeStep p force_i newForce_i =
     do {
       let avgForce =
         (0.5 * (at0 force_i + at0 newForce_i),
          0.5 * (at1 force_i + at1 newForce_i),
          0.5 * (at2 force_i + at2 newForce_i));
       let newMomentum =
         (at0 (momentum p) + at0 avgForce * timeStep,
          at1 (momentum p) + at1 avgForce * timeStep,
          at2 (momentum p) + at2 avgForce * timeStep);
       kineticEnergy \<leftarrow> jsDivide (vec3Dot newMomentum newMomentum) (2 * mass p);
       Some (p\<lparr>momentum := newMomentum, energy := kineticEnergy\<rparr>)
     }"

definition integrateHamiltonian ::
  "Particle list \<Rightarrow> PhysicsConfig \<Rightarrow> real \<Rightarrow> vec3 option \<Rightarrow> GestureMode
     \<Rightarrow> (Particle list \<times> EnergyResult) option" where
  "integrateHamiltonian particles config dt handPosition gestureMode =
     do {
       let timeStep = dt * timeScale config;
       forces \<leftarrow> mapM (\<lambda>p. calculateForce p particles config handPosition gestureMode) particles;
       updatedParticles \<leftarrow>
         mapM (\<lambda>i. advancePosition timeStep (particles ! i) (forces ! i)) [0..<length particles];
       newForces \<leftarrow>
         mapM (\<lambda>p. calculateForce p updatedParticles config handPosition gestureMode) updatedParticles;
       finalParticles \<leftarrow>
         mapM (\<lambda>i. advanceMomentum timeStep (updatedParticles ! i) (forces ! i) (newForces ! i))
           [0..<length updatedParticles];
       kinetic \<leftarrow> calculateKineticEnergy finalParticles;
       potential \<leftarrow> calculatePotentialEnergy finalParticles config;
       Some (finalParticles,
         \<lparr>kinetic_e = kinetic, potential_e = potential, total_e = kinetic + potential\<rparr>)
     }"

subsection \<open>checkHolarchicEmergence\<close>

definition HOLARCHY_COLORS :: "string list" where
  "HOLARCHY_COLORS = [''#6366f1'', ''#22d3ee'', ''#10b981'', ''#fbbf24'', ''#f472b6'']"

text \<open>JavaScript's \<^verbatim>\<open>%\<close> on integers takes the sign of the dividend, and reading an
  array outside its indices gives \<^verbatim>\<open>undefined\<close>.\<close>

definition jsRemainder :: "int \<Rightarrow> int \<Rightarrow> int" where
  "jsRemainder a b = sgn a * (\<bar>a\<bar> mod \<bar>b\<bar>)"

definition arrayRead :: "'a list \<Rightarrow> int \<Rightarrow> 'a option" where
  "arrayRead xs k = (if 0 \<le> k \<and> k < int (length xs) then Some (xs ! nat k) else None)"

text \<open>
  The body of the inner loop (lines 274 to 323) on the state \<open>(result, toMerge)\<close>.
  The identifier that \<^verbatim>\<open>Date.now()\<close> and \<^verbatim>\<open>Math.random()\<close> give the particle pushed
  at index \<open>n\<close> of \<^verbatim>\<open>result\<close> is the parameter \<open>newId n\<close>.
\<close>

definition mergeStep ::
  "(nat \<Rightarrow> string) \<Rightarrow> real \<Rightarrow> int \<Rightarrow> Particle \<Rightarrow> Particle
     \<Rightarrow> Particle list \<times> string set \<Rightarrow> (Particle list \<times> string set) option" where
  "mergeStep newId emergenceThreshold maxLevel p_i p_j st =
     (let result = fst st; toMerge = snd st in
      if id_p p_j \<in> toMerge then Some st
      else if holarchyLevel p_i \<noteq> holarchyLevel p_j then Some st
      else if holarchyLevel p_i \<ge> maxLevel - 1 then Some st
      else
        let diff = vec3Sub (position p_j) (position p_i);
            distance = vec3Length diff
        in
        if distance < emergenceThreshold then do {
          let relMomentum = vec3Sub (momentum p_j) (momentum p_i);
          relVel \<leftarrow> jsDivide (vec3Length relMomentum) (mass p_i + mass p_j);
          (if relVel < emergenceThreshold then do {
             let toMerge = insert (id_p p_j) (insert (id_p p_i) toMerge);
             let newMass = mass p_i + mass p_j;
             x \<leftarrow> jsDivide (at0 (position p_i) * mass p_i + at0 (position p_j) * mass p_j) newMass;
             y \<leftarrow> jsDivide (at1 (position p_i) * mass p_i + at1 (position p_j) * mass p_j) newMass;
             z \<leftarrow> jsDivide (at2 (position p_i) * mass p_i + at2 (position p_j) * mass p_j) newMass;
             let newPosition = (x, y, z);
             let newMomentum =
               (at0 (momentum p_i) + at0 (momentum p_j),
                at1 (momentum p_i) + at1 (momentum p_j),
                at2 (momentum p_i) + at2 (momentum p_j));
             Some (result @
               [\<lparr>id_p = newId (length result),
                 position = newPosition,
                 momentum = newMomentum,
                 mass = newMass,
                 charge = charge p_i + charge p_j,
                 holarchyLevel = holarchyLevel p_i + 1,
                 energy = 0,
                 color = arrayRead HOLARCHY_COLORS
                   (jsRemainder (holarchyLevel p_i + 1) (int (length HOLARCHY_COLORS)))\<rparr>],
               toMerge)
           }
           else Some st)
        }
        else Some st)"

text \<open>The inner loop over \<open>j\<close> from \<open>i + 1\<close>: \<open>rest\<close> is the input from index \<open>i + 1\<close> on.\<close>

fun mergeInner ::
  "(nat \<Rightarrow> string) \<Rightarrow> real \<Rightarrow> int \<Rightarrow> Particle \<Rightarrow> Particle list
     \<Rightarrow> Particle list \<times> string set \<Rightarrow> (Particle list \<times> string set) option" where
  "mergeInner newId emergenceThreshold maxLevel p_i [] st = Some st"
| "mergeInner newId emergenceThreshold maxLevel p_i (p_j # rest) st =
     do { st' \<leftarrow> mergeStep newId emergenceThreshold maxLevel p_i p_j st;
          mergeInner newId emergenceThreshold maxLevel p_i rest st' }"

text \<open>The outer loop over \<open>i\<close>, on the input from index \<open>i\<close> on.\<close>

fun mergeOuter ::
  "(nat \<Rightarrow> string) \<Rightarrow> real \<Rightarrow> int \<Rightarrow> Particle list
     \<Rightarrow> Particle list \<times> string set \<Rightarrow> (Particle list \<times> string set) option" where
  "mergeOuter newId emergenceThreshold maxLevel [] st = Some st"
| "mergeOuter newId emergenceThreshold maxLevel (p_i # rest) st =
     (if id_p p_i \<in> snd st then mergeOuter newId emergenceThreshold maxLevel rest st
      else do { st' \<leftarrow> mergeInner newId emergenceThreshold maxLevel p_i rest st;
                mergeOuter newId emergenceThreshold maxLevel rest st' })"

definition checkHolarchicEmergence ::
  "(nat \<Rightarrow> string) \<Rightarrow> Particle list \<Rightarrow> real \<Rightarrow> int \<Rightarrow> Particle list option" where
  "checkHolarchicEmergence newId particles emergenceThreshold maxLevel =
     do {
       st \<leftarrow> mergeOuter newId emergenceThreshold maxLevel particles (particles, {});
       Some (filter (\<lambda>p. id_p p \<notin> snd st) (fst st))
     }"

section \<open>holarchic-memory.ts\<close>

subsection \<open>createMemoryNodeFromParticles and buildHolarchicTree\<close>

text \<open>The result of \<^verbatim>\<open>generateNodeId()\<close> is the parameter \<open>nodeId\<close>.\<close>

definition createMemoryNodeFromParticles ::
  "string \<Rightarrow> Particle list \<Rightarrow> int \<Rightarrow> string option \<Rightarrow> HolarchicMemoryNode option" where
  "createMemoryNodeFromParticles nodeId particles lvl parentId =
     do {
       let totalMass = foldl (\<lambda>acc p. acc + mass p) 0 particles;
       x \<leftarrow> jsDivide (foldl (\<lambda>acc p. acc + at0 (position p) * mass p) 0 particles) totalMass;
       y \<leftarrow> jsDivide (foldl (\<lambda>acc p. acc + at1 (position p) * mass p) 0 particles) totalMass;
       z \<leftarrow> jsDivide (foldl (\<lambda>acc p. acc + at2 (position p) * mass p) 0 particles) totalMass;
       let centroid = (x, y, z);
       let totalEnergy = foldl (\<lambda>acc p. acc + energy p) 0 particles;
       Some \<lparr>id_n = nodeId,
             level = lvl,
             position_n = centroid,
             children = map id_p particles,
             parent = parentId,
             activationEnergy = totalEnergy,
             memoryStrength = 1.0\<rparr>
     }"

text \<open>
  A JavaScript \<^verbatim>\<open>Map\<close> iterates in insertion order: it is a list of entries.
  \<open>mapSet\<close> is \<^verbatim>\<open>Map.prototype.set\<close> (an existing key keeps its place), \<open>mapHas\<close> is
  \<^verbatim>\<open>has\<close>. \<open>mapGet\<close> is \<^verbatim>\<open>get\<close> for the one call of the source, which reads a key
  that the line before has set; for a missing key it gives the empty group.
\<close>

fun mapSet :: "'k \<Rightarrow> 'v \<Rightarrow> ('k \<times> 'v) list \<Rightarrow> ('k \<times> 'v) list" where
  "mapSet k v [] = [(k, v)]"
| "mapSet k v ((k', v') # rest) = (if k' = k then (k, v) # rest else (k', v') # mapSet k v rest)"

definition mapHas :: "('k \<times> 'v) list \<Rightarrow> 'k \<Rightarrow> bool" where
  "mapHas m k = (map_of m k \<noteq> None)"

definition mapGet :: "('k \<times> 'v list) list \<Rightarrow> 'k \<Rightarrow> 'v list" where
  "mapGet m k = (case map_of m k of Some v \<Rightarrow> v | None \<Rightarrow> [])"

text \<open>The grouping loop (lines 75 to 81).\<close>

fun groupLoop :: "Particle list \<Rightarrow> (int \<times> Particle list) list \<Rightarrow> (int \<times> Particle list) list" where
  "groupLoop [] levelGroups = levelGroups"
| "groupLoop (p # rest) levelGroups =
     (let lvl = holarchyLevel p;
          levelGroups = (if \<not> mapHas levelGroups lvl then mapSet lvl [] levelGroups else levelGroups);
          levelGroups = mapSet lvl (mapGet levelGroups lvl @ [p]) levelGroups
      in groupLoop rest levelGroups)"

text \<open>The loop that creates the nodes (lines 84 to 89); the node pushed at index \<open>n\<close>
  of \<^verbatim>\<open>nodes\<close> gets the identifier \<open>newId n\<close>.\<close>

fun createLoop ::
  "(nat \<Rightarrow> string) \<Rightarrow> (int \<times> Particle list) list \<Rightarrow> HolarchicMemoryNode list
     \<Rightarrow> HolarchicMemoryNode list option" where
  "createLoop newId [] nodes = Some nodes"
| "createLoop newId ((lvl, grp) # rest) nodes =
     (if length grp > 0 then do {
        node \<leftarrow> createMemoryNodeFromParticles (newId (length nodes)) grp lvl None;
        createLoop newId rest (nodes @ [node])
      }
      else createLoop newId rest nodes)"

text \<open>
  The inner loop of the linking (lines 98 to 104), \<open>j\<close> running down from \<open>i - 1\<close>:
  the third argument is \<open>j + 1\<close>. The two assignments change the objects at the indices
  \<open>i\<close> and \<open>j\<close> of the array.
\<close>

fun findParent :: "HolarchicMemoryNode list \<Rightarrow> nat \<Rightarrow> nat \<Rightarrow> HolarchicMemoryNode list" where
  "findParent nodes i 0 = nodes"
| "findParent nodes i (Suc j) =
     (let currentNode = nodes ! i in
      if level (nodes ! j) < level currentNode then
        let nodes = nodes[i := currentNode\<lparr>parent := Some (id_n (nodes ! j))\<rparr>];
            nodes = nodes[j := (nodes ! j)\<lparr>children := children (nodes ! j) @ [id_n (nodes ! i)]\<rparr>]
        in nodes
      else findParent nodes i j)"

definition buildHolarchicTree ::
  "(nat \<Rightarrow> string) \<Rightarrow> Particle list \<Rightarrow> int \<Rightarrow> HolarchicMemoryNode list option" where
  "buildHolarchicTree newId particles maxDepth =
     do {
       let levelGroups = groupLoop particles [];
       nodes \<leftarrow> createLoop newId levelGroups [];
       let nodes = sort_key level nodes;
       Some (foldl (\<lambda>nodes i. findParent nodes i i) nodes [1..<length nodes])
     }"

subsection \<open>updateMemoryNodes\<close>

text \<open>The callback of \<^verbatim>\<open>nodes.map\<close> (lines 120 to 171).\<close>

definition updateNode ::
  "Particle list \<Rightarrow> MemoryConfig \<Rightarrow> real \<Rightarrow> HolarchicMemoryNode \<Rightarrow> HolarchicMemoryNode option" where
  "updateNode particles config deltaTime node =
     (let newStrength = memoryStrength node * (1 - decayRate config * deltaTime);
          matchingParticles =
            filter (\<lambda>p. id_p p \<in> set (children node) \<or> holarchyLevel p = level node) particles
      in
      if length matchingParticles > 0 then do {
        let totalMass = foldl (\<lambda>acc p. acc + mass p) 0 matchingParticles;
        x \<leftarrow> jsDivide (foldl (\<lambda>acc p. acc + at0 (position p) * mass p) 0 matchingParticles) totalMass;
        y \<leftarrow> jsDivide (foldl (\<lambda>acc p. acc + at1 (position p) * mass p) 0 matchingParticles) totalMass;
        z \<leftarrow> jsDivide (foldl (\<lambda>acc p. acc + at2 (position p) * mass p) 0 matchingParticles) totalMass;
        let currentCentroid = (x, y, z);
        let dx = at0 currentCentroid - at0 (position_n node);
        let dy = at1 currentCentroid - at1 (position_n node);
        let dz = at2 currentCentroid - at2 (position_n node);
        let distance = sqrt (dx * dx + dy * dy + dz * dz);
        let similarity = exp (- distance);
        let newStrength = min 1.0 (newStrength + similarity * 0.1);
        let learningRate = 0.01;
        let newPosition =
          (at0 (position_n node) + (at0 currentCentroid - at0 (position_n node)) * learningRate,
           at1 (position_n node) + (at1 currentCentroid - at1 (position_n node)) * learningRate,
           at2 (position_n node) + (at2 currentCentroid - at2 (position_n node)) * learningRate);
        let newActivation = foldl (\<lambda>acc p. acc + energy p) 0 matchingParticles;
        Some (node\<lparr>position_n := newPosition,
                   memoryStrength := newStrength,
                   activationEnergy := newActivation\<rparr>)
      }
      else Some (node\<lparr>memoryStrength := newStrength\<rparr>))"

definition updateMemoryNodes ::
  "HolarchicMemoryNode list \<Rightarrow> Particle list \<Rightarrow> MemoryConfig \<Rightarrow> real
     \<Rightarrow> HolarchicMemoryNode list option" where
  "updateMemoryNodes nodes particles config deltaTime =
     do {
       updated \<leftarrow> mapM (updateNode particles config deltaTime) nodes;
       Some (filter (\<lambda>node. memoryStrength node > 0.01) updated)
     }"

subsection \<open>recognizePattern and calculateHolarchicCoherence\<close>

text \<open>The loop over the nodes (lines 252 to 267) on the state
  \<open>(bestMatch, bestSimilarity)\<close>; \<open>None\<close> is \<^verbatim>\<open>null\<close>.\<close>

fun recognizeLoop ::
  "vec3 \<Rightarrow> int \<Rightarrow> HolarchicMemoryNode list \<Rightarrow> HolarchicMemoryNode option \<times> real
     \<Rightarrow> HolarchicMemoryNode option \<times> real" where
  "recognizeLoop currentCentroid lvl [] st = st"
| "recognizeLoop currentCentroid lvl (node # rest) st =
     (if level node \<noteq> lvl then recognizeLoop currentCentroid lvl rest st
      else
        let dx = at0 currentCentroid - at0 (position_n node);
            dy = at1 currentCentroid - at1 (position_n node);
            dz = at2 currentCentroid - at2 (position_n node);
            distance = sqrt (dx * dx + dy * dy + dz * dz);
            similarity = memoryStrength node * exp (- distance)
        in
        if similarity > snd st then recognizeLoop currentCentroid lvl rest (Some node, similarity)
        else recognizeLoop currentCentroid lvl rest st)"

text \<open>The inner value of the result is the node or \<^verbatim>\<open>null\<close>; the outer \<open>None\<close> is the
  centroid that is not a finite number.\<close>

definition recognizePattern ::
  "Particle list \<Rightarrow> HolarchicMemoryNode list \<Rightarrow> int \<Rightarrow> HolarchicMemoryNode option option" where
  "recognizePattern particles nodes lvl =
     (let levelParticles = filter (\<lambda>p. holarchyLevel p = lvl) particles in
      if length levelParticles = 0 then Some None
      else do {
        let totalMass = foldl (\<lambda>acc p. acc + mass p) 0 levelParticles;
        x \<leftarrow> jsDivide (foldl (\<lambda>acc p. acc + at0 (position p) * mass p) 0 levelParticles) totalMass;
        y \<leftarrow> jsDivide (foldl (\<lambda>acc p. acc + at1 (position p) * mass p) 0 levelParticles) totalMass;
        z \<leftarrow> jsDivide (foldl (\<lambda>acc p. acc + at2 (position p) * mass p) 0 levelParticles) totalMass;
        let currentCentroid = (x, y, z);
        let st = recognizeLoop currentCentroid lvl nodes (None, - 1);
        let bestMatch = fst st;
        let bestSimilarity = snd st;
        Some (if bestSimilarity > 0.1 then bestMatch else None)
      })"

text \<open>The loops of the coherence (lines 325 to 339) on the state \<open>(totalCoherence, count)\<close>.\<close>

fun coherenceInner :: "HolarchicMemoryNode \<Rightarrow> Particle list \<Rightarrow> real \<times> nat \<Rightarrow> real \<times> nat" where
  "coherenceInner node [] st = st"
| "coherenceInner node (particle # rest) st =
     (let dx = at0 (position particle) - at0 (position_n node);
          dy = at1 (position particle) - at1 (position_n node);
          dz = at2 (position particle) - at2 (position_n node);
          distance = sqrt (dx * dx + dy * dy + dz * dz)
      in coherenceInner node rest (fst st + exp (- distance) * memoryStrength node, snd st + 1))"

fun coherenceOuter :: "Particle list \<Rightarrow> HolarchicMemoryNode list \<Rightarrow> real \<times> nat \<Rightarrow> real \<times> nat" where
  "coherenceOuter particles [] st = st"
| "coherenceOuter particles (node # rest) st =
     (let levelParticles = filter (\<lambda>p. holarchyLevel p = level node) particles in
      if length levelParticles = 0 then coherenceOuter particles rest st
      else coherenceOuter particles rest (coherenceInner node levelParticles st))"

definition calculateHolarchicCoherence :: "Particle list \<Rightarrow> HolarchicMemoryNode list \<Rightarrow> real option" where
  "calculateHolarchicCoherence particles nodes =
     (if length particles = 0 \<or> length nodes = 0 then Some 0
      else
        let st = coherenceOuter particles nodes (0, 0);
            totalCoherence = fst st;
            count = snd st
        in if count > 0 then jsDivide totalCoherence (real count) else Some 0)"

section \<open>Predicates of the claims\<close>

text \<open>
  What the specification says of a merge: \<open>isMergeOf q a b\<close> holds when \<open>q\<close> has the
  summed mass, momentum and charge of \<open>a\<close> and \<open>b\<close>, their mass-weighted mean position,
  the level after their common level, and energy 0. A pass is described by the list of
  its merges \<open>(i, j, q)\<close>: the particle \<open>q\<close> pushed for the input indices \<open>i\<close> and \<open>j\<close>.
  \<open>mergedIds\<close> collects the identifiers of the merged inputs, and \<open>mergeInvariant\<close>
  relates the list to the state \<open>(result, toMerge)\<close> of the loops.
\<close>

definition isMergeOf :: "Particle \<Rightarrow> Particle \<Rightarrow> Particle \<Rightarrow> bool" where
  "isMergeOf q a b \<longleftrightarrow>
     mass q = mass a + mass b
   \<and> momentum q = vec3Add (momentum a) (momentum b)
   \<and> charge q = charge a + charge b
   \<and> position q =
       ((at0 (position a) * mass a + at0 (position b) * mass b) / (mass a + mass b),
        (at1 (position a) * mass a + at1 (position b) * mass b) / (mass a + mass b),
        (at2 (position a) * mass a + at2 (position b) * mass b) / (mass a + mass b))
   \<and> holarchyLevel a = holarchyLevel b
   \<and> holarchyLevel q = holarchyLevel a + 1
   \<and> energy q = 0"

definition mergedIds :: "Particle list \<Rightarrow> (nat \<times> nat \<times> Particle) list \<Rightarrow> string set" where
  "mergedIds particles merges =
     (\<Union>m\<in>set merges. {id_p (particles ! fst m), id_p (particles ! fst (snd m))})"

definition mergeInvariant ::
  "Particle list \<Rightarrow> (nat \<times> nat \<times> Particle) list \<Rightarrow> Particle list \<times> string set \<Rightarrow> bool" where
  "mergeInvariant particles merges st \<longleftrightarrow>
     fst st = particles @ map (\<lambda>m. snd (snd m)) merges
   \<and> snd st = mergedIds particles merges
   \<and> list_all (\<lambda>m. fst m < fst (snd m) \<and> fst (snd m) < length particles
         \<and> isMergeOf (snd (snd m)) (particles ! fst m) (particles ! fst (snd m))) merges"

text \<open>
  The mass-weighted centroid of a list of particles, and the score of a node for a
  centroid \<open>c\<close>: its memory strength times \<open>exp\<close> of minus its distance to \<open>c\<close>.
\<close>

definition massCentroid :: "Particle list \<Rightarrow> vec3" where
  "massCentroid ps =
     (sum_list (map (\<lambda>p. at0 (position p) * mass p) ps) / sum_list (map mass ps),
      sum_list (map (\<lambda>p. at1 (position p) * mass p) ps) / sum_list (map mass ps),
      sum_list (map (\<lambda>p. at2 (position p) * mass p) ps) / sum_list (map mass ps))"

definition patternScore :: "vec3 \<Rightarrow> HolarchicMemoryNode \<Rightarrow> real" where
  "patternScore c node = memoryStrength node * exp (- vec3Length (vec3Sub c (position_n node)))"

section \<open>Fixtures\<close>

text \<open>A particle given by the fields the physics reads, with energy 0 and the colour
  of its level as \<^verbatim>\<open>createRandomParticle\<close> sets them, and the coefficients the store
  starts with (store.ts, lines 134 to 137 and 128).\<close>

definition exampleParticle :: "string \<Rightarrow> vec3 \<Rightarrow> vec3 \<Rightarrow> real \<Rightarrow> real \<Rightarrow> int \<Rightarrow> Particle" where
  "exampleParticle i q p m c l =
     \<lparr>id_p = i, position = q, momentum = p, mass = m, charge = c, holarchyLevel = l,
      energy = 0,
      color = arrayRead HOLARCHY_COLORS (jsRemainder l (int (length HOLARCHY_COLORS)))\<rparr>"

definition defaultConfig :: PhysicsConfig where
  "defaultConfig =
     \<lparr>springConstant = 0.5, dampingFactor = 0.02, gravitationalConstant = 0.1,
      couplingStrength = 0.3, timeScale = 1\<rparr>"

text \<open>The default gravitational constant and coupling strength, as the numbers that \<open>rd\<close>
  makes of the literals 0.1 and 0.3, without spring and damping.\<close>

definition pairConfig :: "(real \<Rightarrow> real) \<Rightarrow> PhysicsConfig" where
  "pairConfig rd =
     \<lparr>springConstant = 0, dampingFactor = 0, gravitationalConstant = rd 0.1,
      couplingStrength = rd 0.3, timeScale = 1\<rparr>"

text \<open>A memory node and a memory configuration for the examples.\<close>

definition exampleNode :: "string \<Rightarrow> int \<Rightarrow> vec3 \<Rightarrow> string list \<Rightarrow> real \<Rightarrow> HolarchicMemoryNode" where
  "exampleNode i l q cs s =
     \<lparr>id_n = i, level = l, position_n = q, children = cs, parent = None,
      activationEnergy = 0, memoryStrength = s\<rparr>"

definition exampleMemoryConfig :: "real \<Rightarrow> MemoryConfig" where
  "exampleMemoryConfig r =
     \<lparr>decayRate = r, synchronizationStrength = 0.5, activationThreshold = 0.5\<rparr>"

section \<open>The force model is defined everywhere\<close>

lemma jsDivide_Some: "b \<noteq> 0 \<Longrightarrow> jsDivide a b = Some (a / b)"
  by (simp add: jsDivide_def)

lemma vec3Length_nonneg: "0 \<le> vec3Length v"
  by (simp add: vec3Length_def)

lemma vec3Sub_swap: "vec3Sub a b = vec3Scale (vec3Sub b a) (- 1)"
  by (simp add: vec3Sub_def vec3Scale_def)

lemma vec3Length_swap: "vec3Length (vec3Sub a b) = vec3Length (vec3Sub b a)"
proof -
  have "\<And>x y::real. (x - y) * (x - y) = (y - x) * (y - x)" by (simp add: algebra_simps)
  then show ?thesis by (simp add: vec3Length_def vec3Sub_def)
qed

lemma vec3Normalize_Some:
  "vec3Normalize v = Some (if vec3Length v = 0 then (0, 0, 0) else vec3Scale v (1 / vec3Length v))"
  by (simp add: vec3Normalize_def Let_def jsDivide_def)

lemma levelDiff_denominator: "1 + real_of_int \<bar>k\<bar> \<noteq> 0"
proof -
  have "0 \<le> real_of_int \<bar>k\<bar>" by simp
  then show ?thesis by linarith
qed

lemma interactionStep_skip:
  "id_p other = id_p particle \<or> vec3Length (vec3Sub (position other) (position particle)) < 0.1
   \<Longrightarrow> interactionStep config particle force other = Some force"
  by (auto simp add: interactionStep_def Let_def)

lemma interactionStep_far:
  assumes "id_p other \<noteq> id_p particle"
    and "\<not> vec3Length (vec3Sub (position other) (position particle)) < 0.1"
  shows "interactionStep config particle force other =
     Some (let diff = vec3Sub (position other) (position particle);
           d = vec3Length diff; direction = vec3Scale diff (1 / d);
           levelDiff = \<bar>holarchyLevel particle - holarchyLevel other\<bar> in
       vec3Add (vec3Add force
         (vec3Scale direction (gravitationalConstant config * mass particle * mass other / (d * d))))
         (vec3Scale direction
            (- (couplingStrength config * charge particle * charge other / (d * d)) *
               (if levelDiff = 0 then 1 else 0.5 / (1 + real_of_int levelDiff)))))"
proof -
  let ?d = "vec3Length (vec3Sub (position other) (position particle))"
  from assms(2) have d: "?d \<noteq> 0" "?d * ?d \<noteq> 0" by auto
  show ?thesis
    using assms d levelDiff_denominator [of "holarchyLevel particle - holarchyLevel other"]
    by (simp add: interactionStep_def Let_def vec3Normalize_Some jsDivide_def)
qed

lemma interactionStep_total: "\<exists>f. interactionStep config particle force other = Some f"
proof (cases "id_p other = id_p particle \<or> vec3Length (vec3Sub (position other) (position particle)) < 0.1")
  case True
  then show ?thesis using interactionStep_skip by blast
next
  case False
  then show ?thesis using interactionStep_far [of other particle config force] by blast
qed

lemma interactionLoop_total: "\<exists>f. interactionLoop config particle others force = Some f"
proof (induction others arbitrary: force)
  case Nil
  show ?case by (simp del: split_paired_Ex)
next
  case (Cons other rest)
  obtain f where f: "interactionStep config particle force other = Some f"
    using interactionStep_total by blast
  with Cons.IH [of f] show ?case by simp
qed

lemma handInteraction_total: "\<exists>f. handInteraction particle handPosition gestureMode force = Some f"
proof (cases handPosition)
  case None
  then show ?thesis by (simp add: handInteraction_def del: split_paired_Ex)
next
  case (Some hp)
  then show ?thesis
    by (simp add: handInteraction_def Let_def vec3Normalize_Some jsDivide_def del: split_paired_Ex)
qed

lemma calculateForce_total:
  assumes "mass particle \<noteq> 0"
  shows "\<exists>f. calculateForce particle allParticles config handPosition gestureMode = Some f"
proof -
  let ?f0 = "vec3Add (vec3Add (0, 0, 0) (vec3Scale (position particle) (- springConstant config)))
     (vec3Scale (vec3Scale (momentum particle) (1 / mass particle)) (- dampingFactor config))"
  obtain f1 where f1: "interactionLoop config particle allParticles ?f0 = Some f1"
    using interactionLoop_total by blast
  obtain f2 where f2: "handInteraction particle handPosition gestureMode f1 = Some f2"
    using handInteraction_total by blast
  show ?thesis using assms f1 f2
    by (simp add: calculateForce_def jsDivide_def Let_def del: split_paired_Ex)
qed

lemma potentialStep_total: "\<exists>v. potentialStep config p_i p_j potential = Some v"
proof (cases "vec3Length (vec3Sub (position p_j) (position p_i)) < 0.1")
  case True
  then show ?thesis by (simp add: potentialStep_def Let_def)
next
  case False
  then have "vec3Length (vec3Sub (position p_j) (position p_i)) \<noteq> 0" by auto
  with False show ?thesis
    using levelDiff_denominator [of "holarchyLevel p_i - holarchyLevel p_j"]
    by (simp add: potentialStep_def Let_def jsDivide_def)
qed

lemma potentialInner_total: "\<exists>v. potentialInner config p_i rest potential = Some v"
proof (induction rest arbitrary: potential)
  case Nil
  show ?case by simp
next
  case (Cons p_j rest)
  obtain v where "potentialStep config p_i p_j potential = Some v"
    using potentialStep_total by blast
  with Cons.IH [of v] show ?case by simp
qed

lemma potentialOuter_total: "\<exists>v. potentialOuter config particles potential = Some v"
proof (induction particles arbitrary: potential)
  case Nil
  show ?case by simp
next
  case (Cons p_i rest)
  obtain v where "potentialInner config p_i rest potential = Some v"
    using potentialInner_total by blast
  with Cons.IH [of v] show ?case by simp
qed

lemma calculatePotentialEnergy_total: "\<exists>v. calculatePotentialEnergy particles config = Some v"
  by (simp add: calculatePotentialEnergy_def potentialOuter_total)

lemma pair_term_negate:
  "vec3Add (vec3Add (0, 0, 0) (vec3Scale (vec3Scale (vec3Scale D (- 1)) s) g))
      (vec3Scale (vec3Scale (vec3Scale D (- 1)) s) k) =
   vec3Scale (vec3Add (vec3Add (0, 0, 0) (vec3Scale (vec3Scale D s) g)) (vec3Scale (vec3Scale D s) k)) (- 1)"
  by (simp add: vec3Add_def vec3Scale_def algebra_simps)

lemma pair_term_additive:
  "vec3Add (vec3Add force a) b = vec3Add force (vec3Add (vec3Add (0, 0, 0) a) b)"
  by (simp add: vec3Add_def)

section \<open>The singularity guard\<close>

text \<open>
  C4. For a pair of particles whose separation is below 0.1 (identical positions
  included), the iteration of \<^verbatim>\<open>calculateForce\<close> for the pair returns the accumulated
  force as it is and the iteration of \<^verbatim>\<open>calculatePotentialEnergy\<close> returns the
  accumulated potential as it is: the pair contributes zero to both. For the
  population of the two particles alone the potential is the spring potential and the
  force on the first is the spring and damping force. No division of the pairwise
  terms has a zero divisor: the potential of every population is a number, and so is
  the force on every particle of non-zero mass, for every population and every hand
  position. The source has no \<^verbatim>\<open>throw\<close>, and the only value by which these functions
  leave the numbers is \<open>None\<close>.
\<close>

theorem singularity_guard:
  assumes "vec3Length (vec3Sub (position p_j) (position p_i)) < 0.1"
  shows "interactionStep config p_i force p_j = Some force
       \<and> potentialStep config p_i p_j potential = Some potential
       \<and> calculatePotentialEnergy [p_i, p_j] config = Some (springLoop config [p_i, p_j] 0)
       \<and> (mass p_i \<noteq> 0 \<longrightarrow>
            calculateForce p_i [p_i, p_j] config None gestureMode =
              Some (vec3Add (vec3Add (0, 0, 0) (vec3Scale (position p_i) (- springConstant config)))
                      (vec3Scale (vec3Scale (momentum p_i) (1 / mass p_i)) (- dampingFactor config))))
       \<and> (\<forall>particles. \<exists>v. calculatePotentialEnergy particles config = Some v)
       \<and> (\<forall>allParticles handPosition. mass p_i \<noteq> 0 \<longrightarrow>
            (\<exists>f. calculateForce p_i allParticles config handPosition gestureMode = Some f))"
proof -
  have step: "interactionStep config p_i f p_j = Some f" for f
    using assms by (simp add: interactionStep_skip)
  have self: "interactionStep config p_i f p_i = Some f" for f
    by (simp add: interactionStep_skip)
  have pot: "potentialStep config p_i p_j v = Some v" for v
    using assms by (simp add: potentialStep_def Let_def)
  have energy: "calculatePotentialEnergy [p_i, p_j] config = Some (springLoop config [p_i, p_j] 0)"
    by (simp add: calculatePotentialEnergy_def pot)
  have force: "calculateForce p_i [p_i, p_j] config None gestureMode =
      Some (vec3Add (vec3Add (0, 0, 0) (vec3Scale (position p_i) (- springConstant config)))
              (vec3Scale (vec3Scale (momentum p_i) (1 / mass p_i)) (- dampingFactor config)))"
    if "mass p_i \<noteq> 0"
    using that by (simp add: calculateForce_def jsDivide_def Let_def step self handInteraction_def)
  show ?thesis
    using step pot energy force calculatePotentialEnergy_total calculateForce_total by blast
qed

theorem singularity_guard_witness:
  "vec3Length (vec3Sub (position (exampleParticle ''b'' (0, 0, 0) (0, 0, 0) 1 1 0))
      (position (exampleParticle ''a'' (0, 0, 0) (2, 0, 0) 1 1 0))) < 0.1
   \<and> mass (exampleParticle ''a'' (0, 0, 0) (2, 0, 0) 1 1 0) \<noteq> 0
   \<and> interactionStep defaultConfig (exampleParticle ''a'' (0, 0, 0) (2, 0, 0) 1 1 0) (1, 2, 3)
        (exampleParticle ''b'' (0, 0, 0) (0, 0, 0) 1 1 0) = Some (1, 2, 3)
   \<and> potentialStep defaultConfig (exampleParticle ''a'' (0, 0, 0) (2, 0, 0) 1 1 0)
        (exampleParticle ''b'' (0, 0, 0) (0, 0, 0) 1 1 0) 7 = Some 7
   \<and> calculateForce (exampleParticle ''a'' (0, 0, 0) (2, 0, 0) 1 1 0)
        [exampleParticle ''a'' (0, 0, 0) (2, 0, 0) 1 1 0, exampleParticle ''b'' (0, 0, 0) (0, 0, 0) 1 1 0]
        defaultConfig None attract = Some (- 0.04, 0, 0)"
proof -
  let ?a = "exampleParticle ''a'' (0, 0, 0) (2, 0, 0) 1 1 0"
  let ?b = "exampleParticle ''b'' (0, 0, 0) (0, 0, 0) 1 1 0"
  have near: "vec3Length (vec3Sub (position ?b) (position ?a)) < 0.1"
    by (simp add: exampleParticle_def vec3Sub_def vec3Length_def)
  have m: "mass ?a \<noteq> 0" by (simp add: exampleParticle_def)
  have v: "vec3Add (vec3Add (0, 0, 0) (vec3Scale (position ?a) (- springConstant defaultConfig)))
      (vec3Scale (vec3Scale (momentum ?a) (1 / mass ?a)) (- dampingFactor defaultConfig)) = (- 0.04, 0, 0)"
    by (simp add: exampleParticle_def defaultConfig_def vec3Add_def vec3Scale_def)
  show ?thesis
    using near m v singularity_guard [OF near, of defaultConfig "(1, 2, 3)" 7 attract]
    by simp
qed

section \<open>Rounding\<close>

lemma roundHalfEven_minus: "roundHalfEven (- x) = - roundHalfEven x"
proof (cases "x \<in> \<int>")
  case True
  then obtain k where x: "x = real_of_int k" by (auto elim: Ints_cases)
  show ?thesis unfolding x by (simp add: roundHalfEven_def flip: of_int_minus)
next
  case False
  then have ne: "x \<noteq> real_of_int \<lfloor>x\<rfloor>" by (metis Ints_of_int)
  then have f: "\<lfloor>- x\<rfloor> = - \<lfloor>x\<rfloor> - 1"
    by (simp add: floor_minus ceiling_altdef)
  have "real_of_int \<lfloor>x\<rfloor> \<le> x" by (rule of_int_floor_le)
  with ne have r: "0 < x - real_of_int \<lfloor>x\<rfloor>" by linarith
  have r': "x - real_of_int \<lfloor>x\<rfloor> < 1" by linarith
  show ?thesis
    using r r' unfolding roundHalfEven_def Let_def f
    by (auto simp add: algebra_simps)
qed

lemma round53_minus: "round53 (- x) = - round53 x"
  by (simp add: round53_def Let_def roundHalfEven_minus)

lemma round53_eval:
  fixes n :: nat
  assumes "2 ^ 52 \<le> \<bar>x\<bar> * 2 ^ n" and "\<bar>x\<bar> * 2 ^ n < 2 ^ 53"
  shows "round53 x = real_of_int (roundHalfEven (x * 2 ^ n)) / 2 ^ n"
proof -
  have x0: "x \<noteq> 0" using assms(1) by auto
  then have ax: "0 < \<bar>x\<bar>" by simp
  have "log 2 (\<bar>x\<bar> * 2 ^ n) = log 2 \<bar>x\<bar> + real n"
    using ax by (simp add: log_mult log_nat_power)
  moreover have "52 \<le> log 2 (\<bar>x\<bar> * 2 ^ n)"
    using assms(1) ax by (subst le_log_iff) (simp_all add: powr_realpow)
  moreover have "log 2 (\<bar>x\<bar> * 2 ^ n) < 53"
    using assms(2) ax by (subst log_less_iff) (simp_all add: powr_realpow)
  ultimately have "\<lfloor>log 2 \<bar>x\<bar>\<rfloor> = 52 - int n"
    by (intro floor_unique) simp_all
  then have e: "real_of_int \<lfloor>log 2 \<bar>x\<bar>\<rfloor> - 52 = - real n" by simp
  have u: "2 powr (- real n) = 1 / 2 ^ n"
    by (simp add: powr_minus powr_realpow divide_simps)
  show ?thesis using x0 by (simp add: round53_def Let_def e u)
qed

lemma round53_pos:
  assumes "0 < x"
  shows "0 < round53 x"
proof -
  define e where "e = \<lfloor>log 2 x\<rfloor>"
  define u where "u = 2 powr (real_of_int e - 52)"
  have u0: "0 < u" by (simp add: u_def)
  have "real_of_int e \<le> log 2 x" using assms by (simp add: e_def)
  then have "2 powr real_of_int e \<le> x" using assms by (simp add: le_log_iff)
  moreover have "u \<le> 2 powr real_of_int e" by (simp add: u_def)
  ultimately have "1 \<le> x / u" using u0 by (simp add: pos_le_divide_eq)
  then have "1 \<le> \<lfloor>x / u\<rfloor>" by linarith
  moreover have "\<lfloor>x / u\<rfloor> \<le> roundHalfEven (x / u)" by (simp add: roundHalfEven_def Let_def)
  ultimately have "0 < roundHalfEven (x / u)" by linarith
  then show ?thesis using assms u0 by (simp add: round53_def Let_def e_def [symmetric] u_def [symmetric])
qed

text \<open>\<open>round53 x\<close> has a significand of 53 bits and is at most half a unit of the last
  place away from \<open>x\<close>.\<close>

lemma roundHalfEven_nearest: "\<bar>real_of_int (roundHalfEven y) - y\<bar> \<le> 1 / 2"
proof -
  have "real_of_int \<lfloor>y\<rfloor> \<le> y" "y < real_of_int \<lfloor>y\<rfloor> + 1" by linarith+
  then show ?thesis by (auto simp add: roundHalfEven_def Let_def)
qed

lemma round53_nearest:
  assumes "x \<noteq> 0"
  shows "\<bar>round53 x - x\<bar> \<le> 2 powr (real_of_int \<lfloor>log 2 \<bar>x\<bar>\<rfloor> - 53)"
proof -
  define u where "u = 2 powr (real_of_int \<lfloor>log 2 \<bar>x\<bar>\<rfloor> - 52)"
  have u0: "0 < u" by (simp add: u_def)
  have h: "2 powr (real_of_int \<lfloor>log 2 \<bar>x\<bar>\<rfloor> - 53) = u / 2"
    by (simp add: u_def powr_diff)
  have "round53 x - x = (real_of_int (roundHalfEven (x / u)) - x / u) * u"
    using assms u0 by (simp add: round53_def Let_def u_def [symmetric] algebra_simps)
  then have "\<bar>round53 x - x\<bar> = \<bar>real_of_int (roundHalfEven (x / u)) - x / u\<bar> * u"
    using u0 by (simp add: abs_mult)
  also have "\<dots> \<le> 1 / 2 * u"
    using roundHalfEven_nearest [of "x / u"] u0 by (intro mult_right_mono) simp_all
  finally show ?thesis unfolding h by simp
qed


lemma roundHalfEven_mono_int:
  assumes "real_of_int a \<le> y" and "y \<le> real_of_int b"
  shows "a \<le> roundHalfEven y \<and> roundHalfEven y \<le> b"
proof -
  have f: "a \<le> \<lfloor>y\<rfloor>" using assms(1) by (simp add: le_floor_iff)
  have "\<lfloor>y\<rfloor> \<le> b" using assms(2) by (simp add: floor_le_iff) 
  moreover have "\<lfloor>y\<rfloor> = b \<Longrightarrow> y = real_of_int b" using assms(2) by linarith
  ultimately have "roundHalfEven y \<le> b"
    by (cases "\<lfloor>y\<rfloor> = b") (auto simp add: roundHalfEven_def Let_def)
  moreover have "\<lfloor>y\<rfloor> \<le> roundHalfEven y" by (simp add: roundHalfEven_def Let_def)
  ultimately show ?thesis using f by linarith
qed

lemma round53_significand:
  assumes "x \<noteq> 0"
  shows "\<exists>m. round53 x = real_of_int m * 2 powr (real_of_int \<lfloor>log 2 \<bar>x\<bar>\<rfloor> - 52)
           \<and> 2 ^ 52 \<le> \<bar>m\<bar> \<and> \<bar>m\<bar> \<le> 2 ^ 53"
proof -
  define e where "e = \<lfloor>log 2 \<bar>x\<bar>\<rfloor>"
  define u where "u = 2 powr (real_of_int e - 52)"
  have u0: "0 < u" by (simp add: u_def)
  have ax: "0 < \<bar>x\<bar>" using assms by simp
  have "real_of_int e \<le> log 2 \<bar>x\<bar>" "log 2 \<bar>x\<bar> < real_of_int e + 1" unfolding e_def by linarith+
  then have b: "2 powr real_of_int e \<le> \<bar>x\<bar>" "\<bar>x\<bar> < 2 powr (real_of_int e + 1)"
    using ax by (simp_all add: le_log_iff log_less_iff)
  have "2 powr real_of_int e = 2 ^ 52 * u" "2 powr (real_of_int e + 1) = 2 ^ 53 * u"
    by (simp_all add: u_def powr_diff powr_add)
  with b u0 have y: "2 ^ 52 \<le> \<bar>x\<bar> / u" "\<bar>x\<bar> / u \<le> 2 ^ 53"
    by (simp_all add: pos_le_divide_eq pos_divide_le_eq)
  have r: "2 ^ 52 \<le> roundHalfEven (\<bar>x\<bar> / u) \<and> roundHalfEven (\<bar>x\<bar> / u) \<le> 2 ^ 53"
    using y by (intro roundHalfEven_mono_int) simp_all
  have "\<bar>roundHalfEven (x / u)\<bar> = roundHalfEven (\<bar>x\<bar> / u)"
  proof (cases "0 \<le> x")
    case True
    then show ?thesis using r by simp
  next
    case False
    then have "x / u = - (\<bar>x\<bar> / u)" by simp
    then show ?thesis using r by (simp only: roundHalfEven_minus) simp
  qed
  with r have "2 ^ 52 \<le> \<bar>roundHalfEven (x / u)\<bar> \<and> \<bar>roundHalfEven (x / u)\<bar> \<le> 2 ^ 53" by simp
  moreover have "round53 x = real_of_int (roundHalfEven (x / u)) * u"
    using assms by (simp add: round53_def Let_def u_def e_def)
  ultimately show ?thesis unfolding u_def e_def by blast
qed

lemma round53_zero: "round53 0 = 0"
  by (simp add: round53_def)

lemmas round53_binades =
  round53_zero round53_eval [of _ 51] round53_eval [of _ 52] round53_eval [of _ 53]
  round53_eval [of _ 54] round53_eval [of _ 55] round53_eval [of _ 56]

text \<open>The doubles written 0.1, 0.3 and 1.2 in the source; 1, 1.5 and 2 are doubles.\<close>

lemma round53_literals:
  "round53 0.1 = 3602879701896397 / 36028797018963968"
  "round53 0.3 = 5404319552844595 / 18014398509481984"
  "round53 1.2 = 5404319552844595 / 4503599627370496"
  "round53 1 = 1" "round53 1.5 = 1.5" "round53 2 = 2"
  by (simp_all add: round53_binades roundHalfEven_def)

text \<open>With the identity for \<open>rd\<close> the rounded model is the exact one.\<close>

lemma interactionStepR_exact: "interactionStepR (\<lambda>x. x) = interactionStep"
  by (intro ext)
    (simp add: interactionStepR_def interactionStep_def vec3SubR_def vec3Sub_def vec3LengthR_def
      vec3Length_def vec3NormalizeR_def vec3Normalize_def jsDivideR_def jsDivide_def
      vec3ScaleR_def vec3Scale_def vec3AddR_def vec3Add_def Let_def)

lemma interactionLoopR_exact:
  "interactionLoopR (\<lambda>x. x) config particle others force = interactionLoop config particle others force"
  by (induction others arbitrary: force)
    (simp_all add: interactionStepR_exact cong: Option.bind_cong)

lemma handInteractionR_exact: "handInteractionR (\<lambda>x. x) = handInteraction"
  by (intro ext)
    (simp add: handInteractionR_def handInteraction_def vec3SubR_def vec3Sub_def vec3LengthR_def
      vec3Length_def vec3NormalizeR_def vec3Normalize_def jsDivideR_def jsDivide_def
      vec3ScaleR_def vec3Scale_def vec3AddR_def vec3Add_def Let_def split: option.splits)

lemma calculateForceR_exact: "calculateForceR (\<lambda>x. x) = calculateForce"
  by (intro ext)
    (simp add: calculateForceR_def calculateForce_def interactionLoopR_exact
      handInteractionR_exact jsDivideR_def jsDivide_def vec3ScaleR_def vec3Scale_def
      vec3AddR_def vec3Add_def Let_def)

section \<open>Antisymmetry of the pairwise force\<close>

lemma odd_zero:
  fixes rd :: "real \<Rightarrow> real"
  assumes "\<And>x. rd (- x) = - rd x"
  shows "rd 0 = 0"
  using assms [of 0] by simp

lemma vec3SubR_swap:
  assumes "\<And>x. rd (- x) = - rd x"
  shows "vec3SubR rd a b = vec3Scale (vec3SubR rd b a) (- 1)"
proof -
  have h: "rd (x - y) = - rd (y - x)" for x y
    using assms [of "y - x"] unfolding minus_diff_eq .
  show ?thesis
    unfolding vec3SubR_def vec3Scale_def fst_conv snd_conv
    by (simp add: h [of "at0 a" "at0 b"] h [of "at1 a" "at1 b"] h [of "at2 a" "at2 b"])
qed

lemma vec3LengthR_negate: "vec3LengthR rd (vec3Scale v (- 1)) = vec3LengthR rd v"
  by (simp add: vec3LengthR_def vec3Scale_def)

lemma vec3ScaleR_negate:
  assumes "\<And>x. rd (- x) = - rd x"
  shows "vec3ScaleR rd (vec3Scale v (- 1)) s = vec3Scale (vec3ScaleR rd v s) (- 1)"
  by (simp add: vec3ScaleR_def vec3Scale_def assms)

lemma vec3AddR_negate:
  assumes "\<And>x. rd (- x) = - rd x"
  shows "vec3AddR rd (vec3Scale a (- 1)) (vec3Scale b (- 1)) = vec3Scale (vec3AddR rd a b) (- 1)"
proof -
  have "- x - y = - (x + y)" for x y :: real by simp
  then have "rd (- x - y) = - rd (x + y)" for x y by (simp only: assms)
  then show ?thesis by (simp add: vec3AddR_def vec3Scale_def)
qed

lemma zero_negate: "vec3Scale (0, 0, 0) (- 1) = (0, 0, 0)"
  by (simp add: vec3Scale_def)

lemma interactionStepR_skip:
  "id_p other = id_p particle
     \<or> vec3LengthR rd (vec3SubR rd (position other) (position particle)) < rd 0.1
   \<Longrightarrow> interactionStepR rd config particle force other = Some force"
  by (auto simp add: interactionStepR_def Let_def)

lemma interactionStepR_far:
  assumes "\<And>x. 0 < x \<Longrightarrow> 0 < rd x"
    and "id_p other \<noteq> id_p particle"
    and "\<not> vec3LengthR rd (vec3SubR rd (position other) (position particle)) < rd 0.1"
  shows "interactionStepR rd config particle force other =
     Some (let diff = vec3SubR rd (position other) (position particle);
           d = vec3LengthR rd diff; direction = vec3ScaleR rd diff (rd (1 / d));
           levelDiff = \<bar>holarchyLevel particle - holarchyLevel other\<bar> in
       vec3AddR rd (vec3AddR rd force
         (vec3ScaleR rd direction
            (rd (rd (rd (gravitationalConstant config * mass particle) * mass other) / rd (d * d)))))
         (vec3ScaleR rd direction
            (rd (- rd (rd (rd (couplingStrength config * charge particle) * charge other) / rd (d * d)) *
               (if levelDiff = 0 then 1 else rd (0.5 / rd (1 + real_of_int levelDiff)))))))"
proof -
  let ?d = "vec3LengthR rd (vec3SubR rd (position other) (position particle))"
  have "0 < rd 0.1" using assms(1) [of "0.1"] by simp
  with assms(3) have d: "0 < ?d" by linarith
  then have "0 < ?d * ?d" by simp
  then have dd: "rd (?d * ?d) \<noteq> 0" using assms(1) [of "?d * ?d"] by simp
  have "0 \<le> real_of_int \<bar>holarchyLevel particle - holarchyLevel other\<bar>" by simp
  then have "0 < 1 + real_of_int \<bar>holarchyLevel particle - holarchyLevel other\<bar>" by linarith
  then have l: "rd (1 + real_of_int \<bar>holarchyLevel particle - holarchyLevel other\<bar>) \<noteq> 0"
    using assms(1) [of "1 + real_of_int \<bar>holarchyLevel particle - holarchyLevel other\<bar>"] by simp
  show ?thesis
    using assms(2,3) d dd l
    by (simp add: interactionStepR_def Let_def vec3NormalizeR_def jsDivideR_def)
qed

lemma interactionStepR_antisymmetric:
  assumes odd: "\<And>x. rd (- x) = - rd x"
    and pos: "\<And>x. 0 < x \<Longrightarrow> 0 < rd x"
    and grav: "rd (rd (gravitationalConstant config * mass p_i) * mass p_j)
             = rd (rd (gravitationalConstant config * mass p_j) * mass p_i)"
    and coul: "rd (rd (couplingStrength config * charge p_i) * charge p_j)
             = rd (rd (couplingStrength config * charge p_j) * charge p_i)"
  shows "\<exists>f. interactionStepR rd config p_i (0, 0, 0) p_j = Some f
           \<and> interactionStepR rd config p_j (0, 0, 0) p_i = Some (vec3Scale f (- 1))"
proof (cases "id_p p_j = id_p p_i
    \<or> vec3LengthR rd (vec3SubR rd (position p_j) (position p_i)) < rd 0.1")
  case True
  then have "id_p p_i = id_p p_j
    \<or> vec3LengthR rd (vec3SubR rd (position p_i) (position p_j)) < rd 0.1"
    using vec3SubR_swap [of rd "position p_i" "position p_j", OF odd]
    by (auto simp add: vec3LengthR_negate)
  with True have "interactionStepR rd config p_i (0, 0, 0) p_j = Some (0, 0, 0)"
    and "interactionStepR rd config p_j (0, 0, 0) p_i = Some (0, 0, 0)"
    by (simp_all add: interactionStepR_skip)
  then show ?thesis by (simp add: zero_negate)
next
  case False
  define D where "D = vec3SubR rd (position p_j) (position p_i)"
  define d where "d = vec3LengthR rd D"
  define dir where "dir = vec3ScaleR rd D (rd (1 / d))"
  define g where "g = rd (rd (rd (gravitationalConstant config * mass p_i) * mass p_j) / rd (d * d))"
  define k where "k = rd (- rd (rd (rd (couplingStrength config * charge p_i) * charge p_j) / rd (d * d)) *
     (if \<bar>holarchyLevel p_i - holarchyLevel p_j\<bar> = 0 then 1
      else rd (0.5 / rd (1 + real_of_int \<bar>holarchyLevel p_i - holarchyLevel p_j\<bar>))))"
  define f where "f = vec3AddR rd (vec3AddR rd (0, 0, 0) (vec3ScaleR rd dir g)) (vec3ScaleR rd dir k)"
  have ids: "id_p p_j \<noteq> id_p p_i" "id_p p_i \<noteq> id_p p_j" using False by auto
  have D': "vec3SubR rd (position p_i) (position p_j) = vec3Scale D (- 1)"
    unfolding D_def by (rule vec3SubR_swap [of rd, OF odd])
  have d': "vec3LengthR rd (vec3Scale D (- 1)) = d"
    unfolding d_def by (rule vec3LengthR_negate)
  have far: "\<not> vec3LengthR rd (vec3SubR rd (position p_j) (position p_i)) < rd 0.1"
    "\<not> vec3LengthR rd (vec3SubR rd (position p_i) (position p_j)) < rd 0.1"
    using False unfolding D' d' by (simp_all add: d_def D_def)
  have lv: "\<bar>holarchyLevel p_j - holarchyLevel p_i\<bar> = \<bar>holarchyLevel p_i - holarchyLevel p_j\<bar>"
    by simp
  have dir': "vec3ScaleR rd (vec3Scale D (- 1)) (rd (1 / d)) = vec3Scale dir (- 1)"
    unfolding dir_def by (rule vec3ScaleR_negate [of rd, OF odd])
  have g': "rd (rd (rd (gravitationalConstant config * mass p_j) * mass p_i) / rd (d * d)) = g"
    unfolding g_def grav ..
  have k': "rd (- rd (rd (rd (couplingStrength config * charge p_j) * charge p_i) / rd (d * d)) *
     (if \<bar>holarchyLevel p_j - holarchyLevel p_i\<bar> = 0 then 1
      else rd (0.5 / rd (1 + real_of_int \<bar>holarchyLevel p_j - holarchyLevel p_i\<bar>)))) = k"
    unfolding k_def lv coul ..
  have fwd: "interactionStepR rd config p_i (0, 0, 0) p_j = Some f"
    using interactionStepR_far [of rd, OF pos ids(1) far(1), of config "(0, 0, 0)"]
    unfolding Let_def f_def g_def k_def dir_def d_def D_def .
  have "interactionStepR rd config p_j (0, 0, 0) p_i =
     Some (vec3AddR rd (vec3AddR rd (0, 0, 0) (vec3ScaleR rd (vec3Scale dir (- 1)) g))
       (vec3ScaleR rd (vec3Scale dir (- 1)) k))"
    using interactionStepR_far [of rd, OF pos ids(2) far(2), of config "(0, 0, 0)"]
    unfolding Let_def D' d' dir' g' k' .
  also have "\<dots> = Some (vec3Scale f (- 1))"
    unfolding f_def vec3ScaleR_negate [of rd, OF odd]
    by (subst (1) zero_negate [symmetric]) (simp only: vec3AddR_negate [of rd, OF odd])
  finally show ?thesis using fwd by blast
qed

lemma calculateForceR_pair:
  assumes odd: "\<And>x. rd (- x) = - rd x"
    and "0 < mass p" and "springConstant config = 0" and "dampingFactor config = 0"
  shows "calculateForceR rd p allParticles config None gestureMode =
           interactionLoopR rd config p allParticles (0, 0, 0)"
proof -
  have z: "rd 0 = 0" by (rule odd_zero [of rd, OF odd])
  have "interactionLoopR rd config p allParticles (0, 0, 0) \<bind> Some
      = interactionLoopR rd config p allParticles (0, 0, 0)"
    by simp
  then show ?thesis
    using assms(2-4)
    by (simp add: calculateForceR_def Let_def jsDivideR_def vec3ScaleR_def vec3AddR_def z
      handInteractionR_def cong: Option.bind_cong)
qed

lemma interactionLoopR_pair:
  "interactionLoopR rd config p [p, q] force = interactionStepR rd config p force q"
  "interactionLoopR rd config p [q, p] force = interactionStepR rd config p force q"
  by (cases "interactionStepR rd config p force q"; simp add: interactionStepR_skip)+

text \<open>In exact arithmetic the terms of a pair are opposite, and every iteration adds them
  to the force it starts from.\<close>

lemma interactionStep_antisymmetric:
  "\<exists>f. interactionStep config p_i (0, 0, 0) p_j = Some f
      \<and> interactionStep config p_j (0, 0, 0) p_i = Some (vec3Scale f (- 1))
      \<and> (\<forall>force. interactionStep config p_i force p_j = Some (vec3Add force f))
      \<and> (\<forall>force. interactionStep config p_j force p_i = Some (vec3Add force (vec3Scale f (- 1))))"
proof (cases "id_p p_j = id_p p_i \<or> vec3Length (vec3Sub (position p_j) (position p_i)) < 0.1")
  case True
  then have "id_p p_i = id_p p_j \<or> vec3Length (vec3Sub (position p_i) (position p_j)) < 0.1"
    by (auto simp add: vec3Length_swap [of "position p_i"])
  with True have "\<And>force. interactionStep config p_i force p_j = Some force"
    and "\<And>force. interactionStep config p_j force p_i = Some force"
    by (simp_all add: interactionStep_skip)
  then show ?thesis by (simp add: vec3Scale_def vec3Add_def)
next
  case False
  define D where "D = vec3Sub (position p_j) (position p_i)"
  define d where "d = vec3Length D"
  define g where "g = gravitationalConstant config * mass p_i * mass p_j / (d * d)"
  define k where "k = - (couplingStrength config * charge p_i * charge p_j / (d * d)) *
     (if \<bar>holarchyLevel p_i - holarchyLevel p_j\<bar> = 0 then 1
      else 0.5 / (1 + real_of_int \<bar>holarchyLevel p_i - holarchyLevel p_j\<bar>))"
  define f where "f = vec3Add (vec3Add (0, 0, 0) (vec3Scale (vec3Scale D (1 / d)) g))
     (vec3Scale (vec3Scale D (1 / d)) k)"
  have far: "\<not> vec3Length (vec3Sub (position p_j) (position p_i)) < 0.1"
    "\<not> vec3Length (vec3Sub (position p_i) (position p_j)) < 0.1"
    using False by (simp_all add: vec3Length_swap [of "position p_i"])
  have ids: "id_p p_j \<noteq> id_p p_i" "id_p p_i \<noteq> id_p p_j" using False by auto
  have D': "vec3Sub (position p_i) (position p_j) = vec3Scale D (- 1)"
    unfolding D_def by (rule vec3Sub_swap)
  have d': "vec3Length (vec3Sub (position p_i) (position p_j)) = d"
    unfolding d_def D_def by (rule vec3Length_swap)
  have lv: "\<bar>holarchyLevel p_j - holarchyLevel p_i\<bar> = \<bar>holarchyLevel p_i - holarchyLevel p_j\<bar>"
    by simp
  have g': "gravitationalConstant config * mass p_j * mass p_i / (d * d) = g"
    unfolding g_def by simp
  have k': "- (couplingStrength config * charge p_j * charge p_i / (d * d)) *
     (if \<bar>holarchyLevel p_j - holarchyLevel p_i\<bar> = 0 then 1
      else 0.5 / (1 + real_of_int \<bar>holarchyLevel p_j - holarchyLevel p_i\<bar>)) = k"
    unfolding k_def lv by simp
  have fwd: "interactionStep config p_i force p_j = Some (vec3Add force f)" for force
    unfolding interactionStep_far [OF ids(1) far(1)] Let_def f_def g_def k_def d_def D_def
    by (simp only: pair_term_additive [symmetric])
  have "interactionStep config p_j force p_i =
     Some (vec3Add force (vec3Add (vec3Add (0, 0, 0) (vec3Scale (vec3Scale (vec3Scale D (- 1)) (1 / d)) g))
       (vec3Scale (vec3Scale (vec3Scale D (- 1)) (1 / d)) k)))" for force
    unfolding interactionStep_far [OF ids(2) far(2)] Let_def d' unfolding D' g' k'
    by (simp only: pair_term_additive [symmetric])
  then have bwd: "interactionStep config p_j force p_i = Some (vec3Add force (vec3Scale f (- 1)))"
    for force
    unfolding f_def by (simp only: pair_term_negate)
  have z: "vec3Add (0, 0, 0) v = v" for v by (simp add: vec3Add_def)
  from fwd [of "(0, 0, 0)"] bwd [of "(0, 0, 0)"]
  have "interactionStep config p_i (0, 0, 0) p_j = Some f"
    and "interactionStep config p_j (0, 0, 0) p_i = Some (vec3Scale f (- 1))"
    by (simp_all only: z)
  with fwd bwd show ?thesis by blast
qed

text \<open>
  C5. Let \<open>rd\<close> be the rounding of the arithmetic: the identity in exact arithmetic,
  \<open>round53\<close> for IEEE doubles; it commutes with the change of sign and keeps positive
  numbers positive. Let the two particles have strictly positive masses, and let the
  products that \<^verbatim>\<open>calculateForce\<close> forms for the one and for the other agree:
  \<open>rd (rd (G * m_i) * m_j) = rd (rd (G * m_j) * m_i)\<close> for the gravitational constant and
  the masses, \<open>rd (rd (c * q_i) * q_j) = rd (rd (c * q_j) * q_i)\<close> for the coupling strength
  and the charges. Then the gravitational and charge terms that the iteration of
  \<^verbatim>\<open>calculateForce\<close> for \<open>p_i\<close> adds on account of \<open>p_j\<close> (the iteration started from
  the zero force) are the negation of the terms that the iteration for \<open>p_j\<close> adds on
  account of \<open>p_i\<close>, and without spring, damping and hand these are the forces that
  \<^verbatim>\<open>calculateForce\<close> returns for the two particles in the population of the two. In
  exact arithmetic the products always agree: for all positive masses the terms are
  opposite, and \<^verbatim>\<open>calculateForce\<close> returns the spring and damping force of the
  particle plus its term. A separation below the guard is included: both terms are
  zero then.
\<close>

theorem pairwise_force_antisymmetry:
  assumes odd: "\<And>x. rd (- x) = - rd x"
    and pos: "\<And>x. 0 < x \<Longrightarrow> 0 < rd x"
    and mi: "0 < mass p_i" and mj: "0 < mass p_j"
    and grav: "rd (rd (gravitationalConstant config * mass p_i) * mass p_j)
             = rd (rd (gravitationalConstant config * mass p_j) * mass p_i)"
    and coul: "rd (rd (couplingStrength config * charge p_i) * charge p_j)
             = rd (rd (couplingStrength config * charge p_j) * charge p_i)"
  shows "(\<exists>f. interactionStepR rd config p_i (0, 0, 0) p_j = Some f
            \<and> interactionStepR rd config p_j (0, 0, 0) p_i = Some (vec3Scale f (- 1))
            \<and> (springConstant config = 0 \<and> dampingFactor config = 0 \<longrightarrow>
                 calculateForceR rd p_i [p_i, p_j] config None gestureMode = Some f
               \<and> calculateForceR rd p_j [p_i, p_j] config None gestureMode
                    = Some (vec3Scale f (- 1))))
       \<and> (\<exists>f. interactionStep config p_i (0, 0, 0) p_j = Some f
            \<and> interactionStep config p_j (0, 0, 0) p_i = Some (vec3Scale f (- 1))
            \<and> calculateForce p_i [p_i, p_j] config None gestureMode =
                Some (vec3Add
                  (vec3Add (vec3Add (0, 0, 0) (vec3Scale (position p_i) (- springConstant config)))
                     (vec3Scale (vec3Scale (momentum p_i) (1 / mass p_i)) (- dampingFactor config)))
                  f)
            \<and> calculateForce p_j [p_i, p_j] config None gestureMode =
                Some (vec3Add
                  (vec3Add (vec3Add (0, 0, 0) (vec3Scale (position p_j) (- springConstant config)))
                     (vec3Scale (vec3Scale (momentum p_j) (1 / mass p_j)) (- dampingFactor config)))
                  (vec3Scale f (- 1))))"
proof (rule conjI)
  from interactionStepR_antisymmetric [of rd, OF odd pos grav coul]
  obtain f where f: "interactionStepR rd config p_i (0, 0, 0) p_j = Some f"
    "interactionStepR rd config p_j (0, 0, 0) p_i = Some (vec3Scale f (- 1))"
    by blast
  have self: "interactionStepR rd config p force p = Some force" for p force
    by (simp add: interactionStepR_skip)
  have "calculateForceR rd p_i [p_i, p_j] config None gestureMode = Some f"
    and "calculateForceR rd p_j [p_i, p_j] config None gestureMode = Some (vec3Scale f (- 1))"
    if "springConstant config = 0 \<and> dampingFactor config = 0"
    using that f self
    by (simp_all add: calculateForceR_pair [of rd, OF odd mi] calculateForceR_pair [of rd, OF odd mj])
  with f show "\<exists>f. interactionStepR rd config p_i (0, 0, 0) p_j = Some f
            \<and> interactionStepR rd config p_j (0, 0, 0) p_i = Some (vec3Scale f (- 1))
            \<and> (springConstant config = 0 \<and> dampingFactor config = 0 \<longrightarrow>
                 calculateForceR rd p_i [p_i, p_j] config None gestureMode = Some f
               \<and> calculateForceR rd p_j [p_i, p_j] config None gestureMode
                    = Some (vec3Scale f (- 1)))"
    by blast
next
  from interactionStep_antisymmetric [of config p_i p_j]
  obtain f where f: "interactionStep config p_i (0, 0, 0) p_j = Some f"
    "interactionStep config p_j (0, 0, 0) p_i = Some (vec3Scale f (- 1))"
    "\<And>force. interactionStep config p_i force p_j = Some (vec3Add force f)"
    "\<And>force. interactionStep config p_j force p_i = Some (vec3Add force (vec3Scale f (- 1)))"
    by blast
  have self: "interactionStep config p force p = Some force" for p force
    by (simp add: interactionStep_skip)
  have "calculateForce p_i [p_i, p_j] config None gestureMode =
                Some (vec3Add
                  (vec3Add (vec3Add (0, 0, 0) (vec3Scale (position p_i) (- springConstant config)))
                     (vec3Scale (vec3Scale (momentum p_i) (1 / mass p_i)) (- dampingFactor config)))
                  f)"
    using mi by (simp add: calculateForce_def jsDivide_def Let_def self f(3) handInteraction_def)
  moreover have "calculateForce p_j [p_i, p_j] config None gestureMode =
                Some (vec3Add
                  (vec3Add (vec3Add (0, 0, 0) (vec3Scale (position p_j) (- springConstant config)))
                     (vec3Scale (vec3Scale (momentum p_j) (1 / mass p_j)) (- dampingFactor config)))
                  (vec3Scale f (- 1)))"
    using mj by (simp add: calculateForce_def jsDivide_def Let_def self f(4) handInteraction_def)
  ultimately show "\<exists>f. interactionStep config p_i (0, 0, 0) p_j = Some f
            \<and> interactionStep config p_j (0, 0, 0) p_i = Some (vec3Scale f (- 1))
            \<and> calculateForce p_i [p_i, p_j] config None gestureMode =
                Some (vec3Add
                  (vec3Add (vec3Add (0, 0, 0) (vec3Scale (position p_i) (- springConstant config)))
                     (vec3Scale (vec3Scale (momentum p_i) (1 / mass p_i)) (- dampingFactor config)))
                  f)
            \<and> calculateForce p_j [p_i, p_j] config None gestureMode =
                Some (vec3Add
                  (vec3Add (vec3Add (0, 0, 0) (vec3Scale (position p_j) (- springConstant config)))
                     (vec3Scale (vec3Scale (momentum p_j) (1 / mass p_j)) (- dampingFactor config)))
                  (vec3Scale f (- 1)))"
    using f(1,2) by blast
qed

text \<open>A run in double arithmetic in which the products agree: masses 1.2 and 2, charges
  1 and -1, at distance 1, with \<open>G = 0.1\<close> and \<open>c = 0.3\<close>. The forces are 0.54 and -0.54.\<close>

lemma rounded_example_equal:
  "interactionStepR round53 (pairConfig round53)
      (exampleParticle ''a'' (0, 0, 0) (0, 0, 0) (round53 1.2) 1 0) (0, 0, 0)
      (exampleParticle ''b'' (1, 0, 0) (0, 0, 0) 2 (- 1) 0)
    = Some (607985949695017 / 1125899906842624, 0, 0)"
proof -
  let ?a = "exampleParticle ''a'' (0, 0, 0) (0, 0, 0) (round53 1.2) 1 0"
  let ?b = "exampleParticle ''b'' (1, 0, 0) (0, 0, 0) 2 (- 1) 0"
  have D: "vec3SubR round53 (position ?b) (position ?a) = (1, 0, 0)"
    by (simp add: vec3SubR_def exampleParticle_def round53_binades roundHalfEven_def)
  have d: "vec3LengthR round53 (1, 0, 0) = 1"
    by (simp add: vec3LengthR_def round53_binades roundHalfEven_def)
  have far: "\<not> vec3LengthR round53 (vec3SubR round53 (position ?b) (position ?a)) < round53 0.1"
    unfolding D d by (simp add: round53_binades roundHalfEven_def)
  have ids: "id_p ?b \<noteq> id_p ?a" by (simp add: exampleParticle_def)
  show ?thesis
    using interactionStepR_far [of round53, OF round53_pos ids far, of "pairConfig round53" "(0, 0, 0)"]
    unfolding Let_def D d
    by (simp add: exampleParticle_def pairConfig_def vec3ScaleR_def vec3AddR_def
        round53_binades roundHalfEven_def)
qed

theorem pairwise_force_antisymmetry_witness:
  "0 < mass (exampleParticle ''a'' (0, 0, 0) (0, 0, 0) (round53 1.2) 1 0)
   \<and> 0 < mass (exampleParticle ''b'' (1, 0, 0) (0, 0, 0) 2 (- 1) 0)
   \<and> round53 (round53 (gravitationalConstant (pairConfig round53)
          * mass (exampleParticle ''a'' (0, 0, 0) (0, 0, 0) (round53 1.2) 1 0))
          * mass (exampleParticle ''b'' (1, 0, 0) (0, 0, 0) 2 (- 1) 0))
      = round53 (round53 (gravitationalConstant (pairConfig round53)
          * mass (exampleParticle ''b'' (1, 0, 0) (0, 0, 0) 2 (- 1) 0))
          * mass (exampleParticle ''a'' (0, 0, 0) (0, 0, 0) (round53 1.2) 1 0))
   \<and> round53 (round53 (couplingStrength (pairConfig round53)
          * charge (exampleParticle ''a'' (0, 0, 0) (0, 0, 0) (round53 1.2) 1 0))
          * charge (exampleParticle ''b'' (1, 0, 0) (0, 0, 0) 2 (- 1) 0))
      = round53 (round53 (couplingStrength (pairConfig round53)
          * charge (exampleParticle ''b'' (1, 0, 0) (0, 0, 0) 2 (- 1) 0))
          * charge (exampleParticle ''a'' (0, 0, 0) (0, 0, 0) (round53 1.2) 1 0))
   \<and> calculateForceR round53 (exampleParticle ''a'' (0, 0, 0) (0, 0, 0) (round53 1.2) 1 0)
        [exampleParticle ''a'' (0, 0, 0) (0, 0, 0) (round53 1.2) 1 0,
         exampleParticle ''b'' (1, 0, 0) (0, 0, 0) 2 (- 1) 0]
        (pairConfig round53) None attract = Some (607985949695017 / 1125899906842624, 0, 0)
   \<and> calculateForceR round53 (exampleParticle ''b'' (1, 0, 0) (0, 0, 0) 2 (- 1) 0)
        [exampleParticle ''a'' (0, 0, 0) (0, 0, 0) (round53 1.2) 1 0,
         exampleParticle ''b'' (1, 0, 0) (0, 0, 0) 2 (- 1) 0]
        (pairConfig round53) None attract = Some (- (607985949695017 / 1125899906842624), 0, 0)"
proof -
  let ?a = "exampleParticle ''a'' (0, 0, 0) (0, 0, 0) (round53 1.2) 1 0"
  let ?b = "exampleParticle ''b'' (1, 0, 0) (0, 0, 0) 2 (- 1) 0"
  let ?c = "pairConfig round53"
  have ma: "0 < mass ?a" by (simp add: exampleParticle_def round53_pos)
  have mb: "0 < mass ?b" by (simp add: exampleParticle_def)
  have grav: "round53 (round53 (gravitationalConstant ?c * mass ?a) * mass ?b)
      = round53 (round53 (gravitationalConstant ?c * mass ?b) * mass ?a)"
    by (simp add: exampleParticle_def pairConfig_def round53_binades roundHalfEven_def)
  have coul: "round53 (round53 (couplingStrength ?c * charge ?a) * charge ?b)
      = round53 (round53 (couplingStrength ?c * charge ?b) * charge ?a)"
    by (simp add: exampleParticle_def pairConfig_def round53_binades roundHalfEven_def)
  have cfg: "springConstant ?c = 0 \<and> dampingFactor ?c = 0" by (simp add: pairConfig_def)
  from pairwise_force_antisymmetry [of round53, OF round53_minus round53_pos ma mb grav coul, of attract]
    cfg
  obtain f where f: "interactionStepR round53 ?c ?a (0, 0, 0) ?b = Some f"
    "calculateForceR round53 ?a [?a, ?b] ?c None attract = Some f"
    "calculateForceR round53 ?b [?a, ?b] ?c None attract = Some (vec3Scale f (- 1))"
    by blast
  from f(1) have fv: "f = (607985949695017 / 1125899906842624, 0, 0)"
    unfolding rounded_example_equal by (rule option.inject [THEN iffD1, symmetric])
  have n: "vec3Scale (607985949695017 / 1125899906842624, 0, 0) (- 1)
      = (- (607985949695017 / 1125899906842624), 0, 0)"
    by (simp add: vec3Scale_def)
  have "calculateForceR round53 ?a [?a, ?b] ?c None attract
          = Some (607985949695017 / 1125899906842624, 0, 0)
      \<and> calculateForceR round53 ?b [?a, ?b] ?c None attract
          = Some (- (607985949695017 / 1125899906842624), 0, 0)"
    using f(2,3) unfolding fv n by (rule conjI)
  with ma mb grav coul show ?thesis by blast
qed

text \<open>
  C5 as stated fails in double arithmetic. With \<open>G = 0.1\<close>, \<open>c = 0.3\<close>, masses 1.2 and 1.5,
  charges 1 and 1 and the positions (0, 0, 0) and (1, 0, 0), the products
  \<^verbatim>\<open>0.1 * 1.2 * 1.5\<close> and \<^verbatim>\<open>0.1 * 1.5 * 1.2\<close> are 0.18 and 0.18000000000000002, and
  \<^verbatim>\<open>calculateForce\<close> returns -0.12 for the first particle and 0.11999999999999997 for
  the second.
\<close>

theorem rounded_forces_differ_counterexample:
  "0 < mass (exampleParticle ''a'' (0, 0, 0) (0, 0, 0) (round53 1.2) 1 0)
   \<and> 0 < mass (exampleParticle ''b'' (1, 0, 0) (0, 0, 0) 1.5 1 0)
   \<and> round53 0.1 \<le> vec3LengthR round53
        (vec3SubR round53 (position (exampleParticle ''b'' (1, 0, 0) (0, 0, 0) 1.5 1 0))
           (position (exampleParticle ''a'' (0, 0, 0) (0, 0, 0) (round53 1.2) 1 0)))
   \<and> calculateForceR round53 (exampleParticle ''a'' (0, 0, 0) (0, 0, 0) (round53 1.2) 1 0)
        [exampleParticle ''a'' (0, 0, 0) (0, 0, 0) (round53 1.2) 1 0,
         exampleParticle ''b'' (1, 0, 0) (0, 0, 0) 1.5 1 0]
        (pairConfig round53) None attract
      = Some (- (1080863910568919 / 9007199254740992), 0, 0)
   \<and> calculateForceR round53 (exampleParticle ''b'' (1, 0, 0) (0, 0, 0) 1.5 1 0)
        [exampleParticle ''a'' (0, 0, 0) (0, 0, 0) (round53 1.2) 1 0,
         exampleParticle ''b'' (1, 0, 0) (0, 0, 0) 1.5 1 0]
        (pairConfig round53) None attract
      = Some (4323455642275675 / 36028797018963968, 0, 0)
   \<and> calculateForceR round53 (exampleParticle ''b'' (1, 0, 0) (0, 0, 0) 1.5 1 0)
        [exampleParticle ''a'' (0, 0, 0) (0, 0, 0) (round53 1.2) 1 0,
         exampleParticle ''b'' (1, 0, 0) (0, 0, 0) 1.5 1 0]
        (pairConfig round53) None attract
      \<noteq> Some (vec3Scale (- (1080863910568919 / 9007199254740992), 0, 0) (- 1))
   \<and> round53 (round53 (gravitationalConstant (pairConfig round53)
          * mass (exampleParticle ''a'' (0, 0, 0) (0, 0, 0) (round53 1.2) 1 0))
          * mass (exampleParticle ''b'' (1, 0, 0) (0, 0, 0) 1.5 1 0))
      = 3242591731706757 / 18014398509481984
   \<and> round53 (round53 (gravitationalConstant (pairConfig round53)
          * mass (exampleParticle ''b'' (1, 0, 0) (0, 0, 0) 1.5 1 0))
          * mass (exampleParticle ''a'' (0, 0, 0) (0, 0, 0) (round53 1.2) 1 0))
      = 6485183463413515 / 36028797018963968"
proof -
  let ?a = "exampleParticle ''a'' (0, 0, 0) (0, 0, 0) (round53 1.2) 1 0"
  let ?b = "exampleParticle ''b'' (1, 0, 0) (0, 0, 0) 1.5 1 0"
  let ?c = "pairConfig round53"
  have ma: "0 < mass ?a" by (simp add: exampleParticle_def round53_pos)
  have mb: "0 < mass ?b" by (simp add: exampleParticle_def)
  have ids: "id_p ?b \<noteq> id_p ?a" "id_p ?a \<noteq> id_p ?b" by (simp_all add: exampleParticle_def)
  have D: "vec3SubR round53 (position ?b) (position ?a) = (1, 0, 0)"
    by (simp add: vec3SubR_def exampleParticle_def round53_binades roundHalfEven_def)
  have D': "vec3SubR round53 (position ?a) (position ?b) = (- 1, 0, 0)"
    by (simp add: vec3SubR_def exampleParticle_def round53_binades roundHalfEven_def)
  have d: "vec3LengthR round53 (1, 0, 0) = 1" "vec3LengthR round53 (- 1, 0, 0) = 1"
    by (simp_all add: vec3LengthR_def round53_binades roundHalfEven_def)
  have far: "\<not> vec3LengthR round53 (vec3SubR round53 (position ?b) (position ?a)) < round53 0.1"
    "\<not> vec3LengthR round53 (vec3SubR round53 (position ?a) (position ?b)) < round53 0.1"
    unfolding D D' d by (simp_all add: round53_binades roundHalfEven_def)
  have fa: "interactionStepR round53 ?c ?a (0, 0, 0) ?b
      = Some (- (1080863910568919 / 9007199254740992), 0, 0)"
    using interactionStepR_far [of round53, OF round53_pos ids(1) far(1), of ?c "(0, 0, 0)"]
    unfolding Let_def D d
    by (simp add: exampleParticle_def pairConfig_def vec3ScaleR_def vec3AddR_def
        round53_binades roundHalfEven_def)
  have fb: "interactionStepR round53 ?c ?b (0, 0, 0) ?a
      = Some (4323455642275675 / 36028797018963968, 0, 0)"
    using interactionStepR_far [of round53, OF round53_pos ids(2) far(2), of ?c "(0, 0, 0)"]
    unfolding Let_def D' d
    by (simp add: exampleParticle_def pairConfig_def vec3ScaleR_def vec3AddR_def
        round53_binades roundHalfEven_def)
  have cfg: "springConstant ?c = 0" "dampingFactor ?c = 0" by (simp_all add: pairConfig_def)
  have ca: "calculateForceR round53 ?a [?a, ?b] ?c None attract
      = Some (- (1080863910568919 / 9007199254740992), 0, 0)"
    unfolding calculateForceR_pair [of round53 ?a ?c, OF round53_minus ma cfg] interactionLoopR_pair
    by (rule fa)
  have cb: "calculateForceR round53 ?b [?a, ?b] ?c None attract
      = Some (4323455642275675 / 36028797018963968, 0, 0)"
    unfolding calculateForceR_pair [of round53 ?b ?c, OF round53_minus mb cfg] interactionLoopR_pair
    by (rule fb)
  have ne: "calculateForceR round53 ?b [?a, ?b] ?c None attract
      \<noteq> Some (vec3Scale (- (1080863910568919 / 9007199254740992), 0, 0) (- 1))"
    unfolding cb by (simp add: vec3Scale_def)
  have g1: "round53 (round53 (gravitationalConstant ?c * mass ?a) * mass ?b)
      = 3242591731706757 / 18014398509481984"
    by (simp add: exampleParticle_def pairConfig_def round53_binades roundHalfEven_def)
  have g2: "round53 (round53 (gravitationalConstant ?c * mass ?b) * mass ?a)
      = 6485183463413515 / 36028797018963968"
    by (simp add: exampleParticle_def pairConfig_def round53_binades roundHalfEven_def)
  from far(1) have sep: "round53 0.1 \<le> vec3LengthR round53 (vec3SubR round53 (position ?b) (position ?a))"
    by simp
  show ?thesis
    using ma mb sep ca cb ne g1 g2 by (intro conjI)
qed

section \<open>The integrator\<close>

lemma mapM_SomeD:
  "mapM f xs = Some ys \<Longrightarrow> length ys = length xs \<and> (\<forall>i<length xs. f (xs ! i) = Some (ys ! i))"
proof (induction xs arbitrary: ys)
  case Nil
  then show ?case by simp
next
  case (Cons x xs)
  from Cons.prems obtain y ys' where y: "f x = Some y" and ys': "mapM f xs = Some ys'"
    and ys: "ys = y # ys'"
    by (auto split: bind_splits)
  from Cons.IH [OF ys'] have ih: "length ys' = length xs" "\<forall>i<length xs. f (xs ! i) = Some (ys' ! i)"
    by simp_all
  show ?case
  proof (intro conjI allI impI)
    show "length ys = length (x # xs)" using ih(1) ys by simp
  next
    fix i assume "i < length (x # xs)"
    then show "f ((x # xs) ! i) = Some (ys ! i)"
      using y ih(2) ys by (cases i) simp_all
  qed
qed

lemma mapM_total:
  "(\<And>x. x \<in> set xs \<Longrightarrow> \<exists>y. f x = Some y) \<Longrightarrow> \<exists>ys. mapM f xs = Some ys"
proof (induction xs)
  case Nil
  show ?case by simp
next
  case (Cons x xs)
  obtain y where y: "f x = Some y" using Cons.prems [of x] by auto
  obtain ys where ys: "mapM f xs = Some ys" using Cons.IH Cons.prems by auto
  show ?case using y ys by simp
qed

lemma mapM_Some_map:
  "(\<And>x. x \<in> set xs \<Longrightarrow> f x = Some (g x)) \<Longrightarrow> mapM f xs = Some (map g xs)"
  by (induction xs) simp_all

lemma advancePosition_Some:
  "mass p \<noteq> 0 \<Longrightarrow> advancePosition timeStep p force_i =
     Some (p\<lparr>position :=
       (at0 (position p) + at0 (momentum p) * (1 / mass p) * timeStep
          + 0.5 * (at0 force_i * (1 / mass p)) * timeStep * timeStep,
        at1 (position p) + at1 (momentum p) * (1 / mass p) * timeStep
          + 0.5 * (at1 force_i * (1 / mass p)) * timeStep * timeStep,
        at2 (position p) + at2 (momentum p) * (1 / mass p) * timeStep
          + 0.5 * (at2 force_i * (1 / mass p)) * timeStep * timeStep)\<rparr>)"
  by (simp add: advancePosition_def jsDivide_def vec3Scale_def Let_def)

lemma advanceMomentum_Some:
  "mass p \<noteq> 0 \<Longrightarrow> advanceMomentum timeStep p force_i newForce_i =
     Some (let newMomentum =
         (at0 (momentum p) + 0.5 * (at0 force_i + at0 newForce_i) * timeStep,
          at1 (momentum p) + 0.5 * (at1 force_i + at1 newForce_i) * timeStep,
          at2 (momentum p) + 0.5 * (at2 force_i + at2 newForce_i) * timeStep)
       in p\<lparr>momentum := newMomentum, energy := vec3Dot newMomentum newMomentum / (2 * mass p)\<rparr>)"
  by (simp add: advanceMomentum_def jsDivide_def Let_def)

lemma advancePosition_frame:
  "advancePosition timeStep p force_i = Some p' \<Longrightarrow>
     id_p p' = id_p p \<and> momentum p' = momentum p \<and> mass p' = mass p \<and> charge p' = charge p
     \<and> holarchyLevel p' = holarchyLevel p \<and> energy p' = energy p \<and> color p' = color p"
  by (auto simp add: advancePosition_def Let_def split: bind_splits)

lemma advanceMomentum_frame:
  "advanceMomentum timeStep p force_i newForce_i = Some p' \<Longrightarrow>
     id_p p' = id_p p \<and> position p' = position p \<and> mass p' = mass p \<and> charge p' = charge p
     \<and> holarchyLevel p' = holarchyLevel p \<and> color p' = color p
     \<and> energy p' = vec3Dot (momentum p') (momentum p') / (2 * mass p)"
  by (auto simp add: advanceMomentum_def jsDivide_def Let_def split: bind_splits if_splits)

lemma kineticLoop_total:
  "(\<And>p. p \<in> set particles \<Longrightarrow> mass p \<noteq> 0) \<Longrightarrow> \<exists>v. kineticLoop particles acc = Some v"
proof (induction particles arbitrary: acc)
  case Nil
  show ?case by simp
next
  case (Cons p rest)
  have "mass p \<noteq> 0" using Cons.prems by simp
  then show ?case using Cons.IH Cons.prems by (simp add: jsDivide_def Let_def)
qed

lemma nonzero_masses_nth:
  assumes "length ys = length xs" and "\<And>i. i < length xs \<Longrightarrow> mass (ys ! i) = mass (xs ! i)"
    and "\<forall>p\<in>set xs. mass p \<noteq> 0"
  shows "\<forall>p\<in>set ys. mass p \<noteq> 0"
proof
  fix p assume "p \<in> set ys"
  then obtain i where "i < length ys" "p = ys ! i" by (auto simp add: in_set_conv_nth)
  then show "mass p \<noteq> 0" using assms by (metis nth_mem)
qed

text \<open>The four passes of \<^verbatim>\<open>integrateHamiltonian\<close>, index by index.\<close>

lemma integrateHamiltonian_steps:
  assumes masses: "\<forall>p\<in>set particles. mass p \<noteq> 0"
  shows "\<exists>forces updatedParticles newForces finalParticles energies.
      integrateHamiltonian particles config dt handPosition gestureMode = Some (finalParticles, energies)
    \<and> length forces = length particles \<and> length updatedParticles = length particles
    \<and> length newForces = length particles \<and> length finalParticles = length particles
    \<and> (\<forall>i<length particles.
          calculateForce (particles ! i) particles config handPosition gestureMode = Some (forces ! i)
        \<and> advancePosition (dt * timeScale config) (particles ! i) (forces ! i) = Some (updatedParticles ! i)
        \<and> calculateForce (updatedParticles ! i) updatedParticles config handPosition gestureMode
            = Some (newForces ! i)
        \<and> advanceMomentum (dt * timeScale config) (updatedParticles ! i) (forces ! i) (newForces ! i)
            = Some (finalParticles ! i))"
proof -
  let ?n = "length particles"
  let ?ts = "dt * timeScale config"
  obtain forces where forces:
    "mapM (\<lambda>p. calculateForce p particles config handPosition gestureMode) particles = Some forces"
    using mapM_total [of particles "\<lambda>p. calculateForce p particles config handPosition gestureMode"]
      calculateForce_total masses by blast
  note F = mapM_SomeD [OF forces]
  obtain updated where updated:
    "mapM (\<lambda>i. advancePosition ?ts (particles ! i) (forces ! i)) [0..<?n] = Some updated"
    using mapM_total [of "[0..<?n]" "\<lambda>i. advancePosition ?ts (particles ! i) (forces ! i)"]
      advancePosition_Some masses by auto
  note U = mapM_SomeD [OF updated]
  have Ulen: "length updated = ?n" using U by simp
  have Ui: "advancePosition ?ts (particles ! i) (forces ! i) = Some (updated ! i)" if "i < ?n" for i
    using U that by simp
  have Umass: "mass (updated ! i) = mass (particles ! i)" if "i < ?n" for i
    using advancePosition_frame [OF Ui [OF that]] by simp
  have masses': "\<forall>p\<in>set updated. mass p \<noteq> 0"
    using nonzero_masses_nth [OF Ulen Umass masses] by simp
  obtain newForces where newForces:
    "mapM (\<lambda>p. calculateForce p updated config handPosition gestureMode) updated = Some newForces"
    using mapM_total [of updated "\<lambda>p. calculateForce p updated config handPosition gestureMode"]
      calculateForce_total masses' by blast
  note N = mapM_SomeD [OF newForces]
  obtain final where final:
    "mapM (\<lambda>i. advanceMomentum ?ts (updated ! i) (forces ! i) (newForces ! i)) [0..<length updated]
       = Some final"
    using mapM_total [of "[0..<length updated]"
        "\<lambda>i. advanceMomentum ?ts (updated ! i) (forces ! i) (newForces ! i)"]
      advanceMomentum_Some masses' by auto
  note P = mapM_SomeD [OF final]
  have Plen: "length final = length updated" using P by simp
  have Pi: "advanceMomentum ?ts (updated ! i) (forces ! i) (newForces ! i) = Some (final ! i)"
    if "i < ?n" for i
    using P that Ulen by simp
  have Pmass: "mass (final ! i) = mass (updated ! i)" if "i < length updated" for i
    using advanceMomentum_frame [OF Pi [of i]] that Ulen by simp
  have masses'': "\<forall>p\<in>set final. mass p \<noteq> 0"
    using nonzero_masses_nth [OF Plen Pmass masses'] by simp
  obtain kinetic where kinetic: "calculateKineticEnergy final = Some kinetic"
    using kineticLoop_total [of final 0] masses'' by (auto simp add: calculateKineticEnergy_def)
  obtain potential where potential: "calculatePotentialEnergy final config = Some potential"
    using calculatePotentialEnergy_total by blast
  have "integrateHamiltonian particles config dt handPosition gestureMode =
      Some (final, \<lparr>kinetic_e = kinetic, potential_e = potential, total_e = kinetic + potential\<rparr>)"
    by (simp add: integrateHamiltonian_def Let_def forces updated newForces final kinetic potential)
  moreover have "length forces = ?n" using F by simp
  moreover have "length newForces = ?n" using N Ulen by simp
  moreover have "length final = ?n" using Plen Ulen by simp
  moreover have "calculateForce (particles ! i) particles config handPosition gestureMode
       = Some (forces ! i)" if "i < ?n" for i
    using F that by simp
  moreover have "calculateForce (updated ! i) updated config handPosition gestureMode
       = Some (newForces ! i)" if "i < ?n" for i
    using N that Ulen by simp
  ultimately show ?thesis using Ulen Ui Pi by blast
qed

text \<open>
  C3. For a population of particles of non-zero mass, \<^verbatim>\<open>integrateHamiltonian\<close> returns
  particles, and with \<open>dt = deltaTime * timeScale\<close> every particle moves by the
  velocity-Verlet step: the new position is \<open>q + (p/m) dt + 0.5 (F/m) dt\<^sup>2\<close>, where \<open>F\<close>
  is the force that \<^verbatim>\<open>calculateForce\<close> gives for the particle in the input population,
  and the new momentum is \<open>p + 0.5 (F + F') dt\<close>, where \<open>F'\<close> is the force that
  \<^verbatim>\<open>calculateForce\<close> gives in the population \<open>updatedParticles\<close>, the input with every
  position replaced by the new one (and the momenta of the input).
\<close>

theorem velocity_verlet_step:
  assumes "\<forall>p\<in>set particles. mass p \<noteq> 0"
  shows "\<exists>forces updatedParticles newForces finalParticles energies.
      integrateHamiltonian particles config deltaTime handPosition gestureMode
        = Some (finalParticles, energies)
    \<and> length updatedParticles = length particles \<and> length finalParticles = length particles
    \<and> (\<forall>i<length particles.
         (let dt = deltaTime * timeScale config;
              q = position (particles ! i); p = momentum (particles ! i); m = mass (particles ! i);
              F = forces ! i; F' = newForces ! i
          in calculateForce (particles ! i) particles config handPosition gestureMode = Some F
           \<and> updatedParticles ! i = (particles ! i)\<lparr>position := position (finalParticles ! i)\<rparr>
           \<and> calculateForce (updatedParticles ! i) updatedParticles config handPosition gestureMode
               = Some F'
           \<and> position (finalParticles ! i) =
               (at0 q + (at0 p / m) * dt + 0.5 * (at0 F / m) * dt\<^sup>2,
                at1 q + (at1 p / m) * dt + 0.5 * (at1 F / m) * dt\<^sup>2,
                at2 q + (at2 p / m) * dt + 0.5 * (at2 F / m) * dt\<^sup>2)
           \<and> momentum (finalParticles ! i) =
               (at0 p + 0.5 * (at0 F + at0 F') * dt,
                at1 p + 0.5 * (at1 F + at1 F') * dt,
                at2 p + 0.5 * (at2 F + at2 F') * dt)))"
proof -
  let ?ts = "deltaTime * timeScale config"
  obtain forces updated newForces final energies where
    run: "integrateHamiltonian particles config deltaTime handPosition gestureMode
        = Some (final, energies)"
    and len: "length updated = length particles" "length final = length particles"
    and steps: "\<And>i. i < length particles \<Longrightarrow>
          calculateForce (particles ! i) particles config handPosition gestureMode = Some (forces ! i)
        \<and> advancePosition ?ts (particles ! i) (forces ! i) = Some (updated ! i)
        \<and> calculateForce (updated ! i) updated config handPosition gestureMode = Some (newForces ! i)
        \<and> advanceMomentum ?ts (updated ! i) (forces ! i) (newForces ! i) = Some (final ! i)"
    using integrateHamiltonian_steps [OF assms, of config deltaTime handPosition gestureMode]
    by blast
  have each: "calculateForce (particles ! i) particles config handPosition gestureMode = Some (forces ! i)
      \<and> updated ! i = (particles ! i)\<lparr>position := position (final ! i)\<rparr>
      \<and> calculateForce (updated ! i) updated config handPosition gestureMode = Some (newForces ! i)
      \<and> position (final ! i) =
          (at0 (position (particles ! i)) + (at0 (momentum (particles ! i)) / mass (particles ! i)) * ?ts
             + 0.5 * (at0 (forces ! i) / mass (particles ! i)) * ?ts\<^sup>2,
           at1 (position (particles ! i)) + (at1 (momentum (particles ! i)) / mass (particles ! i)) * ?ts
             + 0.5 * (at1 (forces ! i) / mass (particles ! i)) * ?ts\<^sup>2,
           at2 (position (particles ! i)) + (at2 (momentum (particles ! i)) / mass (particles ! i)) * ?ts
             + 0.5 * (at2 (forces ! i) / mass (particles ! i)) * ?ts\<^sup>2)
      \<and> momentum (final ! i) =
          (at0 (momentum (particles ! i)) + 0.5 * (at0 (forces ! i) + at0 (newForces ! i)) * ?ts,
           at1 (momentum (particles ! i)) + 0.5 * (at1 (forces ! i) + at1 (newForces ! i)) * ?ts,
           at2 (momentum (particles ! i)) + 0.5 * (at2 (forces ! i) + at2 (newForces ! i)) * ?ts)"
    if i: "i < length particles" for i
  proof -
    have m: "mass (particles ! i) \<noteq> 0" using assms i by simp
    note s = steps [OF i]
    from s have u: "updated ! i = (particles ! i)\<lparr>position :=
       (at0 (position (particles ! i)) + at0 (momentum (particles ! i)) * (1 / mass (particles ! i)) * ?ts
          + 0.5 * (at0 (forces ! i) * (1 / mass (particles ! i))) * ?ts * ?ts,
        at1 (position (particles ! i)) + at1 (momentum (particles ! i)) * (1 / mass (particles ! i)) * ?ts
          + 0.5 * (at1 (forces ! i) * (1 / mass (particles ! i))) * ?ts * ?ts,
        at2 (position (particles ! i)) + at2 (momentum (particles ! i)) * (1 / mass (particles ! i)) * ?ts
          + 0.5 * (at2 (forces ! i) * (1 / mass (particles ! i))) * ?ts * ?ts)\<rparr>"
      using advancePosition_Some [OF m, of ?ts "forces ! i"] by simp
    have m': "mass (updated ! i) \<noteq> 0" using m u by simp
    from s have f: "final ! i = (let newMomentum =
         (at0 (momentum (updated ! i)) + 0.5 * (at0 (forces ! i) + at0 (newForces ! i)) * ?ts,
          at1 (momentum (updated ! i)) + 0.5 * (at1 (forces ! i) + at1 (newForces ! i)) * ?ts,
          at2 (momentum (updated ! i)) + 0.5 * (at2 (forces ! i) + at2 (newForces ! i)) * ?ts)
       in (updated ! i)\<lparr>momentum := newMomentum,
            energy := vec3Dot newMomentum newMomentum / (2 * mass (updated ! i))\<rparr>)"
      using advanceMomentum_Some [OF m', of ?ts "forces ! i" "newForces ! i"] by simp
    have pos: "position (final ! i) = position (updated ! i)"
      using f by (simp add: Let_def)
    have mom: "momentum (updated ! i) = momentum (particles ! i)"
      using u by simp
    have upd: "updated ! i = (particles ! i)\<lparr>position := position (final ! i)\<rparr>"
      unfolding pos using u by simp
    have posval: "position (final ! i) =
          (at0 (position (particles ! i)) + (at0 (momentum (particles ! i)) / mass (particles ! i)) * ?ts
             + 0.5 * (at0 (forces ! i) / mass (particles ! i)) * ?ts\<^sup>2,
           at1 (position (particles ! i)) + (at1 (momentum (particles ! i)) / mass (particles ! i)) * ?ts
             + 0.5 * (at1 (forces ! i) / mass (particles ! i)) * ?ts\<^sup>2,
           at2 (position (particles ! i)) + (at2 (momentum (particles ! i)) / mass (particles ! i)) * ?ts
             + 0.5 * (at2 (forces ! i) / mass (particles ! i)) * ?ts\<^sup>2)"
      unfolding pos using u by (simp add: power2_eq_square)
    have momval: "momentum (final ! i) =
          (at0 (momentum (particles ! i)) + 0.5 * (at0 (forces ! i) + at0 (newForces ! i)) * ?ts,
           at1 (momentum (particles ! i)) + 0.5 * (at1 (forces ! i) + at1 (newForces ! i)) * ?ts,
           at2 (momentum (particles ! i)) + 0.5 * (at2 (forces ! i) + at2 (newForces ! i)) * ?ts)"
      using f mom by (simp add: Let_def)
    show ?thesis using s upd posval momval by blast
  qed
  show ?thesis
    unfolding Let_def
    apply (rule exI [of _ forces], rule exI [of _ updated], rule exI [of _ newForces])
    apply (rule exI [of _ final], rule exI [of _ energies])
    using run len each by blast
qed

theorem velocity_verlet_step_witness:
  "mass (exampleParticle ''a'' (1, 0, 0) (0, 0, 0) 1 1 0) \<noteq> 0
   \<and> (\<exists>finalParticles energies.
        integrateHamiltonian [exampleParticle ''a'' (1, 0, 0) (0, 0, 0) 1 1 0] defaultConfig 1 None attract
          = Some (finalParticles, energies)
      \<and> position (finalParticles ! 0) = (0.75, 0, 0)
      \<and> momentum (finalParticles ! 0) = (- 0.4375, 0, 0))"
proof -
  let ?a = "exampleParticle ''a'' (1, 0, 0) (0, 0, 0) 1 1 0"
  have m: "\<forall>p\<in>set [?a]. mass p \<noteq> 0" by (simp add: exampleParticle_def)
  obtain forces updated newForces final energies where
    run: "integrateHamiltonian [?a] defaultConfig 1 None attract = Some (final, energies)"
    and len: "length updated = length [?a]"
    and f0: "calculateForce ([?a] ! 0) [?a] defaultConfig None attract = Some (forces ! 0)"
    and u0: "updated ! 0 = ([?a] ! 0)\<lparr>position := position (final ! 0)\<rparr>"
    and n0: "calculateForce (updated ! 0) updated defaultConfig None attract = Some (newForces ! 0)"
    and q0: "position (final ! 0) =
       (at0 (position ([?a] ! 0)) + (at0 (momentum ([?a] ! 0)) / mass ([?a] ! 0)) * (1 * timeScale defaultConfig)
          + 0.5 * (at0 (forces ! 0) / mass ([?a] ! 0)) * (1 * timeScale defaultConfig)\<^sup>2,
        at1 (position ([?a] ! 0)) + (at1 (momentum ([?a] ! 0)) / mass ([?a] ! 0)) * (1 * timeScale defaultConfig)
          + 0.5 * (at1 (forces ! 0) / mass ([?a] ! 0)) * (1 * timeScale defaultConfig)\<^sup>2,
        at2 (position ([?a] ! 0)) + (at2 (momentum ([?a] ! 0)) / mass ([?a] ! 0)) * (1 * timeScale defaultConfig)
          + 0.5 * (at2 (forces ! 0) / mass ([?a] ! 0)) * (1 * timeScale defaultConfig)\<^sup>2)"
    and p0: "momentum (final ! 0) =
       (at0 (momentum ([?a] ! 0)) + 0.5 * (at0 (forces ! 0) + at0 (newForces ! 0)) * (1 * timeScale defaultConfig),
        at1 (momentum ([?a] ! 0)) + 0.5 * (at1 (forces ! 0) + at1 (newForces ! 0)) * (1 * timeScale defaultConfig),
        at2 (momentum ([?a] ! 0)) + 0.5 * (at2 (forces ! 0) + at2 (newForces ! 0)) * (1 * timeScale defaultConfig))"
    using velocity_verlet_step [OF m, of defaultConfig 1 None attract]
    unfolding Let_def by force
  have "calculateForce ?a [?a] defaultConfig None attract = Some (- 0.5, 0, 0)"
    by (simp add: calculateForce_def jsDivide_def Let_def interactionStep_def handInteraction_def
        exampleParticle_def defaultConfig_def vec3Add_def vec3Scale_def)
  with f0 have F: "forces ! 0 = (- 0.5, 0, 0)" by simp
  have Q: "position (final ! 0) = (0.75, 0, 0)"
    unfolding q0 F by (simp add: exampleParticle_def defaultConfig_def)
  have U: "updated = [?a\<lparr>position := (0.75, 0, 0)\<rparr>]"
    using len u0 Q by (cases updated) simp_all
  have "calculateForce (?a\<lparr>position := (0.75, 0, 0)\<rparr>) [?a\<lparr>position := (0.75, 0, 0)\<rparr>]
      defaultConfig None attract = Some (- 0.375, 0, 0)"
    by (simp add: calculateForce_def jsDivide_def Let_def interactionStep_def handInteraction_def
        exampleParticle_def defaultConfig_def vec3Add_def vec3Scale_def)
  with n0 U have N: "newForces ! 0 = (- 0.375, 0, 0)" by simp
  have P: "momentum (final ! 0) = (- 0.4375, 0, 0)"
    unfolding p0 F N by (simp add: exampleParticle_def defaultConfig_def)
  show ?thesis using run Q P by (simp add: exampleParticle_def)
qed

lemma map_nth_eq:
  assumes "length ys = length xs" and "\<And>i. i < length xs \<Longrightarrow> ys ! i = g (xs ! i)"
  shows "ys = map g xs"
  using assms by (simp add: list_eq_iff_nth_eq)

text \<open>
  C10. For a population of particles of non-zero mass and an effective time step
  \<open>dt * timeScale = 0\<close>, \<^verbatim>\<open>integrateHamiltonian\<close> returns every particle with only
  its \<open>energy\<close> changed, to \<open>|p|\<^sup>2 / (2 m)\<close>: position and momentum are those of the
  input. For every step size the identifier, mass, charge, level and colour of a
  particle stay as they are and its energy becomes the kinetic energy of its new
  momentum.
\<close>

theorem zero_time_step:
  assumes "\<forall>p\<in>set particles. mass p \<noteq> 0" and "dt * timeScale config = 0"
  shows "(\<exists>energies. integrateHamiltonian particles config dt handPosition gestureMode =
            Some (map (\<lambda>p. p\<lparr>energy := vec3Dot (momentum p) (momentum p) / (2 * mass p)\<rparr>) particles,
                  energies))
       \<and> (\<forall>dt'. \<exists>finalParticles energies.
            integrateHamiltonian particles config dt' handPosition gestureMode
              = Some (finalParticles, energies)
          \<and> length finalParticles = length particles
          \<and> (\<forall>i<length particles.
                id_p (finalParticles ! i) = id_p (particles ! i)
              \<and> mass (finalParticles ! i) = mass (particles ! i)
              \<and> charge (finalParticles ! i) = charge (particles ! i)
              \<and> holarchyLevel (finalParticles ! i) = holarchyLevel (particles ! i)
              \<and> color (finalParticles ! i) = color (particles ! i)
              \<and> energy (finalParticles ! i) =
                  vec3Dot (momentum (finalParticles ! i)) (momentum (finalParticles ! i))
                    / (2 * mass (particles ! i))))"
proof (intro conjI allI)
  obtain forces updated newForces final energies where
    run: "integrateHamiltonian particles config dt handPosition gestureMode = Some (final, energies)"
    and len: "length final = length particles"
    and steps: "\<And>i. i < length particles \<Longrightarrow>
          advancePosition (dt * timeScale config) (particles ! i) (forces ! i) = Some (updated ! i)
        \<and> advanceMomentum (dt * timeScale config) (updated ! i) (forces ! i) (newForces ! i)
            = Some (final ! i)"
    using integrateHamiltonian_steps [OF assms(1), of config dt handPosition gestureMode]
    by blast
  have "final ! i = (particles ! i)\<lparr>energy :=
      vec3Dot (momentum (particles ! i)) (momentum (particles ! i)) / (2 * mass (particles ! i))\<rparr>"
    if i: "i < length particles" for i
  proof -
    have m: "mass (particles ! i) \<noteq> 0" using assms(1) i by simp
    from steps [OF i] have u: "updated ! i = particles ! i"
      using advancePosition_Some [OF m, of "dt * timeScale config" "forces ! i"] assms(2) by simp
    from steps [OF i] show ?thesis
      using advanceMomentum_Some [OF m, of "dt * timeScale config" "forces ! i" "newForces ! i"]
        assms(2) u
      by (simp add: Let_def)
  qed
  with len have "final = map (\<lambda>p. p\<lparr>energy := vec3Dot (momentum p) (momentum p) / (2 * mass p)\<rparr>) particles"
    by (rule map_nth_eq)
  with run show "\<exists>energies. integrateHamiltonian particles config dt handPosition gestureMode =
            Some (map (\<lambda>p. p\<lparr>energy := vec3Dot (momentum p) (momentum p) / (2 * mass p)\<rparr>) particles,
                  energies)"
    by blast
next
  fix dt'
  obtain forces updated newForces final energies where
    run: "integrateHamiltonian particles config dt' handPosition gestureMode = Some (final, energies)"
    and len: "length final = length particles"
    and steps: "\<And>i. i < length particles \<Longrightarrow>
          advancePosition (dt' * timeScale config) (particles ! i) (forces ! i) = Some (updated ! i)
        \<and> advanceMomentum (dt' * timeScale config) (updated ! i) (forces ! i) (newForces ! i)
            = Some (final ! i)"
    using integrateHamiltonian_steps [OF assms(1), of config dt' handPosition gestureMode]
    by blast
  have "id_p (final ! i) = id_p (particles ! i)
      \<and> mass (final ! i) = mass (particles ! i)
      \<and> charge (final ! i) = charge (particles ! i)
      \<and> holarchyLevel (final ! i) = holarchyLevel (particles ! i)
      \<and> color (final ! i) = color (particles ! i)
      \<and> energy (final ! i) =
          vec3Dot (momentum (final ! i)) (momentum (final ! i)) / (2 * mass (particles ! i))"
    if i: "i < length particles" for i
  proof -
    have m: "mass (particles ! i) \<noteq> 0" using assms(1) i by simp
    from steps [OF i] have u: "advancePosition (dt' * timeScale config) (particles ! i) (forces ! i)
        = Some (updated ! i)"
      and f: "advanceMomentum (dt' * timeScale config) (updated ! i) (forces ! i) (newForces ! i)
        = Some (final ! i)"
      by simp_all
    note uf = advancePosition_frame [OF u]
    note ff = advanceMomentum_frame [OF f]
    show ?thesis using uf ff by simp
  qed
  with run len show "\<exists>finalParticles energies.
            integrateHamiltonian particles config dt' handPosition gestureMode
              = Some (finalParticles, energies)
          \<and> length finalParticles = length particles
          \<and> (\<forall>i<length particles.
                id_p (finalParticles ! i) = id_p (particles ! i)
              \<and> mass (finalParticles ! i) = mass (particles ! i)
              \<and> charge (finalParticles ! i) = charge (particles ! i)
              \<and> holarchyLevel (finalParticles ! i) = holarchyLevel (particles ! i)
              \<and> color (finalParticles ! i) = color (particles ! i)
              \<and> energy (finalParticles ! i) =
                  vec3Dot (momentum (finalParticles ! i)) (momentum (finalParticles ! i))
                    / (2 * mass (particles ! i)))"
    by blast
qed

theorem zero_time_step_witness:
  "mass (exampleParticle ''a'' (1, 0, 0) (0, 2, 0) 1 1 0) \<noteq> 0
   \<and> mass (exampleParticle ''b'' (3, 0, 0) (1, 0, 0) 2 (- 1) 0) \<noteq> 0
   \<and> (0::real) * timeScale defaultConfig = 0
   \<and> (\<exists>energies.
        integrateHamiltonian
          [exampleParticle ''a'' (1, 0, 0) (0, 2, 0) 1 1 0, exampleParticle ''b'' (3, 0, 0) (1, 0, 0) 2 (- 1) 0]
          defaultConfig 0 None attract
        = Some ([(exampleParticle ''a'' (1, 0, 0) (0, 2, 0) 1 1 0)\<lparr>energy := 2\<rparr>,
                 (exampleParticle ''b'' (3, 0, 0) (1, 0, 0) 2 (- 1) 0)\<lparr>energy := 0.25\<rparr>], energies))"
proof -
  let ?a = "exampleParticle ''a'' (1, 0, 0) (0, 2, 0) 1 1 0"
  let ?b = "exampleParticle ''b'' (3, 0, 0) (1, 0, 0) 2 (- 1) 0"
  have m: "\<forall>p\<in>set [?a, ?b]. mass p \<noteq> 0" by (simp add: exampleParticle_def)
  have z: "(0::real) * timeScale defaultConfig = 0" by simp
  have e: "map (\<lambda>p. p\<lparr>energy := vec3Dot (momentum p) (momentum p) / (2 * mass p)\<rparr>) [?a, ?b]
      = [?a\<lparr>energy := 2\<rparr>, ?b\<lparr>energy := 0.25\<rparr>]"
    by (simp add: exampleParticle_def vec3Dot_def)
  from zero_time_step [OF m z, of None attract] have
    "\<exists>energies. integrateHamiltonian [?a, ?b] defaultConfig 0 None attract =
        Some (map (\<lambda>p. p\<lparr>energy := vec3Dot (momentum p) (momentum p) / (2 * mass p)\<rparr>) [?a, ?b],
              energies)"
    by blast
  then show ?thesis unfolding e using m by simp
qed

section \<open>Emergence: the merges of a pass\<close>

lemma mergeStep_cases:
  assumes "mergeStep newId thr maxL a b st = Some st'"
  shows "st' = st \<or> (\<exists>q. st' = (fst st @ [q], insert (id_p b) (insert (id_p a) (snd st)))
            \<and> isMergeOf q a b \<and> id_p q = newId (length (fst st)))"
  using assms
  by (auto simp add: mergeStep_def Let_def jsDivide_def isMergeOf_def vec3Add_def
      split: if_splits bind_splits)

lemma mergeStep_invariant:
  assumes "mergeStep newId thr maxL (particles ! i) (particles ! j) st = Some st'"
    and "mergeInvariant particles merges st" and "i < j" and "j < length particles"
  shows "\<exists>merges'. mergeInvariant particles merges' st'"
proof -
  from mergeStep_cases [OF assms(1)] show ?thesis
  proof
    assume "st' = st"
    with assms(2) show ?thesis by blast
  next
    assume "\<exists>q. st' = (fst st @ [q], insert (id_p (particles ! j)) (insert (id_p (particles ! i)) (snd st)))
            \<and> isMergeOf q (particles ! i) (particles ! j) \<and> id_p q = newId (length (fst st))"
    then obtain q where st': "st' = (fst st @ [q],
        insert (id_p (particles ! j)) (insert (id_p (particles ! i)) (snd st)))"
      and q: "isMergeOf q (particles ! i) (particles ! j)"
      by blast
    have "mergeInvariant particles (merges @ [(i, j, q)]) st'"
      using assms(2,3,4) q st' by (auto simp add: mergeInvariant_def mergedIds_def)
    then show ?thesis by blast
  qed
qed

lemma mergeInner_invariant:
  assumes "mergeInner newId thr maxL (particles ! i) rest st = Some st'"
    and "\<exists>merges. mergeInvariant particles merges st"
    and "i < j0" and "j0 + length rest \<le> length particles"
    and "\<forall>k<length rest. rest ! k = particles ! (j0 + k)"
  shows "\<exists>merges. mergeInvariant particles merges st'"
  using assms
proof (induction rest arbitrary: st j0)
  case Nil
  then show ?case by simp
next
  case (Cons b rest)
  from Cons.prems(1) obtain st1 where
    s1: "mergeStep newId thr maxL (particles ! i) b st = Some st1"
    and s2: "mergeInner newId thr maxL (particles ! i) rest st1 = Some st'"
    by (auto split: bind_splits)
  have b: "b = particles ! j0" using Cons.prems(5) by auto
  have j0: "j0 < length particles" using Cons.prems(4) by simp
  from Cons.prems(2) obtain merges where "mergeInvariant particles merges st" by blast
  from mergeStep_invariant [OF s1 [unfolded b] this Cons.prems(3) j0]
  have inv1: "\<exists>merges. mergeInvariant particles merges st1" .
  have rest: "\<forall>k<length rest. rest ! k = particles ! (Suc j0 + k)"
    using Cons.prems(5) by auto
  show ?case
    using Cons.IH [OF s2 inv1 _ _ rest] Cons.prems(3,4) by simp
qed

lemma mergeOuter_invariant:
  assumes "mergeOuter newId thr maxL suffix st = Some st'"
    and "\<exists>merges. mergeInvariant particles merges st"
    and "i0 + length suffix \<le> length particles"
    and "\<forall>k<length suffix. suffix ! k = particles ! (i0 + k)"
  shows "\<exists>merges. mergeInvariant particles merges st'"
  using assms
proof (induction suffix arbitrary: st i0)
  case Nil
  then show ?case by simp
next
  case (Cons a rest)
  have a: "a = particles ! i0" using Cons.prems(4) by auto
  have rest: "\<forall>k<length rest. rest ! k = particles ! (Suc i0 + k)"
    using Cons.prems(4) by auto
  have len: "Suc i0 + length rest \<le> length particles" using Cons.prems(3) by simp
  show ?case
  proof (cases "id_p a \<in> snd st")
    case True
    with Cons.prems(1) have "mergeOuter newId thr maxL rest st = Some st'" by simp
    from Cons.IH [OF this Cons.prems(2) len rest] show ?thesis .
  next
    case False
    with Cons.prems(1) obtain st1 where
      s1: "mergeInner newId thr maxL a rest st = Some st1"
      and s2: "mergeOuter newId thr maxL rest st1 = Some st'"
      by (auto split: bind_splits)
    have inv1: "\<exists>merges. mergeInvariant particles merges st1"
      using mergeInner_invariant [OF s1 [unfolded a] Cons.prems(2) _ len rest] by simp
    from Cons.IH [OF s2 inv1 len rest] show ?thesis .
  qed
qed

lemma checkHolarchicEmergence_invariant:
  assumes "checkHolarchicEmergence newId particles thr maxL = Some out"
  shows "\<exists>merges. mergeInvariant particles merges
            (particles @ map (\<lambda>m. snd (snd m)) merges, mergedIds particles merges)
          \<and> out = filter (\<lambda>p. id_p p \<notin> mergedIds particles merges)
                    (particles @ map (\<lambda>m. snd (snd m)) merges)"
proof -
  from assms obtain st where st: "mergeOuter newId thr maxL particles (particles, {}) = Some st"
    and out: "out = filter (\<lambda>p. id_p p \<notin> snd st) (fst st)"
    by (auto simp add: checkHolarchicEmergence_def split: bind_splits)
  have "mergeInvariant particles [] (particles, {})" by (simp add: mergeInvariant_def mergedIds_def)
  then have "\<exists>merges. mergeInvariant particles merges (particles, {})" by blast
  from mergeOuter_invariant [OF st this, of 0] obtain merges where
    m: "mergeInvariant particles merges st" by auto
  then have "fst st = particles @ map (\<lambda>m. snd (snd m)) merges" "snd st = mergedIds particles merges"
    by (simp_all add: mergeInvariant_def)
  with m out show ?thesis by (metis prod.collapse)
qed

lemma mergeStep_total:
  assumes "0 < mass a" and "0 < mass b"
  shows "\<exists>st'. mergeStep newId thr maxL a b st = Some st'"
proof -
  have "mass a + mass b \<noteq> 0" using assms by simp
  then show ?thesis by (simp add: mergeStep_def Let_def jsDivide_def del: split_paired_Ex)
qed

lemma mergeInner_total:
  assumes "0 < mass a" and "\<forall>b\<in>set rest. 0 < mass b"
  shows "\<exists>st'. mergeInner newId thr maxL a rest st = Some st'"
  using assms(2)
proof (induction rest arbitrary: st)
  case Nil
  show ?case by (simp del: split_paired_Ex)
next
  case (Cons b rest)
  have "0 < mass b" using Cons.prems by simp
  from mergeStep_total [OF assms(1) this] obtain st1 where
    "mergeStep newId thr maxL a b st = Some st1" by blast
  moreover have "\<exists>st'. mergeInner newId thr maxL a rest st1 = Some st'"
    using Cons.IH Cons.prems by simp
  ultimately show ?case by (simp del: split_paired_Ex)
qed

lemma mergeOuter_total:
  assumes "\<forall>p\<in>set suffix. 0 < mass p"
  shows "\<exists>st'. mergeOuter newId thr maxL suffix st = Some st'"
  using assms
proof (induction suffix arbitrary: st)
  case Nil
  show ?case by (simp del: split_paired_Ex)
next
  case (Cons a rest)
  have "0 < mass a" and "\<forall>b\<in>set rest. 0 < mass b" using Cons.prems by simp_all
  from mergeInner_total [OF this] obtain st1 where
    "mergeInner newId thr maxL a rest st = Some st1" by blast
  moreover have "\<exists>st'. mergeOuter newId thr maxL rest st1 = Some st'"
    using Cons.IH Cons.prems by simp
  moreover have "\<exists>st'. mergeOuter newId thr maxL rest st = Some st'"
    using Cons.IH Cons.prems by simp
  ultimately show ?case by (simp del: split_paired_Ex)
qed

lemma checkHolarchicEmergence_total:
  assumes "\<forall>p\<in>set particles. 0 < mass p"
  shows "\<exists>out. checkHolarchicEmergence newId particles thr maxL = Some out"
proof -
  obtain st where "mergeOuter newId thr maxL particles (particles, {}) = Some st"
    using mergeOuter_total [OF assms] by blast
  then show ?thesis by (simp add: checkHolarchicEmergence_def)
qed

lemma vec3Length_axis: "vec3Length (x, 0, 0) = \<bar>x\<bar>"
  by (simp add: vec3Length_def)

lemma palette_level_1:
  "arrayRead HOLARCHY_COLORS (jsRemainder (0 + 1) (int (length HOLARCHY_COLORS))) = Some ''#22d3ee''"
  by (simp add: arrayRead_def jsRemainder_def HOLARCHY_COLORS_def)

lemma end_to_end_scenario:
  assumes "holarchyLevel a = 0" and "holarchyLevel b = 0" and "mass a = 1" and "mass b = 1"
    and "position a = (0, 0, 0)" and "position b = (0.05, 0, 0)"
    and "momentum a = (0, 0, 0)" and "momentum b = (0, 0, 0)"
    and "2 \<le> maxLevel" and "newId 2 \<noteq> id_p a" and "newId 2 \<noteq> id_p b"
  shows "checkHolarchicEmergence newId [a, b] 0.7 maxLevel =
     Some [\<lparr>id_p = newId 2, position = (0.025, 0, 0), momentum = (0, 0, 0), mass = 2,
            charge = charge a + charge b, holarchyLevel = 1, energy = 0,
            color = Some ''#22d3ee''\<rparr>]"
proof -
  have step: "mergeStep newId 0.7 maxLevel a b ([a, b], {}) =
     Some ([a, b, \<lparr>id_p = newId 2, position = (0.025, 0, 0), momentum = (0, 0, 0), mass = 2,
            charge = charge a + charge b, holarchyLevel = 1, energy = 0,
            color = Some ''#22d3ee''\<rparr>], {id_p b, id_p a})"
    using assms palette_level_1
    by (simp add: mergeStep_def Let_def vec3Sub_def vec3Length_axis jsDivide_def numeral_2_eq_2)
  show ?thesis
    using assms by (simp add: checkHolarchicEmergence_def step)
qed

text \<open>
  C2, amended. Whenever \<^verbatim>\<open>checkHolarchicEmergence\<close> returns, its output is the input
  followed by the particles synthesized by the merges of the pass, without every
  particle whose identifier is that of a merged input; each synthesized particle is the
  merge of two inputs \<open>i < j\<close> of equal level (mass, momentum and charge summed,
  mass-weighted mean position, level plus one, energy 0), and these two inputs are not
  in the output. The function returns for every population of positive masses. Two
  level-0 particles of mass 1 at \<open>(0,0,0)\<close> and \<open>(0.05,0,0)\<close> with zero momenta merge, at
  threshold 0.7, into the single level-1 particle at \<open>(0.025,0,0)\<close> with mass 2 and
  momentum zero, when \<open>maxLevel\<close> is at least 2, so that level 0 may merge, and the
  generated identifier is not one of theirs.
\<close>

theorem merge_conservation:
  "(\<forall>out. checkHolarchicEmergence newId particles emergenceThreshold maxLevel = Some out \<longrightarrow>
      (\<exists>merges.
          out = filter (\<lambda>p. id_p p \<notin> mergedIds particles merges)
                  (particles @ map (\<lambda>m. snd (snd m)) merges)
        \<and> (\<forall>m\<in>set merges. case m of (i, j, q) \<Rightarrow>
              i < j \<and> j < length particles \<and> isMergeOf q (particles ! i) (particles ! j)
            \<and> particles ! i \<notin> set out \<and> particles ! j \<notin> set out)))
   \<and> ((\<forall>p\<in>set particles. 0 < mass p) \<longrightarrow>
        (\<exists>out. checkHolarchicEmergence newId particles emergenceThreshold maxLevel = Some out))
   \<and> (\<forall>a b. holarchyLevel a = 0 \<and> holarchyLevel b = 0 \<and> mass a = 1 \<and> mass b = 1
          \<and> position a = (0, 0, 0) \<and> position b = (0.05, 0, 0)
          \<and> momentum a = (0, 0, 0) \<and> momentum b = (0, 0, 0)
          \<and> 2 \<le> maxLevel \<and> newId 2 \<noteq> id_p a \<and> newId 2 \<noteq> id_p b \<longrightarrow>
        checkHolarchicEmergence newId [a, b] 0.7 maxLevel =
          Some [\<lparr>id_p = newId 2, position = (0.025, 0, 0), momentum = (0, 0, 0), mass = 2,
                 charge = charge a + charge b, holarchyLevel = 1, energy = 0,
                 color = Some ''#22d3ee''\<rparr>])"
proof (intro conjI allI impI)
  fix out
  assume run: "checkHolarchicEmergence newId particles emergenceThreshold maxLevel = Some out"
  from checkHolarchicEmergence_invariant [OF run] obtain merges where
    inv: "mergeInvariant particles merges
            (particles @ map (\<lambda>m. snd (snd m)) merges, mergedIds particles merges)"
    and out: "out = filter (\<lambda>p. id_p p \<notin> mergedIds particles merges)
                    (particles @ map (\<lambda>m. snd (snd m)) merges)"
    by blast
  have "case m of (i, j, q) \<Rightarrow>
              i < j \<and> j < length particles \<and> isMergeOf q (particles ! i) (particles ! j)
            \<and> particles ! i \<notin> set out \<and> particles ! j \<notin> set out"
    if m: "m \<in> set merges" for m
  proof -
    obtain i j q where mq: "m = (i, j, q)" by (cases m) auto
    have "i < j" "j < length particles" "isMergeOf q (particles ! i) (particles ! j)"
      using inv m mq by (auto simp add: mergeInvariant_def list_all_iff)
    moreover have "id_p (particles ! i) \<in> mergedIds particles merges"
      "id_p (particles ! j) \<in> mergedIds particles merges"
      using m mq by (force simp add: mergedIds_def)+
    then have "particles ! i \<notin> set out" "particles ! j \<notin> set out"
      unfolding out by auto
    ultimately show ?thesis using mq by simp
  qed
  with out show "\<exists>merges.
          out = filter (\<lambda>p. id_p p \<notin> mergedIds particles merges)
                  (particles @ map (\<lambda>m. snd (snd m)) merges)
        \<and> (\<forall>m\<in>set merges. case m of (i, j, q) \<Rightarrow>
              i < j \<and> j < length particles \<and> isMergeOf q (particles ! i) (particles ! j)
            \<and> particles ! i \<notin> set out \<and> particles ! j \<notin> set out)"
    by blast
next
  assume "\<forall>p\<in>set particles. 0 < mass p"
  then show "\<exists>out. checkHolarchicEmergence newId particles emergenceThreshold maxLevel = Some out"
    by (rule checkHolarchicEmergence_total)
next
  fix a b :: Particle
  assume "holarchyLevel a = 0 \<and> holarchyLevel b = 0 \<and> mass a = 1 \<and> mass b = 1
          \<and> position a = (0, 0, 0) \<and> position b = (0.05, 0, 0)
          \<and> momentum a = (0, 0, 0) \<and> momentum b = (0, 0, 0)
          \<and> 2 \<le> maxLevel \<and> newId 2 \<noteq> id_p a \<and> newId 2 \<noteq> id_p b"
  then show "checkHolarchicEmergence newId [a, b] 0.7 maxLevel =
          Some [\<lparr>id_p = newId 2, position = (0.025, 0, 0), momentum = (0, 0, 0), mass = 2,
                 charge = charge a + charge b, holarchyLevel = 1, energy = 0,
                 color = Some ''#22d3ee''\<rparr>]"
    using end_to_end_scenario [of a b maxLevel newId] by blast
qed

theorem merge_conservation_witness:
  "0 < mass (exampleParticle ''a'' (0, 0, 0) (0, 0, 0) 1 1 0)
   \<and> 0 < mass (exampleParticle ''b'' (0.05, 0, 0) (0, 0, 0) 1 (- 1) 0)
   \<and> checkHolarchicEmergence (\<lambda>n. ''m'')
        [exampleParticle ''a'' (0, 0, 0) (0, 0, 0) 1 1 0,
         exampleParticle ''b'' (0.05, 0, 0) (0, 0, 0) 1 (- 1) 0] 0.7 3
      = Some [\<lparr>id_p = ''m'', position = (0.025, 0, 0), momentum = (0, 0, 0), mass = 2,
               charge = 0, holarchyLevel = 1, energy = 0, color = Some ''#22d3ee''\<rparr>]"
proof -
  let ?a = "exampleParticle ''a'' (0, 0, 0) (0, 0, 0) 1 1 0"
  let ?b = "exampleParticle ''b'' (0.05, 0, 0) (0, 0, 0) 1 (- 1) 0"
  have h: "holarchyLevel ?a = 0 \<and> holarchyLevel ?b = 0 \<and> mass ?a = 1 \<and> mass ?b = 1
          \<and> position ?a = (0, 0, 0) \<and> position ?b = (0.05, 0, 0)
          \<and> momentum ?a = (0, 0, 0) \<and> momentum ?b = (0, 0, 0)
          \<and> (2::int) \<le> 3 \<and> (\<lambda>n::nat. ''m'') 2 \<noteq> id_p ?a \<and> (\<lambda>n::nat. ''m'') 2 \<noteq> id_p ?b"
    by (simp add: exampleParticle_def)
  have c: "charge ?a + charge ?b = 0" by (simp add: exampleParticle_def)
  from merge_conservation [of "\<lambda>n. ''m''" "[?a, ?b]" "0.7" 3] h
  have "checkHolarchicEmergence (\<lambda>n. ''m'') [?a, ?b] 0.7 3 =
          Some [\<lparr>id_p = (\<lambda>n::nat. ''m'') 2, position = (0.025, 0, 0), momentum = (0, 0, 0), mass = 2,
                 charge = charge ?a + charge ?b, holarchyLevel = 1, energy = 0,
                 color = Some ''#22d3ee''\<rparr>]"
    by blast
  then show ?thesis unfolding c by (simp add: exampleParticle_def)
qed

text \<open>
  C2 as stated fails at \<open>maxLevel = 1\<close>: the guard \<^verbatim>\<open>pi.holarchyLevel >= maxLevel - 1\<close>
  skips every pair of level-0 particles, and the two particles of the scenario are
  returned as they are.
\<close>

theorem scenario_without_merge_counterexample:
  "checkHolarchicEmergence (\<lambda>n. ''m'')
     [exampleParticle ''a'' (0, 0, 0) (0, 0, 0) 1 1 0,
      exampleParticle ''b'' (0.05, 0, 0) (0, 0, 0) 1 (- 1) 0] 0.7 1
   = Some [exampleParticle ''a'' (0, 0, 0) (0, 0, 0) 1 1 0,
           exampleParticle ''b'' (0.05, 0, 0) (0, 0, 0) 1 (- 1) 0]"
  by (simp add: checkHolarchicEmergence_def mergeStep_def Let_def exampleParticle_def)

text \<open>
  C1. The claim fails on the code: the inner loop has no \<^verbatim>\<open>break\<close> after a merge and
  tests \<^verbatim>\<open>toMerge\<close> for \<open>j\<close> only, so the particle at \<open>i\<close> pairs again with every later
  particle in reach. Three particles of mass 1 at one point give two particles of
  mass 2: the first input is consumed by two merges.
\<close>

theorem merged_particle_pairs_again:
  "checkHolarchicEmergence (\<lambda>n. if n = 3 then ''ab'' else ''ac'')
     [exampleParticle ''a'' (0, 0, 0) (0, 0, 0) 1 1 0,
      exampleParticle ''b'' (0, 0, 0) (0, 0, 0) 1 1 0,
      exampleParticle ''c'' (0, 0, 0) (0, 0, 0) 1 1 0] 0.7 3
   = Some [\<lparr>id_p = ''ab'', position = (0, 0, 0), momentum = (0, 0, 0), mass = 2, charge = 2,
            holarchyLevel = 1, energy = 0, color = Some ''#22d3ee''\<rparr>,
           \<lparr>id_p = ''ac'', position = (0, 0, 0), momentum = (0, 0, 0), mass = 2, charge = 2,
            holarchyLevel = 1, energy = 0, color = Some ''#22d3ee''\<rparr>]"
  using palette_level_1
  by (simp add: checkHolarchicEmergence_def mergeStep_def Let_def exampleParticle_def vec3Sub_def
      vec3Length_axis jsDivide_def)

section \<open>Memory nodes: decay and reinforcement\<close>

lemma foldl_plus_sum_list:
  "foldl (\<lambda>acc p. acc + f p) a xs = a + sum_list (map f xs)" for a :: real
  by (induction xs arbitrary: a) simp_all

lemma updateNode_unmatched:
  assumes "filter (\<lambda>p. id_p p \<in> set (children node) \<or> holarchyLevel p = level node) particles = []"
  shows "updateNode particles config deltaTime node =
     Some (node\<lparr>memoryStrength := memoryStrength node * (1 - decayRate config * deltaTime)\<rparr>)"
  using assms by (simp add: updateNode_def Let_def)

lemma updateNode_matched:
  assumes "M = filter (\<lambda>p. id_p p \<in> set (children node) \<or> holarchyLevel p = level node) particles"
    and "M \<noteq> []" and "sum_list (map mass M) \<noteq> 0"
  shows "updateNode particles config deltaTime node =
     Some (node\<lparr>position_n :=
              (at0 (position_n node) + (at0 (massCentroid M) - at0 (position_n node)) * 0.01,
               at1 (position_n node) + (at1 (massCentroid M) - at1 (position_n node)) * 0.01,
               at2 (position_n node) + (at2 (massCentroid M) - at2 (position_n node)) * 0.01),
            memoryStrength :=
              min 1 (memoryStrength node * (1 - decayRate config * deltaTime)
                     + exp (- vec3Length (vec3Sub (massCentroid M) (position_n node))) * 0.1),
            activationEnergy := sum_list (map energy M)\<rparr>)"
  using assms(2,3) unfolding assms(1)
  by (simp add: updateNode_def Let_def foldl_plus_sum_list jsDivide_def massCentroid_def
      vec3Length_def vec3Sub_def)

lemma updateMemoryNodes_filter:
  assumes "updateMemoryNodes nodes particles config deltaTime = Some out"
  shows "\<exists>updated. mapM (updateNode particles config deltaTime) nodes = Some updated
     \<and> out = filter (\<lambda>node. memoryStrength node > 0.01) updated"
  using assms by (auto simp add: updateMemoryNodes_def split: bind_splits)

lemma mapM_member:
  assumes "mapM f xs = Some ys" and "x \<in> set xs" and "f x = Some y"
  shows "y \<in> set ys"
proof -
  from assms(2) obtain i where i: "i < length xs" "xs ! i = x" by (auto simp add: in_set_conv_nth)
  from mapM_SomeD [OF assms(1)] i have "length ys = length xs" "f x = Some (ys ! i)" by auto
  with assms(3) i(1) show ?thesis by (metis nth_mem option.inject)
qed

text \<open>
  C6. For a memory node with no matching particle (no particle whose identifier is
  among its children, none at its level), \<^verbatim>\<open>updateMemoryNodes\<close> changes only its
  \<open>memoryStrength\<close>, to \<open>memoryStrength * (1 - decayRate * deltaTime)\<close>. The new value is
  strictly smaller exactly when \<open>memoryStrength * (decayRate * deltaTime)\<close> is positive;
  with \<open>decayRate = 0\<close>, the least value of the control, the strength stays as it is.
  The updated node is in the output exactly when the new strength is not at or below
  0.01.
\<close>

theorem unmatched_node_decay:
  assumes "filter (\<lambda>p. id_p p \<in> set (children node) \<or> holarchyLevel p = level node) particles = []"
  shows "updateNode particles config deltaTime node =
           Some (node\<lparr>memoryStrength := memoryStrength node * (1 - decayRate config * deltaTime)\<rparr>)
       \<and> (memoryStrength node * (1 - decayRate config * deltaTime) < memoryStrength node
            \<longleftrightarrow> 0 < memoryStrength node * (decayRate config * deltaTime))
       \<and> (\<forall>nodes out. updateMemoryNodes nodes particles config deltaTime = Some out
              \<and> node \<in> set nodes \<longrightarrow>
            (node\<lparr>memoryStrength := memoryStrength node * (1 - decayRate config * deltaTime)\<rparr>
               \<in> set out
             \<longleftrightarrow> \<not> memoryStrength node * (1 - decayRate config * deltaTime) \<le> 0.01))"
proof (intro conjI allI impI)
  let ?n' = "node\<lparr>memoryStrength := memoryStrength node * (1 - decayRate config * deltaTime)\<rparr>"
  show u: "updateNode particles config deltaTime node = Some ?n'"
    using assms by (rule updateNode_unmatched)
  show "memoryStrength node * (1 - decayRate config * deltaTime) < memoryStrength node
            \<longleftrightarrow> 0 < memoryStrength node * (decayRate config * deltaTime)"
    by (simp add: algebra_simps)
  fix nodes out
  assume "updateMemoryNodes nodes particles config deltaTime = Some out \<and> node \<in> set nodes"
  then have run: "updateMemoryNodes nodes particles config deltaTime = Some out"
    and mem: "node \<in> set nodes" by simp_all
  from updateMemoryNodes_filter [OF run] obtain updated where
    m: "mapM (updateNode particles config deltaTime) nodes = Some updated"
    and out: "out = filter (\<lambda>node. memoryStrength node > 0.01) updated"
    by blast
  have "?n' \<in> set updated" using mapM_member [OF m mem u] .
  then show "?n' \<in> set out \<longleftrightarrow> \<not> memoryStrength node * (1 - decayRate config * deltaTime) \<le> 0.01"
    unfolding out by auto
qed

theorem unmatched_node_decay_witness:
  "filter (\<lambda>p. id_p p \<in> set (children (exampleNode ''n'' 1 (0, 0, 0) [] 1))
        \<or> holarchyLevel p = level (exampleNode ''n'' 1 (0, 0, 0) [] 1))
     [exampleParticle ''a'' (1, 0, 0) (0, 0, 0) 1 1 0] = []
   \<and> updateMemoryNodes [exampleNode ''n'' 1 (0, 0, 0) [] 1] [exampleParticle ''a'' (1, 0, 0) (0, 0, 0) 1 1 0]
        (exampleMemoryConfig 0.5) 1 = Some [exampleNode ''n'' 1 (0, 0, 0) [] 0.5]
   \<and> updateMemoryNodes [exampleNode ''n'' 1 (0, 0, 0) [] 0.02] [exampleParticle ''a'' (1, 0, 0) (0, 0, 0) 1 1 0]
        (exampleMemoryConfig 0.5) 1 = Some []"
proof -
  let ?n = "exampleNode ''n'' 1 (0, 0, 0) [] 1"
  let ?ps = "[exampleParticle ''a'' (1, 0, 0) (0, 0, 0) 1 1 0]"
  have un: "filter (\<lambda>p. id_p p \<in> set (children ?n) \<or> holarchyLevel p = level ?n) ?ps = []"
    by (simp add: exampleNode_def exampleParticle_def)
  have un': "filter (\<lambda>p. id_p p \<in> set (children (exampleNode ''n'' 1 (0, 0, 0) [] 0.02))
        \<or> holarchyLevel p = level (exampleNode ''n'' 1 (0, 0, 0) [] 0.02)) ?ps = []"
    by (simp add: exampleNode_def exampleParticle_def)
  from unmatched_node_decay [OF un, of "exampleMemoryConfig 0.5" 1]
  have a: "updateNode ?ps (exampleMemoryConfig 0.5) 1 ?n = Some (exampleNode ''n'' 1 (0, 0, 0) [] 0.5)"
    by (simp add: exampleNode_def exampleMemoryConfig_def)
  from unmatched_node_decay [OF un', of "exampleMemoryConfig 0.5" 1]
  have b: "updateNode ?ps (exampleMemoryConfig 0.5) 1 (exampleNode ''n'' 1 (0, 0, 0) [] 0.02)
      = Some (exampleNode ''n'' 1 (0, 0, 0) [] 0.01)"
    by (simp add: exampleNode_def exampleMemoryConfig_def)
  show ?thesis using un a b by (simp add: updateMemoryNodes_def exampleNode_def)
qed

text \<open>C6 as stated fails at \<open>decayRate = 0\<close>: the strength of the node does not decrease.\<close>

theorem decay_not_strict_counterexample:
  "filter (\<lambda>p. id_p p \<in> set (children (exampleNode ''n'' 1 (0, 0, 0) [] 1))
        \<or> holarchyLevel p = level (exampleNode ''n'' 1 (0, 0, 0) [] 1)) [] = []
   \<and> (\<exists>node'. updateMemoryNodes [exampleNode ''n'' 1 (0, 0, 0) [] 1] [] (exampleMemoryConfig 0) 0.016
          = Some [node']
        \<and> \<not> memoryStrength node' < memoryStrength (exampleNode ''n'' 1 (0, 0, 0) [] 1))"
  by (simp add: updateMemoryNodes_def updateNode_def Let_def exampleNode_def exampleMemoryConfig_def)

text \<open>
  C9. The matching particles of a node are the particles whose identifier is among its
  children together with the particles at its level. A particle at the level of the
  node that is not among its children is one of them. When their total mass is not
  zero, \<^verbatim>\<open>updateMemoryNodes\<close> replaces the node by the node updated from all of them:
  its position moves by the hundredth part towards their mass-weighted centroid, its
  strength is the decayed strength plus a tenth of \<open>exp (- distance)\<close> to this centroid,
  at most 1, and its activation energy is the sum of their energies. For the list of the
  node alone the output is this updated node, or nothing when its strength is at or
  below 0.01; for every list that contains the node, the updated node is in the output
  exactly when its strength is above 0.01.
\<close>

theorem same_level_particles_match:
  assumes "p \<in> set particles" and "holarchyLevel p = level node"
    and "id_p p \<notin> set (children node)"
  shows "(let matchingParticles =
            filter (\<lambda>q. id_p q \<in> set (children node) \<or> holarchyLevel q = level node) particles;
              updated = node\<lparr>position_n :=
                     (at0 (position_n node) + (at0 (massCentroid matchingParticles) - at0 (position_n node)) * 0.01,
                      at1 (position_n node) + (at1 (massCentroid matchingParticles) - at1 (position_n node)) * 0.01,
                      at2 (position_n node) + (at2 (massCentroid matchingParticles) - at2 (position_n node)) * 0.01),
                    memoryStrength :=
                      min 1 (memoryStrength node * (1 - decayRate config * deltaTime)
                        + exp (- vec3Length (vec3Sub (massCentroid matchingParticles) (position_n node))) * 0.1),
                    activationEnergy := sum_list (map energy matchingParticles)\<rparr>
          in p \<in> set matchingParticles
           \<and> set matchingParticles =
               {q \<in> set particles. id_p q \<in> set (children node)}
                 \<union> {q \<in> set particles. holarchyLevel q = level node}
           \<and> (sum_list (map mass matchingParticles) \<noteq> 0 \<longrightarrow>
                updateNode particles config deltaTime node = Some updated
              \<and> updateMemoryNodes [node] particles config deltaTime
                   = Some (if memoryStrength updated > 0.01 then [updated] else [])
              \<and> (\<forall>nodes out. updateMemoryNodes nodes particles config deltaTime = Some out
                     \<and> node \<in> set nodes \<longrightarrow>
                   (updated \<in> set out \<longleftrightarrow> memoryStrength updated > 0.01))))"
proof -
  define M where
    "M = filter (\<lambda>q. id_p q \<in> set (children node) \<or> holarchyLevel q = level node) particles"
  define u where "u = node\<lparr>position_n :=
                     (at0 (position_n node) + (at0 (massCentroid M) - at0 (position_n node)) * 0.01,
                      at1 (position_n node) + (at1 (massCentroid M) - at1 (position_n node)) * 0.01,
                      at2 (position_n node) + (at2 (massCentroid M) - at2 (position_n node)) * 0.01),
                    memoryStrength :=
                      min 1 (memoryStrength node * (1 - decayRate config * deltaTime)
                        + exp (- vec3Length (vec3Sub (massCentroid M) (position_n node))) * 0.1),
                    activationEnergy := sum_list (map energy M)\<rparr>"
  have mem: "p \<in> set M" using assms(1,2) by (simp add: M_def)
  then have ne: "M \<noteq> []" by (metis empty_iff empty_set)
  have un: "set M = {q \<in> set particles. id_p q \<in> set (children node)}
                 \<union> {q \<in> set particles. holarchyLevel q = level node}"
    by (auto simp add: M_def)
  have upd: "updateNode particles config deltaTime node = Some u"
    if "sum_list (map mass M) \<noteq> 0"
    unfolding u_def using updateNode_matched [OF M_def ne that, of config deltaTime] .
  have single: "updateMemoryNodes [node] particles config deltaTime
      = Some (if memoryStrength u > 0.01 then [u] else [])"
    if "sum_list (map mass M) \<noteq> 0"
    by (simp add: updateMemoryNodes_def upd [OF that])
  have general: "u \<in> set out \<longleftrightarrow> memoryStrength u > 0.01"
    if m: "sum_list (map mass M) \<noteq> 0"
      and run: "updateMemoryNodes nodes particles config deltaTime = Some out \<and> node \<in> set nodes"
    for nodes out
  proof -
    from run have r: "updateMemoryNodes nodes particles config deltaTime = Some out"
      and n: "node \<in> set nodes" by simp_all
    from updateMemoryNodes_filter [OF r] obtain updated where
      mp: "mapM (updateNode particles config deltaTime) nodes = Some updated"
      and out: "out = filter (\<lambda>node. memoryStrength node > 0.01) updated"
      by blast
    have "u \<in> set updated" using mapM_member [OF mp n upd [OF m]] .
    then show ?thesis unfolding out by simp
  qed
  have "p \<in> set M
           \<and> set M =
               {q \<in> set particles. id_p q \<in> set (children node)}
                 \<union> {q \<in> set particles. holarchyLevel q = level node}
           \<and> (sum_list (map mass M) \<noteq> 0 \<longrightarrow>
                updateNode particles config deltaTime node = Some u
              \<and> updateMemoryNodes [node] particles config deltaTime
                   = Some (if memoryStrength u > 0.01 then [u] else [])
              \<and> (\<forall>nodes out. updateMemoryNodes nodes particles config deltaTime = Some out
                     \<and> node \<in> set nodes \<longrightarrow>
                   (u \<in> set out \<longleftrightarrow> memoryStrength u > 0.01)))"
    using mem un upd single general by blast
  then show ?thesis unfolding Let_def u_def M_def .
qed

lemma exp_minus_one_bound: "1 / 3 \<le> exp (- 1 :: real)"
proof -
  have "exp (1 :: real) \<le> 3" by (rule exp_le)
  moreover have "0 < exp (1 :: real)" by simp
  ultimately have "1 / 3 \<le> 1 / exp (1 :: real)" by (simp add: field_simps)
  then show ?thesis by (simp add: exp_minus inverse_eq_divide)
qed

text \<open>A node at level 0 without children and one particle at level 0: the particle is
  counted, the node moves towards it and takes its energy.\<close>

theorem same_level_particles_match_witness:
  "exampleParticle ''a'' (1, 0, 0) (0, 0, 0) 2 1 0\<lparr>energy := 3\<rparr>
      \<in> set [exampleParticle ''a'' (1, 0, 0) (0, 0, 0) 2 1 0\<lparr>energy := 3\<rparr>]
   \<and> holarchyLevel (exampleParticle ''a'' (1, 0, 0) (0, 0, 0) 2 1 0\<lparr>energy := 3\<rparr>)
        = level (exampleNode ''n'' 0 (0, 0, 0) [] 1)
   \<and> id_p (exampleParticle ''a'' (1, 0, 0) (0, 0, 0) 2 1 0\<lparr>energy := 3\<rparr>)
        \<notin> set (children (exampleNode ''n'' 0 (0, 0, 0) [] 1))
   \<and> updateMemoryNodes [exampleNode ''n'' 0 (0, 0, 0) [] 1]
        [exampleParticle ''a'' (1, 0, 0) (0, 0, 0) 2 1 0\<lparr>energy := 3\<rparr>]
        (exampleMemoryConfig 0.01) 0.016
      = Some [\<lparr>id_n = ''n'', level = 0, position_n = (0.01, 0, 0), children = [], parent = None,
               activationEnergy = 3, memoryStrength = 1\<rparr>]"
proof -
  let ?p = "exampleParticle ''a'' (1, 0, 0) (0, 0, 0) 2 1 0\<lparr>energy := 3\<rparr>"
  let ?n = "exampleNode ''n'' 0 (0, 0, 0) [] 1"
  have h1: "?p \<in> set [?p]" by simp
  have h2: "holarchyLevel ?p = level ?n" by (simp add: exampleParticle_def exampleNode_def)
  have h3: "id_p ?p \<notin> set (children ?n)" by (simp add: exampleNode_def)
  have M: "filter (\<lambda>q. id_p q \<in> set (children ?n) \<or> holarchyLevel q = level ?n) [?p] = [?p]"
    using h2 by simp
  have m: "sum_list (map mass [?p]) \<noteq> 0" by (simp add: exampleParticle_def)
  have c: "massCentroid [?p] = (1, 0, 0)" by (simp add: massCentroid_def exampleParticle_def)
  have d: "vec3Length (vec3Sub (1, 0, 0) (position_n ?n)) = 1"
    by (simp add: vec3Length_def vec3Sub_def exampleNode_def)
  have s: "min 1 (memoryStrength ?n * (1 - decayRate (exampleMemoryConfig 0.01) * 0.016)
      + exp (- 1) * 0.1) = 1"
    using exp_minus_one_bound by (simp add: exampleNode_def exampleMemoryConfig_def)
  from same_level_particles_match [OF h1 h2 h3, of "exampleMemoryConfig 0.01" "0.016"]
  have "updateMemoryNodes [?n] [?p] (exampleMemoryConfig 0.01) 0.016 =
      Some [\<lparr>id_n = ''n'', level = 0, position_n = (0.01, 0, 0), children = [], parent = None,
               activationEnergy = 3, memoryStrength = 1\<rparr>]"
    unfolding Let_def M c d s using m
    by (simp add: exampleNode_def exampleParticle_def)
  with h1 h2 h3 show ?thesis by blast
qed

section \<open>Pattern recognition and coherence\<close>

lemma recognizeLoop_Cons:
  "recognizeLoop c lvl (node # rest) st =
     recognizeLoop c lvl rest
       (if level node = lvl \<and> patternScore c node > snd st then (Some node, patternScore c node) else st)"
  by (simp add: Let_def patternScore_def vec3Length_def vec3Sub_def)

lemma recognizeLoop_bound:
  "snd st \<le> snd (recognizeLoop c lvl nodes st)
   \<and> (\<forall>n\<in>set nodes. level n = lvl \<longrightarrow> patternScore c n \<le> snd (recognizeLoop c lvl nodes st))"
proof (induction nodes arbitrary: st)
  case Nil
  show ?case by simp
next
  case (Cons node rest)
  let ?st1 = "if level node = lvl \<and> patternScore c node > snd st
              then (Some node, patternScore c node) else st"
  have a: "snd st \<le> snd ?st1" by simp
  have b: "level node = lvl \<longrightarrow> patternScore c node \<le> snd ?st1" by simp
  from Cons.IH [of ?st1] have ih: "snd ?st1 \<le> snd (recognizeLoop c lvl rest ?st1)"
    "\<forall>n\<in>set rest. level n = lvl \<longrightarrow> patternScore c n \<le> snd (recognizeLoop c lvl rest ?st1)"
    by simp_all
  show ?case
    unfolding recognizeLoop_Cons using a b ih by (auto simp del: recognizeLoop.simps)
qed

lemma recognizeLoop_result:
  "recognizeLoop c lvl nodes st = st
   \<or> (\<exists>n\<in>set nodes. level n = lvl \<and> recognizeLoop c lvl nodes st = (Some n, patternScore c n))"
proof (induction nodes arbitrary: st)
  case Nil
  show ?case by simp
next
  case (Cons node rest)
  let ?st1 = "if level node = lvl \<and> patternScore c node > snd st
              then (Some node, patternScore c node) else st"
  from Cons.IH [of ?st1] show ?case
    unfolding recognizeLoop_Cons by (auto simp del: recognizeLoop.simps split: if_splits)
qed

lemma recognizePattern_empty:
  "filter (\<lambda>p. holarchyLevel p = lvl) particles = [] \<Longrightarrow> recognizePattern particles nodes lvl = Some None"
  by (simp add: recognizePattern_def)

lemma recognizePattern_Some:
  assumes "L = filter (\<lambda>p. holarchyLevel p = lvl) particles" and "L \<noteq> []"
    and "sum_list (map mass L) \<noteq> 0"
  shows "recognizePattern particles nodes lvl =
     Some (if snd (recognizeLoop (massCentroid L) lvl nodes (None, - 1)) > 0.1
           then fst (recognizeLoop (massCentroid L) lvl nodes (None, - 1)) else None)"
  using assms(2,3) unfolding assms(1)
  by (simp add: recognizePattern_def Let_def foldl_plus_sum_list jsDivide_def massCentroid_def)

lemma calculateHolarchicCoherence_total:
  "\<exists>v. calculateHolarchicCoherence particles nodes = Some v"
  by (simp add: calculateHolarchicCoherence_def Let_def jsDivide_def)

text \<open>
  C8. \<^verbatim>\<open>calculateHolarchicCoherence\<close> returns 0 when the particle list or the node list
  is empty, and returns a number on every input. \<^verbatim>\<open>recognizePattern\<close> returns
  \<^verbatim>\<open>null\<close> when no particle is at the queried level; when some are (their total mass
  not zero), it returns \<^verbatim>\<open>null\<close> exactly when every node at that level has a score of
  at most 0.1 for the centroid of these particles, and otherwise a node at that level of
  the greatest score.
\<close>

theorem degenerate_queries:
  "calculateHolarchicCoherence [] nodes = Some 0
   \<and> calculateHolarchicCoherence particles [] = Some 0
   \<and> (\<exists>v. calculateHolarchicCoherence particles nodes = Some v)
   \<and> (let levelParticles = filter (\<lambda>p. holarchyLevel p = lvl) particles;
           c = massCentroid levelParticles
       in (levelParticles = [] \<longrightarrow> recognizePattern particles nodes lvl = Some None)
        \<and> (levelParticles \<noteq> [] \<and> sum_list (map mass levelParticles) \<noteq> 0 \<longrightarrow>
             (\<exists>r. recognizePattern particles nodes lvl = Some r
                \<and> (r = None \<longleftrightarrow> (\<forall>n\<in>set nodes. level n = lvl \<longrightarrow> patternScore c n \<le> 0.1))
                \<and> (\<forall>n. r = Some n \<longrightarrow>
                      n \<in> set nodes \<and> level n = lvl
                    \<and> (\<forall>m\<in>set nodes. level m = lvl \<longrightarrow> patternScore c m \<le> patternScore c n)))))"
proof -
  let ?L = "filter (\<lambda>p. holarchyLevel p = lvl) particles"
  let ?c = "massCentroid ?L"
  let ?st = "recognizeLoop ?c lvl nodes (None, - 1)"
  have c1: "calculateHolarchicCoherence [] nodes = Some 0"
    and c2: "calculateHolarchicCoherence particles [] = Some 0"
    by (simp_all add: calculateHolarchicCoherence_def)
  have e: "?L = [] \<longrightarrow> recognizePattern particles nodes lvl = Some None"
    using recognizePattern_empty by blast
  have r: "\<exists>r. recognizePattern particles nodes lvl = Some r
                \<and> (r = None \<longleftrightarrow> (\<forall>n\<in>set nodes. level n = lvl \<longrightarrow> patternScore ?c n \<le> 0.1))
                \<and> (\<forall>n. r = Some n \<longrightarrow>
                      n \<in> set nodes \<and> level n = lvl
                    \<and> (\<forall>m\<in>set nodes. level m = lvl \<longrightarrow> patternScore ?c m \<le> patternScore ?c n))"
    if ne: "?L \<noteq> []" and m: "sum_list (map mass ?L) \<noteq> 0"
  proof -
    note run = recognizePattern_Some [OF refl ne m, of nodes]
    have bound: "\<forall>n\<in>set nodes. level n = lvl \<longrightarrow> patternScore ?c n \<le> snd ?st"
      using recognizeLoop_bound [of "(None, - 1)" ?c lvl nodes] by blast
    from recognizeLoop_result [of ?c lvl nodes "(None, - 1)"]
    consider (init) "?st = (None, - 1)"
      | (found) n where "n \<in> set nodes" "level n = lvl" "?st = (Some n, patternScore ?c n)"
      by blast
    then show ?thesis
    proof cases
      case init
      then have "recognizePattern particles nodes lvl = Some None" using run by simp
      moreover have "\<forall>n\<in>set nodes. level n = lvl \<longrightarrow> patternScore ?c n \<le> 0.1"
        using bound init by fastforce
      ultimately show ?thesis by simp
    next
      case found
      show ?thesis
      proof (cases "patternScore ?c n > 0.1")
        case True
        then have "recognizePattern particles nodes lvl = Some (Some n)"
          using run found(3) by simp
        moreover have "\<not> (\<forall>n\<in>set nodes. level n = lvl \<longrightarrow> patternScore ?c n \<le> 0.1)"
          using True found(1,2) by force
        moreover have "\<forall>m\<in>set nodes. level m = lvl \<longrightarrow> patternScore ?c m \<le> patternScore ?c n"
          using bound found(3) by simp
        ultimately show ?thesis using found(1,2) by simp
      next
        case False
        then have "recognizePattern particles nodes lvl = Some None"
          using run found(3) by simp
        moreover have "\<forall>m\<in>set nodes. level m = lvl \<longrightarrow> patternScore ?c m \<le> 0.1"
          using bound found(3) False by fastforce
        ultimately show ?thesis by simp
      qed
    qed
  qed
  show ?thesis
    unfolding Let_def using c1 c2 calculateHolarchicCoherence_total e r by blast
qed

theorem degenerate_queries_witness:
  "filter (\<lambda>p. holarchyLevel p = 0) [exampleParticle ''a'' (0, 0, 0) (0, 0, 0) 1 1 0] \<noteq> []
   \<and> sum_list (map mass (filter (\<lambda>p. holarchyLevel p = 0)
          [exampleParticle ''a'' (0, 0, 0) (0, 0, 0) 1 1 0])) \<noteq> 0
   \<and> recognizePattern [exampleParticle ''a'' (0, 0, 0) (0, 0, 0) 1 1 0]
        [exampleNode ''n'' 0 (0, 0, 0) [] 1] 0 = Some (Some (exampleNode ''n'' 0 (0, 0, 0) [] 1))
   \<and> recognizePattern [exampleParticle ''a'' (0, 0, 0) (0, 0, 0) 1 1 0]
        [exampleNode ''n'' 0 (0, 0, 0) [] 0.05] 0 = Some None
   \<and> recognizePattern [] [exampleNode ''n'' 0 (0, 0, 0) [] 1] 0 = Some None
   \<and> calculateHolarchicCoherence [] [exampleNode ''n'' 0 (0, 0, 0) [] 1] = Some 0"
proof -
  let ?a = "exampleParticle ''a'' (0, 0, 0) (0, 0, 0) 1 1 0"
  let ?n = "exampleNode ''n'' 0 (0, 0, 0) [] 1"
  let ?w = "exampleNode ''n'' 0 (0, 0, 0) [] 0.05"
  have L: "filter (\<lambda>p. holarchyLevel p = 0) [?a] = [?a]" by (simp add: exampleParticle_def)
  have ne: "filter (\<lambda>p. holarchyLevel p = 0) [?a] \<noteq> []" unfolding L by simp
  have m: "sum_list (map mass (filter (\<lambda>p. holarchyLevel p = 0) [?a])) \<noteq> 0"
    unfolding L by (simp add: exampleParticle_def)
  have c: "massCentroid [?a] = (0, 0, 0)" by (simp add: massCentroid_def exampleParticle_def)
  have sn: "patternScore (0, 0, 0) ?n = 1"
    by (simp add: patternScore_def exampleNode_def vec3Sub_def vec3Length_def)
  have sw: "patternScore (0, 0, 0) ?w = 0.05"
    by (simp add: patternScore_def exampleNode_def vec3Sub_def vec3Length_def)
  from degenerate_queries [of "[?n]" "[?a]" 0] ne m
  obtain r where r: "recognizePattern [?a] [?n] 0 = Some r"
    and rn: "r = None \<longleftrightarrow> (\<forall>n\<in>set [?n]. level n = 0 \<longrightarrow> patternScore (massCentroid [?a]) n \<le> 0.1)"
    and rs: "\<forall>n. r = Some n \<longrightarrow> n \<in> set [?n]"
    unfolding Let_def L by blast
  have "r \<noteq> None" using rn sn unfolding c by (simp add: exampleNode_def)
  with rs have "r = Some ?n" by auto
  with r have strong: "recognizePattern [?a] [?n] 0 = Some (Some ?n)" by simp
  from degenerate_queries [of "[?w]" "[?a]" 0] ne m
  obtain r' where r': "recognizePattern [?a] [?w] 0 = Some r'"
    and rn': "r' = None \<longleftrightarrow> (\<forall>n\<in>set [?w]. level n = 0 \<longrightarrow> patternScore (massCentroid [?a]) n \<le> 0.1)"
    unfolding Let_def L by blast
  have "r' = None" using rn' sw unfolding c by simp
  with r' have weak: "recognizePattern [?a] [?w] 0 = Some None" by simp
  from degenerate_queries [of "[?n]" "[]" 0]
  have empty: "recognizePattern [] [?n] 0 = Some None"
    and coh: "calculateHolarchicCoherence [] [?n] = Some 0"
    unfolding Let_def by simp_all
  show ?thesis using ne m strong weak empty coh by blast
qed

section \<open>The memory tree\<close>

lemma mapSet_map_of: "map_of (mapSet k v m) = (map_of m)(k \<mapsto> v)"
  by (induction m) (auto simp add: fun_eq_iff)

lemma mapSet_keys:
  "map fst (mapSet k v m) = (if k \<in> set (map fst m) then map fst m else map fst m @ [k])"
proof (induction m)
  case Nil
  show ?case by simp
next
  case (Cons e m)
  show ?case
  proof (cases "fst e = k")
    case True
    then show ?thesis by (cases e) simp
  next
    case False
    then show ?thesis using Cons.IH by (cases e) auto
  qed
qed

lemma groupLoop_step:
  "groupLoop (p # rest) G =
     groupLoop rest (mapSet (holarchyLevel p) (mapGet G (holarchyLevel p) @ [p])
       (if \<not> mapHas G (holarchyLevel p) then mapSet (holarchyLevel p) [] G else G))"
  by (simp add: Let_def mapGet_def mapHas_def mapSet_map_of)

lemma group_step_map_of:
  "map_of (mapSet l (mapGet G l @ [p]) (if \<not> mapHas G l then mapSet l [] G else G))
     = (map_of G)(l \<mapsto> mapGet G l @ [p])"
  by (simp add: mapSet_map_of)

lemma group_step_keys:
  "map fst (mapSet l v (if \<not> mapHas G l then mapSet l [] G else G))
     = (if l \<in> set (map fst G) then map fst G else map fst G @ [l])"
proof (cases "mapHas G l")
  case True
  then have "l \<in> set (map fst G)" by (simp add: mapHas_def map_of_eq_None_iff)
  with True show ?thesis by (simp add: mapSet_keys)
next
  case False
  then have n: "l \<notin> set (map fst G)" by (simp add: mapHas_def map_of_eq_None_iff)
  then have "map fst (mapSet l [] G) = map fst G @ [l]" by (simp add: mapSet_keys)
  then have "map fst (mapSet l v (mapSet l [] G)) = map fst G @ [l]"
    by (simp add: mapSet_keys [of l v])
  with False n show ?thesis by simp
qed

lemma groupLoop_keys:
  "distinct (map fst G) \<Longrightarrow>
     distinct (map fst (groupLoop ps G))
   \<and> set (map fst (groupLoop ps G)) = set (map fst G) \<union> holarchyLevel ` set ps"
proof (induction ps arbitrary: G)
  case Nil
  then show ?case by simp
next
  case (Cons p rest)
  let ?G2 = "mapSet (holarchyLevel p) (mapGet G (holarchyLevel p) @ [p])
       (if \<not> mapHas G (holarchyLevel p) then mapSet (holarchyLevel p) [] G else G)"
  have k: "map fst ?G2 = (if holarchyLevel p \<in> set (map fst G) then map fst G
      else map fst G @ [holarchyLevel p])"
    by (rule group_step_keys)
  have d: "distinct (map fst ?G2)" unfolding k using Cons.prems by simp
  from Cons.IH [OF d] show ?case
    unfolding groupLoop_step k by (auto simp del: groupLoop.simps)
qed

lemma groupLoop_map_of:
  "map_of (groupLoop ps G) l =
     (if l \<in> set (map fst G) \<or> l \<in> holarchyLevel ` set ps
      then Some (mapGet G l @ filter (\<lambda>p. holarchyLevel p = l) ps) else None)"
proof (induction ps arbitrary: G)
  case Nil
  show ?case
    by (auto simp add: mapGet_def map_of_eq_None_iff split: option.splits)
next
  case (Cons p rest)
  let ?G2 = "mapSet (holarchyLevel p) (mapGet G (holarchyLevel p) @ [p])
       (if \<not> mapHas G (holarchyLevel p) then mapSet (holarchyLevel p) [] G else G)"
  have k: "set (map fst ?G2) = insert (holarchyLevel p) (set (map fst G))"
    unfolding group_step_keys by auto
  have "map_of ?G2 = (map_of G)(holarchyLevel p \<mapsto> mapGet G (holarchyLevel p) @ [p])"
    by (rule group_step_map_of)
  then have g: "mapGet ?G2 l = (if l = holarchyLevel p then mapGet G l @ [p] else mapGet G l)"
    unfolding mapGet_def [of ?G2] by (simp add: mapGet_def)
  show ?case
    unfolding groupLoop_step Cons.IH k g by auto
qed

lemma groupLoop_entries:
  assumes "e \<in> set (groupLoop ps [])"
  shows "fst e \<in> holarchyLevel ` set ps \<and> snd e = filter (\<lambda>p. holarchyLevel p = fst e) ps
       \<and> snd e \<noteq> []"
proof -
  have d: "distinct (map fst (groupLoop ps []))" using groupLoop_keys [of "[]" ps] by simp
  obtain l g where e: "e = (l, g)" by (cases e)
  with assms d have m: "map_of (groupLoop ps []) l = Some g" by simp
  then have l: "l \<in> holarchyLevel ` set ps" and g: "g = filter (\<lambda>p. holarchyLevel p = l) ps"
    unfolding groupLoop_map_of by (auto simp add: mapGet_def split: if_splits)
  from l have "filter (\<lambda>p. holarchyLevel p = l) ps \<noteq> []"
    by (auto simp add: filter_empty_conv)
  with l g e show ?thesis by simp
qed

lemma sum_list_pos:
  "xs \<noteq> [] \<Longrightarrow> (\<And>x. x \<in> set xs \<Longrightarrow> 0 < f x) \<Longrightarrow> 0 < sum_list (map f xs)" for f :: "'a \<Rightarrow> real"
proof (induction xs)
  case Nil
  then show ?case by simp
next
  case (Cons x xs)
  show ?case
  proof (cases "xs = []")
    case True
    then show ?thesis using Cons.prems by simp
  next
    case False
    then have "0 < sum_list (map f xs)" using Cons.IH Cons.prems by simp
    moreover have "0 < f x" using Cons.prems by simp
    ultimately show ?thesis by simp
  qed
qed

lemma createMemoryNodeFromParticles_Some:
  assumes "sum_list (map mass grp) \<noteq> 0"
  shows "\<exists>node. createMemoryNodeFromParticles nodeId grp lvl parentId = Some node
       \<and> id_n node = nodeId \<and> level node = lvl \<and> parent node = parentId
       \<and> children node = map id_p grp \<and> position_n node = massCentroid grp
       \<and> activationEnergy node = sum_list (map energy grp) \<and> memoryStrength node = 1"
  using assms
  by (simp add: createMemoryNodeFromParticles_def Let_def foldl_plus_sum_list jsDivide_def
      massCentroid_def)

lemma createLoop_contents:
  assumes "\<forall>e\<in>set groups. snd e \<noteq> [] \<and> (\<forall>p\<in>set (snd e). 0 < mass p)"
  shows "\<exists>created. createLoop newId groups nodes = Some (nodes @ created)
       \<and> map level created = map fst groups
       \<and> (\<forall>n\<in>set created. \<exists>grp. (level n, grp) \<in> set groups
             \<and> parent n = None \<and> children n = map id_p grp
             \<and> position_n n = massCentroid grp
             \<and> activationEnergy n = sum_list (map energy grp) \<and> memoryStrength n = 1)"
  using assms
proof (induction groups arbitrary: nodes)
  case Nil
  show ?case by simp
next
  case (Cons e rest)
  obtain lvl grp where e: "e = (lvl, grp)" by (cases e)
  have ne: "grp \<noteq> []" and pos: "\<And>p. p \<in> set grp \<Longrightarrow> 0 < mass p"
    using Cons.prems e by auto
  have "0 < sum_list (map mass grp)" using sum_list_pos [OF ne pos] .
  then have "sum_list (map mass grp) \<noteq> 0" by simp
  from createMemoryNodeFromParticles_Some [OF this, of "newId (length nodes)" lvl None]
  obtain node where node: "createMemoryNodeFromParticles (newId (length nodes)) grp lvl None = Some node"
    and lv: "level node = lvl" and pa: "parent node = None"
    and ch: "children node = map id_p grp" and po: "position_n node = massCentroid grp"
    and ac: "activationEnergy node = sum_list (map energy grp)" and ms: "memoryStrength node = 1"
    by blast
  have "\<forall>e\<in>set rest. snd e \<noteq> [] \<and> (\<forall>p\<in>set (snd e). 0 < mass p)" using Cons.prems by simp
  from Cons.IH [OF this, of "nodes @ [node]"] obtain created where
    c: "createLoop newId rest (nodes @ [node]) = Some ((nodes @ [node]) @ created)"
    and cl: "map level created = map fst rest"
    and cp: "\<forall>n\<in>set created. \<exists>grp. (level n, grp) \<in> set rest
             \<and> parent n = None \<and> children n = map id_p grp
             \<and> position_n n = massCentroid grp
             \<and> activationEnergy n = sum_list (map energy grp) \<and> memoryStrength n = 1"
    by blast
  have "createLoop newId (e # rest) nodes = Some (nodes @ (node # created))"
    using e ne node c by simp
  moreover have "map level (node # created) = map fst (e # rest)" using e lv cl by simp
  moreover have "\<forall>n\<in>set (node # created). \<exists>grp. (level n, grp) \<in> set (e # rest)
             \<and> parent n = None \<and> children n = map id_p grp
             \<and> position_n n = massCentroid grp
             \<and> activationEnergy n = sum_list (map energy grp) \<and> memoryStrength n = 1"
  proof
    fix n assume "n \<in> set (node # created)"
    then consider "n = node" | "n \<in> set created" by auto
    then show "\<exists>grp. (level n, grp) \<in> set (e # rest)
             \<and> parent n = None \<and> children n = map id_p grp
             \<and> position_n n = massCentroid grp
             \<and> activationEnergy n = sum_list (map energy grp) \<and> memoryStrength n = 1"
    proof cases
      case 1
      then show ?thesis using e lv pa ch po ac ms by auto
    next
      case 2
      with cp obtain g where "(level n, g) \<in> set rest" "parent n = None" "children n = map id_p g"
        "position_n n = massCentroid g" "activationEnergy n = sum_list (map energy g)"
        "memoryStrength n = 1" by blast
      then show ?thesis by auto
    qed
  qed
  ultimately show ?case by blast
qed

lemma findParent_previous:
  assumes "level (nodes ! j) < level (nodes ! Suc j)" and "Suc j < length nodes"
  shows "findParent nodes (Suc j) (Suc j) =
     (nodes[Suc j := (nodes ! Suc j)\<lparr>parent := Some (id_n (nodes ! j))\<rparr>])
       [j := (nodes ! j)\<lparr>children := children (nodes ! j) @ [id_n (nodes ! Suc j)]\<rparr>]"
  apply (subst findParent.simps(2))
  apply (simp only: Let_def assms if_True)
  apply (simp del: findParent.simps add: assms(2))
  done

lemma link_closed_form:
  assumes "sorted_wrt (<) (map level s)" and "m \<le> length s"
  shows "foldl (\<lambda>nodes i. findParent nodes i i) s [1..<m] =
     map (\<lambda>i. (s ! i)\<lparr>parent := (if 0 < i \<and> i < m then Some (id_n (s ! (i - 1))) else parent (s ! i)),
                       children := children (s ! i) @ (if Suc i < m then [id_n (s ! Suc i)] else [])\<rparr>)
       [0..<length s]"
  using assms(2)
proof (induction m)
  case 0
  show ?case by (auto intro!: nth_equalityI)
next
  case (Suc m)
  let ?closed = "\<lambda>m. map (\<lambda>i. (s ! i)\<lparr>parent := (if 0 < i \<and> i < m then Some (id_n (s ! (i - 1))) else parent (s ! i)),
                       children := children (s ! i) @ (if Suc i < m then [id_n (s ! Suc i)] else [])\<rparr>)
       [0..<length s]"
  show ?case
  proof (cases m)
    case 0
    then show ?thesis by (auto intro!: nth_equalityI)
  next
    case (Suc j)
    have m: "Suc j < length s" using Suc.prems Suc by simp
    have upt: "[1..<Suc (Suc j)] = [1..<Suc j] @ [Suc j]" by simp
    have ih: "foldl (\<lambda>nodes i. findParent nodes i i) s [1..<Suc j] = ?closed (Suc j)"
      using Suc.IH Suc.prems Suc by simp
    have lv: "level (s ! j) < level (s ! Suc j)"
      using sorted_wrt_nth_less [OF assms(1), of j "Suc j"] m by simp
    have len: "Suc j < length (?closed (Suc j))" using m by simp
    have lvc: "level (?closed (Suc j) ! j) < level (?closed (Suc j) ! Suc j)"
      using lv m by simp
    have "foldl (\<lambda>nodes i. findParent nodes i i) s [1..<Suc (Suc j)]
        = findParent (?closed (Suc j)) (Suc j) (Suc j)"
      unfolding upt foldl_append ih by (simp del: findParent.simps upt.simps)
    also have "\<dots> = ((?closed (Suc j))[Suc j := (?closed (Suc j) ! Suc j)\<lparr>parent := Some (id_n (?closed (Suc j) ! j))\<rparr>])
       [j := (?closed (Suc j) ! j)\<lparr>children := children (?closed (Suc j) ! j) @ [id_n (?closed (Suc j) ! Suc j)]\<rparr>]"
      by (rule findParent_previous [OF lvc len])
    also have "\<dots> = ?closed (Suc (Suc j))"
    proof (rule nth_equalityI)
      show "length (((?closed (Suc j))[Suc j := (?closed (Suc j) ! Suc j)\<lparr>parent := Some (id_n (?closed (Suc j) ! j))\<rparr>])
       [j := (?closed (Suc j) ! j)\<lparr>children := children (?closed (Suc j) ! j) @ [id_n (?closed (Suc j) ! Suc j)]\<rparr>])
         = length (?closed (Suc (Suc j)))"
        by simp
    next
      fix i
      assume "i < length (((?closed (Suc j))[Suc j := (?closed (Suc j) ! Suc j)\<lparr>parent := Some (id_n (?closed (Suc j) ! j))\<rparr>])
       [j := (?closed (Suc j) ! j)\<lparr>children := children (?closed (Suc j) ! j) @ [id_n (?closed (Suc j) ! Suc j)]\<rparr>])"
      then have i: "i < length s" by simp
      have j: "j < length s" using m by simp
      consider (lo) "i = j" | (hi) "i = Suc j" | (other) "i \<noteq> j" "i \<noteq> Suc j" by blast
      then show "(((?closed (Suc j))[Suc j := (?closed (Suc j) ! Suc j)\<lparr>parent := Some (id_n (?closed (Suc j) ! j))\<rparr>])
       [j := (?closed (Suc j) ! j)\<lparr>children := children (?closed (Suc j) ! j) @ [id_n (?closed (Suc j) ! Suc j)]\<rparr>]) ! i
         = ?closed (Suc (Suc j)) ! i"
      proof cases
        case lo
        then show ?thesis using m j by simp
      next
        case hi
        then show ?thesis using m j by simp
      next
        case other
        then have "i < Suc j \<longleftrightarrow> i < Suc (Suc j)" and "Suc i < Suc j \<longleftrightarrow> Suc i < Suc (Suc j)"
          by auto
        then show ?thesis using other i by simp
      qed
    qed
    finally show ?thesis unfolding Suc .
  qed
qed

lemma sorted_key_levels:
  assumes "distinct (map level created)"
  shows "sorted_wrt (<) (map level (sort_key level created))
       \<and> set (map level (sort_key level created)) = set (map level created)"
proof -
  have "sorted (map level (sort_key level created))" by (rule sorted_sort_key)
  moreover have "distinct (map level (sort_key level created))"
    using assms by (simp add: distinct_map)
  ultimately show ?thesis by (simp add: strict_sorted_iff)
qed

lemma buildHolarchicTree_nodes:
  assumes "\<forall>p\<in>set particles. 0 < mass p"
  shows "\<exists>nodes. buildHolarchicTree newId particles maxDepth = Some nodes
     \<and> map level nodes = sorted_list_of_set (holarchyLevel ` set particles)
     \<and> (\<forall>i<length nodes. parent (nodes ! i) = (if i = 0 then None else Some (id_n (nodes ! (i - 1)))))
     \<and> (\<forall>i<length nodes. 0 < i \<longrightarrow> id_n (nodes ! i) \<in> set (children (nodes ! (i - 1))))
     \<and> (\<forall>i<length nodes.
           children (nodes ! i) =
             map id_p (filter (\<lambda>p. holarchyLevel p = level (nodes ! i)) particles)
               @ (if Suc i < length nodes then [id_n (nodes ! Suc i)] else [])
         \<and> position_n (nodes ! i) =
             massCentroid (filter (\<lambda>p. holarchyLevel p = level (nodes ! i)) particles)
         \<and> activationEnergy (nodes ! i) =
             sum_list (map energy (filter (\<lambda>p. holarchyLevel p = level (nodes ! i)) particles))
         \<and> memoryStrength (nodes ! i) = 1)"
proof -
  let ?G = "groupLoop particles []"
  have groups: "\<forall>e\<in>set ?G. snd e \<noteq> [] \<and> (\<forall>p\<in>set (snd e). 0 < mass p)"
  proof
    fix e assume "e \<in> set ?G"
    from groupLoop_entries [OF this] assms show "snd e \<noteq> [] \<and> (\<forall>p\<in>set (snd e). 0 < mass p)"
      by auto
  qed
  from createLoop_contents [OF groups, of newId "[]"] obtain created where
    created: "createLoop newId ?G [] = Some created"
    and levels: "map level created = map fst ?G"
    and contents: "\<forall>n\<in>set created. \<exists>grp. (level n, grp) \<in> set ?G
             \<and> parent n = None \<and> children n = map id_p grp
             \<and> position_n n = massCentroid grp
             \<and> activationEnergy n = sum_list (map energy grp) \<and> memoryStrength n = 1"
    by auto
  have roots: "\<forall>n\<in>set created. parent n = None" using contents by blast
  have filled: "children n = map id_p (filter (\<lambda>p. holarchyLevel p = level n) particles)
      \<and> position_n n = massCentroid (filter (\<lambda>p. holarchyLevel p = level n) particles)
      \<and> activationEnergy n = sum_list (map energy (filter (\<lambda>p. holarchyLevel p = level n) particles))
      \<and> memoryStrength n = 1"
    if "n \<in> set created" for n
  proof -
    from contents that obtain grp where g: "(level n, grp) \<in> set ?G"
      and c: "children n = map id_p grp" "position_n n = massCentroid grp"
        "activationEnergy n = sum_list (map energy grp)" "memoryStrength n = 1"
      by blast
    from groupLoop_entries [OF g] have "grp = filter (\<lambda>p. holarchyLevel p = level n) particles"
      by simp
    with c show ?thesis by simp
  qed
  have keys: "distinct (map fst ?G)" "set (map fst ?G) = holarchyLevel ` set particles"
    using groupLoop_keys [of "[]" particles] by simp_all
  let ?s = "sort_key level created"
  have dl: "distinct (map level created)" using levels keys(1) by simp
  from sorted_key_levels [OF dl] have strict: "sorted_wrt (<) (map level ?s)"
    and sl: "set (map level ?s) = holarchyLevel ` set particles"
    using levels keys(2) by simp_all
  have lv: "map level ?s = sorted_list_of_set (holarchyLevel ` set particles)"
  proof (rule sorted_distinct_set_unique)
    show "sorted (map level ?s)" "distinct (map level ?s)"
      using strict by (simp_all add: strict_sorted_iff)
    show "sorted (sorted_list_of_set (holarchyLevel ` set particles))"
      "distinct (sorted_list_of_set (holarchyLevel ` set particles))"
      by simp_all
    show "set (map level ?s) = set (sorted_list_of_set (holarchyLevel ` set particles))"
      using sl by simp
  qed
  have sroots: "\<And>i. i < length ?s \<Longrightarrow> parent (?s ! i) = None"
    using roots by (metis nth_mem set_sort)
  define linked where "linked = foldl (\<lambda>nodes i. findParent nodes i i) ?s [1..<length ?s]"
  have closed: "linked =
     map (\<lambda>i. (?s ! i)\<lparr>parent := (if 0 < i \<and> i < length ?s then Some (id_n (?s ! (i - 1)))
                                    else parent (?s ! i)),
                       children := children (?s ! i) @
                         (if Suc i < length ?s then [id_n (?s ! Suc i)] else [])\<rparr>)
       [0..<length ?s]"
    unfolding linked_def by (rule link_closed_form [OF strict]) simp
  have run: "buildHolarchicTree newId particles maxDepth = Some linked"
    unfolding linked_def
    by (simp add: buildHolarchicTree_def created Let_def del: findParent.simps)
  have len: "length linked = length ?s" unfolding closed by simp
  have elem: "linked ! i = (?s ! i)\<lparr>parent := (if 0 < i \<and> i < length ?s then Some (id_n (?s ! (i - 1)))
                                    else parent (?s ! i)),
                       children := children (?s ! i) @
                         (if Suc i < length ?s then [id_n (?s ! Suc i)] else [])\<rparr>"
    if "i < length ?s" for i
    unfolding closed using that by (simp only: nth_map length_upt diff_zero nth_upt add_0)
  have f1: "map level linked = sorted_list_of_set (holarchyLevel ` set particles)"
    unfolding lv [symmetric] using len elem by (auto intro!: nth_equalityI)
  have idn: "id_n (linked ! i) = id_n (?s ! i)" if "i < length ?s" for i
    using elem [OF that] by simp
  have f2: "\<forall>i<length linked. parent (linked ! i) = (if i = 0 then None else Some (id_n (linked ! (i - 1))))"
  proof (intro allI impI)
    fix i assume "i < length linked"
    then have i: "i < length ?s" using len by simp
    then have "parent (linked ! i) = (if 0 < i then Some (id_n (?s ! (i - 1))) else parent (?s ! i))"
      using elem [OF i] by simp
    moreover have "id_n (linked ! (i - 1)) = id_n (?s ! (i - 1))"
      using idn [of "i - 1"] i by simp
    ultimately show "parent (linked ! i) = (if i = 0 then None else Some (id_n (linked ! (i - 1))))"
      using sroots [OF i] by (cases "i = 0") simp_all
  qed
  have f3: "\<forall>i<length linked. 0 < i \<longrightarrow> id_n (linked ! i) \<in> set (children (linked ! (i - 1)))"
  proof (intro allI impI)
    fix i assume "i < length linked" and pos: "0 < i"
    then have i: "i < length ?s" using len by simp
    then have p: "i - 1 < length ?s" "Suc (i - 1) = i" using pos by simp_all
    have "children (linked ! (i - 1)) = children (?s ! (i - 1)) @ [id_n (?s ! i)]"
      using elem [OF p(1)] p(2) i by simp
    then show "id_n (linked ! i) \<in> set (children (linked ! (i - 1)))"
      using idn [OF i] by simp
  qed
  have f4: "\<forall>i<length linked.
           children (linked ! i) =
             map id_p (filter (\<lambda>p. holarchyLevel p = level (linked ! i)) particles)
               @ (if Suc i < length linked then [id_n (linked ! Suc i)] else [])
         \<and> position_n (linked ! i) =
             massCentroid (filter (\<lambda>p. holarchyLevel p = level (linked ! i)) particles)
         \<and> activationEnergy (linked ! i) =
             sum_list (map energy (filter (\<lambda>p. holarchyLevel p = level (linked ! i)) particles))
         \<and> memoryStrength (linked ! i) = 1"
  proof (intro allI impI)
    fix i assume "i < length linked"
    then have i: "i < length ?s" using len by simp
    then have "?s ! i \<in> set created" by (metis nth_mem set_sort)
    note fl = filled [OF this]
    have lvi: "level (linked ! i) = level (?s ! i)" using elem [OF i] by simp
    have nxt: "Suc i < length ?s \<Longrightarrow> id_n (linked ! Suc i) = id_n (?s ! Suc i)"
      using idn [of "Suc i"] by simp
    show "children (linked ! i) =
             map id_p (filter (\<lambda>p. holarchyLevel p = level (linked ! i)) particles)
               @ (if Suc i < length linked then [id_n (linked ! Suc i)] else [])
         \<and> position_n (linked ! i) =
             massCentroid (filter (\<lambda>p. holarchyLevel p = level (linked ! i)) particles)
         \<and> activationEnergy (linked ! i) =
             sum_list (map energy (filter (\<lambda>p. holarchyLevel p = level (linked ! i)) particles))
         \<and> memoryStrength (linked ! i) = 1"
      unfolding lvi len using elem [OF i] fl nxt by (cases "Suc i < length ?s") simp_all
  qed
  show ?thesis using run f1 f2 f3 f4 by blast
qed

text \<open>
  C7. For a population of positive masses \<^verbatim>\<open>buildHolarchicTree\<close> returns exactly one
  node per holarchy level that has a particle, in ascending order of level, and the
  result is a forest: the parent of a node, when it has one, is the identifier of a
  node of the result with a strictly lower level, and the children of that node
  contain the identifier of the child. More precisely the nodes form a chain, whatever
  the order of the particles in the input: the first node has no parent, the parent of
  every other node is the node before it, and the children of a node are the
  identifiers of the particles at its level followed by the identifier of the node
  after it; its position is the mass-weighted centroid of these particles, its
  activation energy the sum of their energies, its memory strength 1. In particular,
  for particles at the levels 0, 0, 1 in any order the result has two nodes, of levels
  0 and 1; the parent of the second is the first, and the children of the first
  contain the identifier of the second.
\<close>

theorem tree_is_forest:
  assumes "\<forall>p\<in>set particles. 0 < mass p"
  shows "\<exists>nodes. buildHolarchicTree newId particles maxDepth = Some nodes
     \<and> map level nodes = sorted_list_of_set (holarchyLevel ` set particles)
     \<and> (\<forall>n\<in>set nodes. \<forall>pid. parent n = Some pid \<longrightarrow>
           (\<exists>m\<in>set nodes. id_n m = pid \<and> level m < level n \<and> id_n n \<in> set (children m)))
     \<and> (\<forall>i<length nodes.
           parent (nodes ! i) = (if i = 0 then None else Some (id_n (nodes ! (i - 1))))
         \<and> children (nodes ! i) =
             map id_p (filter (\<lambda>p. holarchyLevel p = level (nodes ! i)) particles)
               @ (if Suc i < length nodes then [id_n (nodes ! Suc i)] else [])
         \<and> position_n (nodes ! i) =
             massCentroid (filter (\<lambda>p. holarchyLevel p = level (nodes ! i)) particles)
         \<and> activationEnergy (nodes ! i) =
             sum_list (map energy (filter (\<lambda>p. holarchyLevel p = level (nodes ! i)) particles))
         \<and> memoryStrength (nodes ! i) = 1)
     \<and> (sort (map holarchyLevel particles) = [0, 0, 1] \<longrightarrow>
           length nodes = 2 \<and> level (nodes ! 0) = 0 \<and> level (nodes ! 1) = 1
         \<and> parent (nodes ! 0) = None
         \<and> parent (nodes ! 1) = Some (id_n (nodes ! 0))
         \<and> id_n (nodes ! 1) \<in> set (children (nodes ! 0)))"
proof -
  from buildHolarchicTree_nodes [OF assms, of newId maxDepth] obtain nodes where
    run: "buildHolarchicTree newId particles maxDepth = Some nodes"
    and lv: "map level nodes = sorted_list_of_set (holarchyLevel ` set particles)"
    and par: "\<And>i. i < length nodes \<Longrightarrow>
        parent (nodes ! i) = (if i = 0 then None else Some (id_n (nodes ! (i - 1))))"
    and chi: "\<And>i. i < length nodes \<Longrightarrow> 0 < i \<Longrightarrow> id_n (nodes ! i) \<in> set (children (nodes ! (i - 1)))"
    and con: "\<forall>i<length nodes.
           children (nodes ! i) =
             map id_p (filter (\<lambda>p. holarchyLevel p = level (nodes ! i)) particles)
               @ (if Suc i < length nodes then [id_n (nodes ! Suc i)] else [])
         \<and> position_n (nodes ! i) =
             massCentroid (filter (\<lambda>p. holarchyLevel p = level (nodes ! i)) particles)
         \<and> activationEnergy (nodes ! i) =
             sum_list (map energy (filter (\<lambda>p. holarchyLevel p = level (nodes ! i)) particles))
         \<and> memoryStrength (nodes ! i) = 1"
    by blast
  have strict: "sorted_wrt (<) (map level nodes)"
    unfolding lv by (simp add: strict_sorted_iff)
  have forest: "\<exists>m\<in>set nodes. id_n m = pid \<and> level m < level n \<and> id_n n \<in> set (children m)"
    if n: "n \<in> set nodes" and p: "parent n = Some pid" for n pid
  proof -
    from n obtain i where i: "i < length nodes" "n = nodes ! i" by (auto simp add: in_set_conv_nth)
    with par [OF i(1)] p have pos: "0 < i" and pid: "pid = id_n (nodes ! (i - 1))"
      by (auto split: if_splits)
    have less: "i - 1 < i" "i - 1 < length nodes" using pos i(1) by simp_all
    have "level (nodes ! (i - 1)) < level (nodes ! i)"
      using sorted_wrt_nth_less [OF strict, of "i - 1" i] less i(1) by simp
    moreover have "nodes ! (i - 1) \<in> set nodes" using less(2) by simp
    ultimately show ?thesis using pid chi [OF i(1) pos] i(2) by blast
  qed
  have each: "\<forall>i<length nodes.
           parent (nodes ! i) = (if i = 0 then None else Some (id_n (nodes ! (i - 1))))
         \<and> children (nodes ! i) =
             map id_p (filter (\<lambda>p. holarchyLevel p = level (nodes ! i)) particles)
               @ (if Suc i < length nodes then [id_n (nodes ! Suc i)] else [])
         \<and> position_n (nodes ! i) =
             massCentroid (filter (\<lambda>p. holarchyLevel p = level (nodes ! i)) particles)
         \<and> activationEnergy (nodes ! i) =
             sum_list (map energy (filter (\<lambda>p. holarchyLevel p = level (nodes ! i)) particles))
         \<and> memoryStrength (nodes ! i) = 1"
    using par con by blast
  have scenario: "length nodes = 2 \<and> level (nodes ! 0) = 0 \<and> level (nodes ! 1) = 1
         \<and> parent (nodes ! 0) = None
         \<and> parent (nodes ! 1) = Some (id_n (nodes ! 0))
         \<and> id_n (nodes ! 1) \<in> set (children (nodes ! 0))"
    if l: "sort (map holarchyLevel particles) = [0, 0, 1]"
  proof -
    have "holarchyLevel ` set particles = set (sort (map holarchyLevel particles))" by simp
    also have "\<dots> = {0, 1}" unfolding l by auto
    finally have "map level nodes = sorted_list_of_set {0, 1 :: int}" using lv by simp
    also have "sorted_list_of_set {0, 1 :: int} = [0, 1]"
      by (rule sorted_distinct_set_unique) auto
    finally have two: "map level nodes = [0, 1]" .
    then have len: "length nodes = 2" by (metis length_map length_Cons list.size(3) numeral_2_eq_2)
    have l0: "level (nodes ! 0) = 0" and l1: "level (nodes ! 1) = 1"
      using two len by (metis nth_map nth_Cons_0 zero_less_numeral,
          metis nth_map nth_Cons_0 nth_Cons_Suc One_nat_def one_less_numeral_iff semiring_norm(76))
    show ?thesis using len l0 l1 par [of 0] par [of 1] chi [of 1] by simp
  qed
  show ?thesis using run lv forest each scenario by blast
qed

text \<open>A run of \<^verbatim>\<open>buildHolarchicTree\<close> on particles at the levels 0, 0, 1.\<close>

lemma tree_example:
  "buildHolarchicTree (\<lambda>n. if n = 0 then ''m0'' else ''m1'')
     [exampleParticle ''a'' (0, 0, 0) (0, 0, 0) 1 1 0,
      exampleParticle ''b'' (1, 0, 0) (0, 0, 0) 1 1 0,
      exampleParticle ''c'' (5, 0, 0) (0, 0, 0) 1 1 1] 3
   = Some [\<lparr>id_n = ''m0'', level = 0, position_n = (0.5, 0, 0), children = [''a'', ''b'', ''m1''],
             parent = None, activationEnergy = 0, memoryStrength = 1\<rparr>,
           \<lparr>id_n = ''m1'', level = 1, position_n = (5, 0, 0), children = [''c''],
             parent = Some ''m0'', activationEnergy = 0, memoryStrength = 1\<rparr>]"
  by (simp add: buildHolarchicTree_def Let_def mapHas_def mapGet_def exampleParticle_def
      createMemoryNodeFromParticles_def jsDivide_def)

text \<open>The same particles with the level-1 particle first: the nodes are created in the
  order of the levels 1, 0 and sorted before they are linked.\<close>

lemma tree_example_reordered:
  "buildHolarchicTree (\<lambda>n. if n = 0 then ''m0'' else ''m1'')
     [exampleParticle ''c'' (5, 0, 0) (0, 0, 0) 1 1 1,
      exampleParticle ''a'' (0, 0, 0) (0, 0, 0) 1 1 0,
      exampleParticle ''b'' (1, 0, 0) (0, 0, 0) 1 1 0] 3
   = Some [\<lparr>id_n = ''m1'', level = 0, position_n = (0.5, 0, 0), children = [''a'', ''b'', ''m0''],
             parent = None, activationEnergy = 0, memoryStrength = 1\<rparr>,
           \<lparr>id_n = ''m0'', level = 1, position_n = (5, 0, 0), children = [''c''],
             parent = Some ''m1'', activationEnergy = 0, memoryStrength = 1\<rparr>]"
  by (simp add: buildHolarchicTree_def Let_def mapHas_def mapGet_def exampleParticle_def
      createMemoryNodeFromParticles_def jsDivide_def)

theorem tree_is_forest_witness:
  "0 < mass (exampleParticle ''c'' (5, 0, 0) (0, 0, 0) 1 1 1)
   \<and> 0 < mass (exampleParticle ''a'' (0, 0, 0) (0, 0, 0) 1 1 0)
   \<and> 0 < mass (exampleParticle ''b'' (1, 0, 0) (0, 0, 0) 1 1 0)
   \<and> sort (map holarchyLevel
        [exampleParticle ''c'' (5, 0, 0) (0, 0, 0) 1 1 1,
         exampleParticle ''a'' (0, 0, 0) (0, 0, 0) 1 1 0,
         exampleParticle ''b'' (1, 0, 0) (0, 0, 0) 1 1 0]) = [0, 0, 1]
   \<and> (\<exists>nodes. buildHolarchicTree (\<lambda>n. if n = 0 then ''m0'' else ''m1'')
          [exampleParticle ''c'' (5, 0, 0) (0, 0, 0) 1 1 1,
           exampleParticle ''a'' (0, 0, 0) (0, 0, 0) 1 1 0,
           exampleParticle ''b'' (1, 0, 0) (0, 0, 0) 1 1 0] 3 = Some nodes
        \<and> length nodes = 2 \<and> level (nodes ! 0) = 0 \<and> level (nodes ! 1) = 1
        \<and> parent (nodes ! 0) = None
        \<and> parent (nodes ! 1) = Some (id_n (nodes ! 0))
        \<and> id_n (nodes ! 1) \<in> set (children (nodes ! 0)))"
proof -
  let ?ps = "[exampleParticle ''c'' (5, 0, 0) (0, 0, 0) 1 1 1,
         exampleParticle ''a'' (0, 0, 0) (0, 0, 0) 1 1 0,
         exampleParticle ''b'' (1, 0, 0) (0, 0, 0) 1 1 0]"
  have m: "\<forall>p\<in>set ?ps. 0 < mass p" by (simp add: exampleParticle_def)
  have l: "sort (map holarchyLevel ?ps) = [0, 0, 1]" by (simp add: exampleParticle_def)
  from tree_is_forest [OF m, of "\<lambda>n. if n = 0 then ''m0'' else ''m1''" 3] l
  have "\<exists>nodes. buildHolarchicTree (\<lambda>n. if n = 0 then ''m0'' else ''m1'') ?ps 3 = Some nodes
        \<and> length nodes = 2 \<and> level (nodes ! 0) = 0 \<and> level (nodes ! 1) = 1
        \<and> parent (nodes ! 0) = None
        \<and> parent (nodes ! 1) = Some (id_n (nodes ! 0))
        \<and> id_n (nodes ! 1) \<in> set (children (nodes ! 0))"
    by blast
  then show ?thesis using m l by simp
qed

end
